theory Spec2Isabelle
  imports Main "HOL-Library.Sublist"
begin

section \<open>Strings of the server\<close>

text \<open>
  A JavaScript string is a sequence of UTF-16 code units. \<open>String.prototype.includes\<close>,
  a regular expression without the \<open>u\<close> flag, \<open>trim\<close> and \<open>length\<close> all work on code
  units, so a string is modelled as the list of its code units, each a natural number.
  Every literal of the source lies in the Basic Multilingual Plane: one code unit per
  character, written here in decimal.

  The counters of the server (\<open>currentTurn\<close>, \<open>totalTurns\<close>) are JavaScript numbers that
  only ever hold small non-negative integers; they are modelled as naturals.
\<close>

type_synonym jsstring = "nat list"

definition ascii :: "string \<Rightarrow> jsstring" where
  "ascii cs = map of_char cs"

text \<open>The class \<open>\s\<close> of a JavaScript regular expression, which is also the set that
  \<open>trim\<close> strips: TAB, LF, VT, FF, CR, SPACE, NBSP, U+1680, U+2000 to U+200A, U+2028,
  U+2029, U+202F, U+205F, U+3000 and U+FEFF.\<close>

definition is_space :: "nat \<Rightarrow> bool" where
  "is_space c \<longleftrightarrow>
     (9 \<le> c \<and> c \<le> 13) \<or> c = 32 \<or> c = 160 \<or> c = 5760 \<or> (8192 \<le> c \<and> c \<le> 8202) \<or>
     c = 8232 \<or> c = 8233 \<or> c = 8239 \<or> c = 8287 \<or> c = 12288 \<or> c = 65279"

text \<open>\<open>text.replace(/\s+/g, "")\<close>: every run of white space is deleted.\<close>

definition strip_ws :: "jsstring \<Rightarrow> jsstring" where
  "strip_ws text = filter (\<lambda>c. \<not> is_space c) text"

text \<open>\<open>text.trim()\<close>\<close>

definition js_trim :: "jsstring \<Rightarrow> jsstring" where
  "js_trim text = rev (dropWhile is_space (rev (dropWhile is_space text)))"

text \<open>\<open>text.includes(word)\<close>: \<open>word\<close> occurs in \<open>text\<close> as a contiguous run.\<close>

fun starts_with :: "jsstring \<Rightarrow> jsstring \<Rightarrow> bool" where
  "starts_with text [] = True"
| "starts_with [] (w # ws) = False"
| "starts_with (c # cs) (w # ws) = (c = w \<and> starts_with cs ws)"

fun js_includes :: "jsstring \<Rightarrow> jsstring \<Rightarrow> bool" where
  "js_includes [] word = (word = [])"
| "js_includes (c # cs) word = (starts_with (c # cs) word \<or> js_includes cs word)"

text \<open>\<open>words.some((word) => text.includes(word))\<close>, and equally the test of a regular
  expression that is an alternation of literal words, \<open>/w1|w2|.../.test(text)\<close>.\<close>

definition includes_any :: "jsstring list \<Rightarrow> jsstring \<Rightarrow> bool" where
  "includes_any words text = list_ex (js_includes text) words"

text \<open>\<open>parts.join(sep)\<close>\<close>

fun join :: "jsstring \<Rightarrow> jsstring list \<Rightarrow> jsstring" where
  "join sep [] = []"
| "join sep [x] = x"
| "join sep (x # y # ys) = x @ sep @ join sep (y # ys)"

section \<open>Roles and coverage\<close>

datatype aikey = Ai_a | Ai_b

text \<open>\<open>AI_PROFILES[key].name\<close>: \<open>ai_a\<close> is the interviewer, \<open>ai_b\<close> the candidate.\<close>

fun profile_name :: "aikey \<Rightarrow> jsstring" where
  "profile_name Ai_a = ascii ''Interviewer''"
| "profile_name Ai_b = ascii ''Candidate''"

text \<open>\<open>key === "ai_a" ? "ai_b" : "ai_a"\<close>\<close>

fun other_key :: "aikey \<Rightarrow> aikey" where
  "other_key Ai_a = Ai_b"
| "other_key Ai_b = Ai_a"

definition MIN_TURNS :: nat where "MIN_TURNS = 20"
definition MAX_TURNS :: nat where "MAX_TURNS = 40"

text \<open>The two closing markers \<open>endMarkers\<close>: the words "interview finished" and
  "interview aborted", each between the brackets U+3010 and U+3011.\<close>

definition endMarkers :: "jsstring list" where
  "endMarkers =
    [[12304, 38754, 25509, 32066, 20102, 12305],
     [12304, 38754, 25509, 20013, 27490, 12305]]"

datatype coverage_key = Experience | Motivation | Language | Shift | Stamina | Visa

text \<open>The keys of the object \<open>coverage\<close> in insertion order, which is the order of
  \<open>Object.entries\<close> and \<open>Object.values\<close>.\<close>

definition coverage_keys :: "coverage_key list" where
  "coverage_keys = [Experience, Motivation, Language, Shift, Stamina, Visa]"

type_synonym coverage = "coverage_key \<Rightarrow> bool"

fun coverageLabels :: "coverage_key \<Rightarrow> jsstring" where
  "coverageLabels Experience = [32076, 39443, 12539, 26989, 21209]"
| "coverageLabels Motivation = [21205, 27231, 12539, 29702, 30001]"
| "coverageLabels Language = [26085, 26412, 35486, 21147]"
| "coverageLabels Shift = [12471, 12501, 12488, 12539, 22812, 21220]"
| "coverageLabels Stamina = [20307, 21147, 12539, 20581, 24247]"
| "coverageLabels Visa = [22312, 30041, 47, 38283, 22987, 26178, 26399]"

text \<open>The alternatives of the six regular expressions of \<open>updateCoverage\<close>, in the order
  of the source.\<close>

fun coverage_words :: "coverage_key \<Rightarrow> jsstring list" where
  "coverage_words Experience =
    [[32076, 39443], [21069, 32887], [20171, 35703], [26989, 21209], [20181, 20107],
     [20685, 12356], [21220, 21209]]"
| "coverage_words Motivation =
    [[24535, 26395], [29702, 30001], [21205, 27231], [12394, 12380],
     [12365, 12387, 12363, 12369], [12420, 12426, 12383, 12356], [33288, 21619]]"
| "coverage_words Language =
    [[26085, 26412, 35486], [20250, 35441],
     [12467, 12511, 12517, 12491, 12465, 12540, 12471, 12519, 12531],
     [32862, 12365, 21462, 12426], [35501, 12415], [26360, 12365]]"
| "coverage_words Shift =
    [[12471, 12501, 12488], [22812, 21220], [26089, 30058], [36933, 30058],
     [21220, 21209, 26178, 38291], [36913], [26178, 38291, 24111], [20241, 12415]]"
| "coverage_words Stamina =
    [[20307, 21147], [20581, 24247], [33136], [25345, 30149], [30130, 12428], [21147]]"
| "coverage_words Visa =
    [[12499, 12470], [22312, 30041], [28382, 22312], [36039, 26684], [23601, 21172],
     [26399, 38291], [20837, 31038], [38283, 22987, 26085], [12356, 12388, 12363, 12425]]"

text \<open>One statement \<open>if (!coverage.k && /.../.test(normalized)) coverage.k = true\<close>.\<close>

definition detect :: "coverage_key \<Rightarrow> jsstring \<Rightarrow> coverage \<Rightarrow> coverage" where
  "detect k normalized cov =
     (if \<not> cov k \<and> includes_any (coverage_words k) normalized then cov(k := True) else cov)"

definition updateCoverage :: "jsstring \<Rightarrow> coverage \<Rightarrow> coverage" where
  "updateCoverage text cov =
     (let normalized = strip_ws text in
      if normalized = [] then cov
      else detect Visa normalized
            (detect Stamina normalized
              (detect Shift normalized
                (detect Language normalized
                  (detect Motivation normalized
                    (detect Experience normalized cov))))))"

definition hasAllCoverage :: "coverage \<Rightarrow> bool" where
  "hasAllCoverage cov = list_all cov coverage_keys"

definition missing_keys :: "coverage \<Rightarrow> coverage_key list" where
  "missing_keys cov = filter (\<lambda>k. \<not> cov k) coverage_keys"

definition listMissingCoverage :: "coverage \<Rightarrow> jsstring" where
  "listMissingCoverage cov = join (ascii '', '') (map coverageLabels (missing_keys cov))"

section \<open>Routing of a human utterance\<close>

definition candidateHints :: "jsstring list" where
  "candidateHints =
    [[26412, 20154], [20505, 35036, 32773], [27714, 32887, 32773], [12510, 12522, 12450],
     [24444, 22899], [24444], [26085, 26412, 35486], [32076, 39443], [20171, 35703],
     [36039, 26684], [21069, 32887], [20685, 12356], [12391, 12365, 12414, 12377],
     [12391, 12365, 12427]]"

definition interviewerHints :: "jsstring list" where
  "interviewerHints =
    [[24481, 31038], [26045, 35373], [25505, 29992], [26465, 20214], [21220, 21209],
     [12471, 12501, 12488], [22812, 21220], [38754, 25509, 23448], [20250, 31038],
     [32887, 22580], [24453, 36935], [32102, 19982], [20837, 31038], [38599, 29992]]"

text \<open>The result of \<open>pickNextSpeaker\<close> is \<open>AiKey | "both" | null\<close>; \<open>null\<close> is \<open>None\<close>.\<close>

datatype decision = To aikey | Both

definition pickNextSpeaker :: "jsstring \<Rightarrow> decision option" where
  "pickNextSpeaker utterance =
     (let text = strip_ws utterance in
      if text = [] then None
      else
        (let toCandidate = includes_any candidateHints text;
             toInterviewer = includes_any interviewerHints text
         in if toCandidate \<and> toInterviewer then Some Both
            else if toCandidate then Some (To Ai_b)
            else if toInterviewer then Some (To Ai_a)
            else None))"

section \<open>State of one client connection\<close>

text \<open>\<open>readyState\<close> of a WebSocket.\<close>

datatype ready_state = Connecting | Open | Closing | Closed

datatype end_reason = Marker | Max_turns

text \<open>The payloads of \<open>sendToClient\<close>.\<close>

datatype client_out =
    Sessions_ready
  | Waiting_for_sessions
  | Audio aikey nat jsstring
  | Audio_start aikey jsstring nat
  | Transcript_delta aikey jsstring nat jsstring
  | Audio_done aikey nat
  | Transcript_done aikey jsstring nat jsstring
  | User_transcript jsstring
  | Session_ended end_reason
  | Error jsstring

text \<open>The messages the handlers send to a provider socket. \<open>Conversation_item_create\<close>
  carries the \<open>input_text\<close> of its one user message.\<close>

datatype provider_out =
    Response_create
  | Conversation_item_create jsstring
  | Input_audio_buffer_append jsstring
  | Input_audio_buffer_commit

text \<open>The lines of \<open>logEvent\<close>; a transcript line carries \<open>len=\<close>.\<close>

datatype log_event =
    Log_audio_start
  | Log_audio_done
  | Log_transcript_delta nat
  | Log_transcript_done nat
  | Log_response_create
  | Log_audio_playback_done

text \<open>
  The message handler uses \<open>message.target\<close> as a property name without checking it.
  Its declared type is \<open>AiKey\<close>, but the message is what \<open>JSON.parse\<close> returns. A truthy
  target that is neither the string \<open>"ai_a"\<close> nor the string \<open>"ai_b"\<close> is of one of three
  kinds, and the handler's behaviour depends on the kind only:
  \<^item> \<open>Wrapped key\<close>: a value that is not a string and whose property name is the name of a
    role, such as the array \<open>["ai_a"]\<close>. Every \<open>x[target]\<close> is the entry of the role, and
    \<open>target === "ai_a"\<close> is false.
  \<^item> \<open>Inherited\<close>: a value whose property name is that of a member every object inherits,
    such as \<open>"constructor"\<close>, \<open>"toString"\<close> or \<open>"__proto__"\<close>. Every \<open>x[target]\<close> reads a
    function or an object: a truthy value, equal to no value of a JSON message.
  \<^item> \<open>Unknown\<close>: any other value. Every \<open>x[target]\<close> reads \<open>undefined\<close>, unless the
    handler has assigned it before.
\<close>

datatype untyped_target = Wrapped aikey | Inherited | Unknown

text \<open>
  The variables of the \<open>connection\<close> closure, under their names. A \<open>Record<AiKey, T>\<close> is a
  function from \<open>aikey\<close>. \<open>transcriptFinalText\<close> is \<open>string | null\<close>. The effects are
  part of the state: the \<open>readyState\<close> of the three sockets, the messages sent to the
  client and to each provider socket in the order of sending, the \<open>setTimeout\<close> tasks of
  \<open>requestAiResponse\<close> that have not run yet (the role whose socket the task captured, and
  its delay in milliseconds), and the lines written by \<open>logEvent\<close> (role, turn, event).
  \<open>strayPlaybackDone\<close> is the part of the object \<open>playbackDone\<close> that belongs to no role: the
  targets, other than roles, for which the message handler has executed
  \<open>playbackDone[message.target] = true\<close>, each time followed by a line of \<open>logEvent\<close>
  that names no role.
\<close>

record state =
  sessionReady :: "aikey \<Rightarrow> bool"
  pendingStart :: bool
  autoMode :: bool
  userSpeaking :: bool
  queuedNextKeys :: "aikey list"
  totalTurns :: nat
  sessionEnded :: bool
  sessionEndReason :: "end_reason option"
  transcriptBuffers :: "aikey \<Rightarrow> jsstring"
  audioStarted :: "aikey \<Rightarrow> bool"
  audioDone :: "aikey \<Rightarrow> bool"
  transcriptDone :: "aikey \<Rightarrow> bool"
  transcriptSent :: "aikey \<Rightarrow> bool"
  playbackDone :: "aikey \<Rightarrow> bool"
  currentTurn :: "aikey \<Rightarrow> nat"
  transcriptDeltaQueue :: "aikey \<Rightarrow> jsstring list"
  transcriptFinalText :: "aikey \<Rightarrow> jsstring option"
  lastUserTranscript :: jsstring
  lastUserTranscriptAt :: int
  coverage :: coverage
  aiSockets :: "aikey \<Rightarrow> ready_state"
  clientSocket :: ready_state
  toClient :: "client_out list"
  toProvider :: "aikey \<Rightarrow> provider_out list"
  timers :: "(aikey \<times> nat) list"
  turnLog :: "(aikey \<times> nat \<times> log_event) list"
  strayPlaybackDone :: "untyped_target list"

text \<open>The state when the client connects: the initial values of the declarations; the
  client socket is open, the two provider sockets have just been created.\<close>

definition initial_state :: state where
  "initial_state =
     \<lparr> sessionReady = (\<lambda>_. False), pendingStart = False, autoMode = False,
       userSpeaking = False, queuedNextKeys = [], totalTurns = 0, sessionEnded = False,
       sessionEndReason = None, transcriptBuffers = (\<lambda>_. []), audioStarted = (\<lambda>_. False),
       audioDone = (\<lambda>_. False), transcriptDone = (\<lambda>_. False),
       transcriptSent = (\<lambda>_. False), playbackDone = (\<lambda>_. False),
       currentTurn = (\<lambda>_. 0), transcriptDeltaQueue = (\<lambda>_. []),
       transcriptFinalText = (\<lambda>_. None), lastUserTranscript = [],
       lastUserTranscriptAt = 0, coverage = (\<lambda>_. False),
       aiSockets = (\<lambda>_. Connecting), clientSocket = Open, toClient = [],
       toProvider = (\<lambda>_. []), timers = [], turnLog = [], strayPlaybackDone = [] \<rparr>"

section \<open>Helpers of the connection\<close>

definition logEvent :: "aikey \<Rightarrow> log_event \<Rightarrow> state \<Rightarrow> state" where
  "logEvent key ev s = s\<lparr>turnLog := turnLog s @ [(key, currentTurn s key, ev)]\<rparr>"

definition sendToClient :: "client_out \<Rightarrow> state \<Rightarrow> state" where
  "sendToClient payload s =
     (if clientSocket s = Open then s\<lparr>toClient := toClient s @ [payload]\<rparr> else s)"

text \<open>\<open>aiSockets[key].send(...)\<close>; every caller tests \<open>readyState\<close> first.\<close>

definition socket_send :: "aikey \<Rightarrow> provider_out \<Rightarrow> state \<Rightarrow> state" where
  "socket_send key msg s = s\<lparr>toProvider := (toProvider s)(key := toProvider s key @ [msg])\<rparr>"

definition endSession :: "end_reason \<Rightarrow> state \<Rightarrow> state" where
  "endSession reason s =
     (if sessionEnded s then s
      else sendToClient (Session_ended reason)
             (s\<lparr>sessionEnded := True, sessionEndReason := Some reason, autoMode := False,
                queuedNextKeys := []\<rparr>))"

text \<open>\<open>requestAiResponse\<close>: the guard, the new turn, the reset of the per-turn variables,
  and the task that will send \<open>response.create\<close> after \<open>delayMs\<close>.\<close>

definition requestAiResponse :: "aikey \<Rightarrow> nat \<Rightarrow> state \<Rightarrow> state" where
  "requestAiResponse key delayMs s =
     (if aiSockets s key \<noteq> Open then s
      else
        (let s1 = s\<lparr>currentTurn := (currentTurn s)(key := currentTurn s key + 1)\<rparr>;
             s2 = logEvent key Log_response_create s1
         in s2\<lparr>audioStarted := (audioStarted s2)(key := False),
                audioDone := (audioDone s2)(key := False),
                transcriptDone := (transcriptDone s2)(key := False),
                transcriptSent := (transcriptSent s2)(key := False),
                playbackDone := (playbackDone s2)(key := False),
                transcriptDeltaQueue := (transcriptDeltaQueue s2)(key := []),
                transcriptFinalText := (transcriptFinalText s2)(key := None),
                transcriptBuffers := (transcriptBuffers s2)(key := []),
                timers := timers s2 @ [(key, delayMs)]\<rparr>))"

text \<open>The body of the task of \<open>setTimeout\<close>, for the socket of \<open>key\<close>.\<close>

definition timer_body :: "aikey \<Rightarrow> state \<Rightarrow> state" where
  "timer_body key s = (if aiSockets s key \<noteq> Open then s else socket_send key Response_create s)"

definition checkTurnCompletion :: "aikey \<Rightarrow> state \<Rightarrow> state" where
  "checkTurnCompletion key s =
     (if \<not> audioDone s key \<or> \<not> transcriptDone s key \<or> \<not> playbackDone s key then s
      else if \<not> autoMode s \<or> userSpeaking s then s
      else if sessionEnded s then s
      else
        (case queuedNextKeys s of
           [] \<Rightarrow> requestAiResponse (other_key key) 450 s
         | nextKey # rest \<Rightarrow> requestAiResponse nextKey 450 (s\<lparr>queuedNextKeys := rest\<rparr>)))"

text \<open>A string or \<open>null\<close> used as a condition: \<open>null\<close> and the empty string are false.\<close>

fun truthy :: "jsstring option \<Rightarrow> bool" where
  "truthy None = False"
| "truthy (Some t) = (t \<noteq> [])"

text \<open>The block that forwards the final transcript to the client; the source has it twice,
  in \<open>onAudioDone\<close> and in \<open>onTranscriptDone\<close>, each under its own condition.\<close>

definition send_transcript_done :: "aikey \<Rightarrow> state \<Rightarrow> state" where
  "send_transcript_done key s =
     (let s1 = sendToClient
                 (Transcript_done key (profile_name key) (currentTurn s key)
                    (case transcriptFinalText s key of Some t \<Rightarrow> t | None \<Rightarrow> []))
                 s
      in s1\<lparr>transcriptFinalText := (transcriptFinalText s1)(key := None),
             transcriptDeltaQueue := (transcriptDeltaQueue s1)(key := []),
             transcriptSent := (transcriptSent s1)(key := True)\<rparr>)"

section \<open>Handlers of the provider events\<close>

definition onReady :: "aikey \<Rightarrow> state \<Rightarrow> state" where
  "onReady key s =
     (let s1 = s\<lparr>sessionReady := (sessionReady s)(key := True)\<rparr> in
      if pendingStart s1 \<and> sessionReady s1 Ai_a \<and> sessionReady s1 Ai_b then
        (let s2 = sendToClient Sessions_ready (s1\<lparr>pendingStart := False\<rparr>) in
         if autoMode s2 then requestAiResponse Ai_a 0 s2 else s2)
      else s1)"

definition onAudioDelta :: "aikey \<Rightarrow> jsstring \<Rightarrow> state \<Rightarrow> state" where
  "onAudioDelta key audioBase64 s =
     (let s1 = sendToClient (Audio key (currentTurn s key) audioBase64) s;
          s2 = (if \<not> audioStarted s1 key then
                  sendToClient (Audio_start key (profile_name key) (currentTurn s1 key))
                    (logEvent key Log_audio_start
                       (s1\<lparr>audioStarted := (audioStarted s1)(key := True)\<rparr>))
                else s1)
      in case transcriptDeltaQueue s2 key of
           [] \<Rightarrow> s2
         | delta # rest \<Rightarrow>
             (let s3 = s2\<lparr>transcriptDeltaQueue := (transcriptDeltaQueue s2)(key := rest)\<rparr> in
              if delta \<noteq> [] then
                sendToClient (Transcript_delta key (profile_name key) (currentTurn s3 key) delta) s3
              else s3))"

definition onAudioDone :: "aikey \<Rightarrow> state \<Rightarrow> state" where
  "onAudioDone key s =
     (let s1 = logEvent key Log_audio_done s;
          s2 = sendToClient (Audio_done key (currentTurn s1 key)) s1;
          s3 = s2\<lparr>audioDone := (audioDone s2)(key := True)\<rparr>;
          s4 = (if truthy (transcriptFinalText s3 key) \<and> \<not> transcriptSent s3 key
                then send_transcript_done key s3 else s3)
      in checkTurnCompletion key s4)"

definition onTranscriptDelta :: "aikey \<Rightarrow> jsstring \<Rightarrow> state \<Rightarrow> state" where
  "onTranscriptDelta key delta s =
     (let s1 = s\<lparr>transcriptBuffers := (transcriptBuffers s)(key := transcriptBuffers s key @ delta)\<rparr>
      in if delta \<noteq> [] then
           logEvent key (Log_transcript_delta (length delta))
             (s1\<lparr>transcriptDeltaQueue :=
                   (transcriptDeltaQueue s1)(key := transcriptDeltaQueue s1 key @ [delta])\<rparr>)
         else s1)"

text \<open>\<open>transcript || transcriptBuffers[key]\<close>\<close>

definition final_text :: "aikey \<Rightarrow> jsstring \<Rightarrow> state \<Rightarrow> jsstring" where
  "final_text key transcript s = (if transcript \<noteq> [] then transcript else transcriptBuffers s key)"

text \<open>\<open>endMarkers.some((marker) => finalText.includes(marker))\<close>\<close>

definition has_end_marker :: "jsstring \<Rightarrow> bool" where
  "has_end_marker finalText = includes_any endMarkers finalText"

text \<open>The text of the message sent back to the interviewer when a marker is ignored.\<close>

definition continue_text :: "jsstring \<Rightarrow> jsstring" where
  "continue_text missing =
     ascii ''Continue the interview. Missing topics: '' @ missing @ ascii ''. Do NOT close yet.''"

text \<open>The text by which one role hears the other: \<open>[label said]: finalText\<close>.\<close>

definition said_text :: "aikey \<Rightarrow> jsstring \<Rightarrow> jsstring" where
  "said_text key finalText =
     ascii ''['' @ (if key = Ai_a then ascii ''Interviewer'' else ascii ''Candidate'')
       @ ascii '' said]: '' @ finalText"

text \<open>The end-of-session part of \<open>onTranscriptDone\<close>: the marker with its guard and the
  message to the interviewer, else the bound on the number of turns.\<close>

definition end_evaluation :: "aikey \<Rightarrow> jsstring \<Rightarrow> state \<Rightarrow> state" where
  "end_evaluation key finalText s =
     (if has_end_marker finalText then
        (if MIN_TURNS \<le> totalTurns s \<and> hasAllCoverage (coverage s) then endSession Marker s
         else if key = Ai_a then
           (let missing = listMissingCoverage (coverage s) in
            if aiSockets s Ai_a = Open \<and> missing \<noteq> [] then
              socket_send Ai_a (Conversation_item_create (continue_text missing)) s
            else s)
         else s)
      else if MAX_TURNS \<le> totalTurns s then endSession Max_turns s
      else s)"

text \<open>The last part of \<open>onTranscriptDone\<close>: the other role receives the text.\<close>

definition inject_context :: "aikey \<Rightarrow> jsstring \<Rightarrow> state \<Rightarrow> state" where
  "inject_context key finalText s =
     (if js_trim finalText \<noteq> [] then
        (let otherKey = other_key key in
         if aiSockets s otherKey = Open then
           socket_send otherKey (Conversation_item_create (said_text key finalText)) s
         else s)
      else s)"

definition onTranscriptDone :: "aikey \<Rightarrow> jsstring \<Rightarrow> state \<Rightarrow> state" where
  "onTranscriptDone key transcript s =
     (let finalText = final_text key transcript s;
          s1 = s\<lparr>transcriptBuffers := (transcriptBuffers s)(key := []),
                 transcriptFinalText := (transcriptFinalText s)(key := Some finalText),
                 transcriptDone := (transcriptDone s)(key := True)\<rparr>;
          s2 = logEvent key (Log_transcript_done (length finalText)) s1;
          s3 = s2\<lparr>totalTurns := totalTurns s2 + 1\<rparr>;
          s4 = (if key = Ai_a then s3\<lparr>coverage := updateCoverage finalText (coverage s3)\<rparr>
                else s3);
          s5 = end_evaluation key finalText s4;
          s6 = (if audioDone s5 key \<and> truthy (transcriptFinalText s5 key) \<and> \<not> transcriptSent s5 key
                then send_transcript_done key s5 else s5);
          s7 = checkTurnCompletion key s6
      in inject_context key finalText s7)"

text \<open>\<open>now\<close> is the value of \<open>Date.now()\<close> when the handler runs.\<close>

definition onInputTranscriptDone :: "aikey \<Rightarrow> jsstring \<Rightarrow> int \<Rightarrow> state \<Rightarrow> state" where
  "onInputTranscriptDone key transcript now s =
     (if key \<noteq> Ai_a then s
      else
        (let normalized = js_trim transcript in
         if normalized = [] then s
         else if normalized = lastUserTranscript s \<and> now - lastUserTranscriptAt s < 2000 then s
         else sendToClient (User_transcript normalized)
                (s\<lparr>lastUserTranscript := normalized, lastUserTranscriptAt := now\<rparr>)))"

definition onError :: "jsstring \<Rightarrow> state \<Rightarrow> state" where
  "onError message s = sendToClient (Error message) s"

section \<open>Handler of the client messages\<close>

text \<open>
  A parsed client message: its \<open>type\<close> with the fields the handler reads. \<open>target\<close> and
  \<open>turnId\<close> may be absent (or falsy, for \<open>target\<close>); in \<open>Request_ai\<close> and
  \<open>Audio_playback_done\<close> the target is one of the two strings of \<open>AiKey\<close>, and \<open>turnId\<close> is
  a number. \<open>Other_message\<close> is a message of any other type, or one that does not parse.
  \<open>User_done\<close> carries the value of \<open>Date.now()\<close> when it is handled.

  Messages outside the declared type:
  \<^item> \<open>Audio_playback_done_untyped\<close> is an \<open>audio_playback_done\<close> whose target is truthy and
    not one of the two strings.
  \<^item> A \<open>request_ai\<close> with such a target has no constructor of its own. With a target of
    the kind \<open>Wrapped key\<close> every statement of \<open>requestAiResponse\<close> does what it does for
    the string, and the message is \<open>Request_ai (Some key)\<close>. With any other target
    \<open>aiSockets[key]\<close> is no socket with \<open>readyState\<close> \<open>OPEN\<close>, \<open>requestAiResponse\<close> returns
    at its guard, and the message is \<open>Request_ai None\<close>.
  \<^item> A \<open>turnId\<close> that is present and no number (a string, \<open>null\<close>) differs from every
    turn counter, like a number that does not match.
  \<^item> A message that makes the handler throw does so before any assignment, and for the
    state it is \<open>Other_message\<close>: the JSON value \<open>null\<close> (at \<open>message.type\<close>), or a target
    that cannot be converted to a property name, such as an object whose \<open>toString\<close> is
    not a function (at the first \<open>x[target]\<close>).
\<close>

datatype client_in =
    Start
  | Request_ai "aikey option"
  | User_audio jsstring
  | User_audio_commit
  | User_speaking
  | User_done int
  | Audio_playback_done "aikey option" "int option"
  | Audio_playback_done_untyped untyped_target "int option"
  | Other_message

text \<open>\<open>Object.values(aiSockets).forEach(...)\<close>: each open socket receives the message.\<close>

definition send_if_open :: "aikey \<Rightarrow> provider_out \<Rightarrow> state \<Rightarrow> state" where
  "send_if_open key msg s = (if aiSockets s key = Open then socket_send key msg s else s)"

definition broadcast :: "provider_out \<Rightarrow> state \<Rightarrow> state" where
  "broadcast msg s = send_if_open Ai_b msg (send_if_open Ai_a msg s)"

text \<open>The keys queued by \<open>user_done\<close>: the interviewer unless a fresh human transcript
  says otherwise.\<close>

definition next_keys :: "int \<Rightarrow> state \<Rightarrow> aikey list" where
  "next_keys now s =
     (if lastUserTranscript s \<noteq> [] \<and> now - lastUserTranscriptAt s < 5000 then
        (case pickNextSpeaker (lastUserTranscript s) of
           Some (To Ai_a) \<Rightarrow> [Ai_a]
         | Some (To Ai_b) \<Rightarrow> [Ai_b]
         | Some Both \<Rightarrow> [Ai_a, Ai_b]
         | None \<Rightarrow> [Ai_a])
      else [Ai_a])"

definition onStart :: "state \<Rightarrow> state" where
  "onStart s =
     (let s1 = s\<lparr>autoMode := True, sessionEnded := False, sessionEndReason := None,
                 totalTurns := 0, queuedNextKeys := [], coverage := (\<lambda>_. False)\<rparr>
      in if sessionReady s1 Ai_a \<and> sessionReady s1 Ai_b then
           requestAiResponse Ai_a 0 (sendToClient Sessions_ready s1)
         else sendToClient Waiting_for_sessions (s1\<lparr>pendingStart := True\<rparr>))"

definition onUserDone :: "int \<Rightarrow> state \<Rightarrow> state" where
  "onUserDone now s =
     (let s1 = s\<lparr>userSpeaking := False\<rparr> in
      if autoMode s1 \<and> \<not> sessionEnded s1 then
        (case next_keys now s1 of
           [] \<Rightarrow> requestAiResponse Ai_a 350 (s1\<lparr>queuedNextKeys := []\<rparr>)
         | first # rest \<Rightarrow> requestAiResponse first 350 (s1\<lparr>queuedNextKeys := rest\<rparr>))
      else s1)"

definition onAudioPlaybackDone :: "aikey \<Rightarrow> int option \<Rightarrow> state \<Rightarrow> state" where
  "onAudioPlaybackDone target turnId s =
     (if turnId \<noteq> None \<and> turnId \<noteq> Some (int (currentTurn s target)) then s
      else checkTurnCompletion target
             (logEvent target Log_audio_playback_done
                (s\<lparr>playbackDone := (playbackDone s)(target := True)\<rparr>)))"

text \<open>The statements of \<open>checkTurnCompletion\<close> after its first test, when \<open>key\<close> is not the
  string \<open>"ai_a"\<close>: the role asked when the queue is empty is then \<open>"ai_a"\<close>.\<close>

definition request_next :: "state \<Rightarrow> state" where
  "request_next s =
     (if \<not> autoMode s \<or> userSpeaking s then s
      else if sessionEnded s then s
      else
        (case queuedNextKeys s of
           [] \<Rightarrow> requestAiResponse Ai_a 450 s
         | nextKey # rest \<Rightarrow> requestAiResponse nextKey 450 (s\<lparr>queuedNextKeys := rest\<rparr>)))"

text \<open>\<open>checkTurnCompletion\<close> for a key outside \<open>AiKey\<close>. Its first test reads the three flags
  of the role for \<open>Wrapped key\<close>. For \<open>Inherited\<close> the three reads are truthy. For \<open>Unknown\<close>
  \<open>audioDone[key]\<close> is \<open>undefined\<close>, and the function returns.\<close>

fun checkTurnCompletion_untyped :: "untyped_target \<Rightarrow> state \<Rightarrow> state" where
  "checkTurnCompletion_untyped (Wrapped key) s =
     (if \<not> audioDone s key \<or> \<not> transcriptDone s key \<or> \<not> playbackDone s key then s
      else request_next s)"
| "checkTurnCompletion_untyped Inherited s = request_next s"
| "checkTurnCompletion_untyped Unknown s = s"

text \<open>The branch of \<open>audio_playback_done\<close> for a target outside \<open>AiKey\<close>. A \<open>turnId\<close> that is
  present differs from \<open>currentTurn[target]\<close> whenever that is no number.\<close>

fun onUntypedPlaybackDone :: "untyped_target \<Rightarrow> int option \<Rightarrow> state \<Rightarrow> state" where
  "onUntypedPlaybackDone (Wrapped key) turnId s =
     (if turnId \<noteq> None \<and> turnId \<noteq> Some (int (currentTurn s key)) then s
      else checkTurnCompletion_untyped (Wrapped key)
             (logEvent key Log_audio_playback_done
                (s\<lparr>playbackDone := (playbackDone s)(key := True)\<rparr>)))"
| "onUntypedPlaybackDone Inherited turnId s =
     (if turnId \<noteq> None then s
      else checkTurnCompletion_untyped Inherited
             (s\<lparr>strayPlaybackDone := strayPlaybackDone s @ [Inherited]\<rparr>))"
| "onUntypedPlaybackDone Unknown turnId s =
     (if turnId \<noteq> None then s
      else checkTurnCompletion_untyped Unknown
             (s\<lparr>strayPlaybackDone := strayPlaybackDone s @ [Unknown]\<rparr>))"

fun onClientMessage :: "client_in \<Rightarrow> state \<Rightarrow> state" where
  "onClientMessage Start s = onStart s"
| "onClientMessage (Request_ai (Some target)) s = requestAiResponse target 0 s"
| "onClientMessage (Request_ai None) s = s"
| "onClientMessage (User_audio data) s =
     (if data \<noteq> [] then broadcast (Input_audio_buffer_append data) s else s)"
| "onClientMessage User_audio_commit s = broadcast Input_audio_buffer_commit s"
| "onClientMessage User_speaking s = s\<lparr>userSpeaking := True\<rparr>"
| "onClientMessage (User_done now) s = onUserDone now s"
| "onClientMessage (Audio_playback_done (Some target) turnId) s = onAudioPlaybackDone target turnId s"
| "onClientMessage (Audio_playback_done None turnId) s = s"
| "onClientMessage Other_message s = s"
| "onClientMessage (Audio_playback_done_untyped target turnId) s =
     onUntypedPlaybackDone target turnId s"

section \<open>Events of a connection\<close>

text \<open>The callbacks of \<open>RealtimeHandlers\<close>, with their arguments.\<close>

datatype provider_in =
    Ready
  | Audio_delta jsstring
  | Audio_finished
  | Transcript_delta_in jsstring
  | Transcript_finished jsstring
  | Input_transcript jsstring
  | Input_transcript_done jsstring int
  | Provider_error jsstring

fun onProviderEvent :: "aikey \<Rightarrow> provider_in \<Rightarrow> state \<Rightarrow> state" where
  "onProviderEvent key Ready s = onReady key s"
| "onProviderEvent key (Audio_delta audioBase64) s = onAudioDelta key audioBase64 s"
| "onProviderEvent key Audio_finished s = onAudioDone key s"
| "onProviderEvent key (Transcript_delta_in delta) s = onTranscriptDelta key delta s"
| "onProviderEvent key (Transcript_finished transcript) s = onTranscriptDone key transcript s"
| "onProviderEvent key (Input_transcript transcript) s = s"
| "onProviderEvent key (Input_transcript_done transcript now) s =
     onInputTranscriptDone key transcript now s"
| "onProviderEvent key (Provider_error message) s = onError message s"

text \<open>
  Everything that can happen on a connection, one event at a time: a client message, a
  callback of a provider connection, the run of the \<open>i\<close>-th pending task of \<open>setTimeout\<close>
  (any pending task may be the next to run: the model allows every order), a change of
  the \<open>readyState\<close> of a socket, and the close of the client socket, whose handler calls
  \<open>close()\<close> on both provider sockets.
\<close>

datatype event =
    Client client_in
  | Provider aikey provider_in
  | Timer nat
  | Ai_socket aikey ready_state
  | Client_socket ready_state
  | Client_close

definition run_timer :: "nat \<Rightarrow> state \<Rightarrow> state" where
  "run_timer i s =
     (if i < length (timers s) then
        timer_body (fst (timers s ! i)) (s\<lparr>timers := take i (timers s) @ drop (Suc i) (timers s)\<rparr>)
      else s)"

text \<open>\<open>socket.close()\<close> leaves a closed socket closed and puts any other in \<open>CLOSING\<close>.\<close>

definition close_socket :: "ready_state \<Rightarrow> ready_state" where
  "close_socket r = (if r = Closed then Closed else Closing)"

fun handle :: "event \<Rightarrow> state \<Rightarrow> state" where
  "handle (Client message) s = onClientMessage message s"
| "handle (Provider key ev) s = onProviderEvent key ev s"
| "handle (Timer i) s = run_timer i s"
| "handle (Ai_socket key r) s = s\<lparr>aiSockets := (aiSockets s)(key := r)\<rparr>"
| "handle (Client_socket r) s = s\<lparr>clientSocket := r\<rparr>"
| "handle Client_close s =
     s\<lparr>clientSocket := Closed, aiSockets := (\<lambda>key. close_socket (aiSockets s key))\<rparr>"

text \<open>The state after a sequence of events, the first of the list first.\<close>

fun run :: "event list \<Rightarrow> state \<Rightarrow> state" where
  "run [] s = s"
| "run (e # es) s = run es (handle e s)"

section \<open>Notions used by the properties\<close>

text \<open>The three flags of the turn of a role.\<close>

definition turn_complete :: "aikey \<Rightarrow> state \<Rightarrow> bool" where
  "turn_complete key s \<longleftrightarrow> audioDone s key \<and> transcriptDone s key \<and> playbackDone s key"

text \<open>The conditions under which \<open>checkTurnCompletion\<close> goes on to its last statement,
  and the role \<open>nextKey\<close> it then asks: the head of the queue, or the other role.\<close>

definition advancing :: "aikey \<Rightarrow> state \<Rightarrow> bool" where
  "advancing key s \<longleftrightarrow>
     turn_complete key s \<and> autoMode s \<and> \<not> userSpeaking s \<and> \<not> sessionEnded s"

definition next_key :: "aikey \<Rightarrow> state \<Rightarrow> aikey" where
  "next_key key s = (case queuedNextKeys s of [] \<Rightarrow> other_key key | k # rest \<Rightarrow> k)"

text \<open>The turn identifiers that \<open>requestAiResponse\<close> has given to a role so far, oldest
  first: the turns of the \<open>response_create\<close> lines that \<open>logEvent\<close> wrote for the role.\<close>

definition issued :: "aikey \<Rightarrow> state \<Rightarrow> nat list" where
  "issued key s =
     map (\<lambda>(k, turn, ev). turn)
       (filter (\<lambda>(k, turn, ev). k = key \<and> ev = Log_response_create) (turnLog s))"

text \<open>The roles that were asked for a new response between two states: a request that
  passes the guard of \<open>requestAiResponse\<close> always moves the turn counter of its role.\<close>

definition requested :: "state \<Rightarrow> state \<Rightarrow> aikey list" where
  "requested s s' = filter (\<lambda>key. currentTurn s' key \<noteq> currentTurn s key) [Ai_a, Ai_b]"

text \<open>One step from \<open>s\<close> to \<open>s'\<close> gives a role either no new turn, or the next turn with
  its identifier written to the log.\<close>

definition turn_step :: "state \<Rightarrow> state \<Rightarrow> bool" where
  "turn_step s s' \<longleftrightarrow>
     (\<forall>key.
        (currentTurn s' key = currentTurn s key \<and> issued key s' = issued key s) \<or>
        (currentTurn s' key = currentTurn s key + 1 \<and>
         issued key s' = issued key s @ [currentTurn s key + 1]))"

text \<open>The events whose handlers ask for a response by themselves, whatever the state of
  a turn: the start of a session, the \<open>ready\<close> that resumes a deferred start (the test of
  \<open>onReady\<close>, after it has marked the role as ready), the end of a human utterance, and
  the manual \<open>request_ai\<close>.\<close>

fun explicit_request :: "event \<Rightarrow> state \<Rightarrow> bool" where
  "explicit_request (Client Start) s = True"
| "explicit_request (Client (Request_ai target)) s = True"
| "explicit_request (Client (User_done now)) s = True"
| "explicit_request (Provider key Ready) s =
     (pendingStart s \<and> ((sessionReady s)(key := True)) Ai_a \<and> ((sessionReady s)(key := True)) Ai_b)"
| "explicit_request e s = False"

text \<open>A playback acknowledgment without \<open>turnId\<close> whose target names an inherited member
  and no role.\<close>

fun inherited_ack :: "event \<Rightarrow> bool" where
  "inherited_ack (Client (Audio_playback_done_untyped Inherited None)) = True"
| "inherited_ack e = False"

text \<open>For the three events that report progress of the turn of a role (its audio is
  done, its transcript is done, its playback is acknowledged): the two other flags of
  that role already hold when the event arrives, and, for an acknowledgment, the handler
  accepts it (it carries the number of the current turn of the role, or no \<open>turnId\<close>).
  False for every other event.\<close>

fun others_done :: "event \<Rightarrow> state \<Rightarrow> bool" where
  "others_done (Provider key Audio_finished) s = (transcriptDone s key \<and> playbackDone s key)"
| "others_done (Provider key (Transcript_finished transcript)) s =
     (audioDone s key \<and> playbackDone s key)"
| "others_done (Client (Audio_playback_done (Some key) turnId)) s =
     (audioDone s key \<and> transcriptDone s key
      \<and> (turnId = None \<or> turnId = Some (int (currentTurn s key))))"
| "others_done (Client (Audio_playback_done_untyped (Wrapped key) turnId)) s =
     (audioDone s key \<and> transcriptDone s key
      \<and> (turnId = None \<or> turnId = Some (int (currentTurn s key))))"
| "others_done e s = False"

text \<open>The three flags of a role between a state \<open>s\<close> and a later state \<open>s'\<close>: if the role
  was given a new turn, its three flags are false in \<open>s'\<close>; and a flag that is false in \<open>s\<close>
  and true in \<open>s'\<close> is allowed by \<open>audio\<close>, \<open>transcript\<close> or \<open>playback\<close>.\<close>

definition turn_flags :: "bool \<Rightarrow> bool \<Rightarrow> bool \<Rightarrow> aikey \<Rightarrow> state \<Rightarrow> state \<Rightarrow> bool" where
  "turn_flags audio transcript playback key s s' \<longleftrightarrow>
     (currentTurn s' key \<noteq> currentTurn s key \<longrightarrow>
        \<not> audioDone s' key \<and> \<not> transcriptDone s' key \<and> \<not> playbackDone s' key) \<and>
     (audioDone s' key \<and> \<not> audioDone s key \<longrightarrow> audio) \<and>
     (transcriptDone s' key \<and> \<not> transcriptDone s key \<longrightarrow> transcript) \<and>
     (playbackDone s' key \<and> \<not> playbackDone s key \<longrightarrow> playback)"

text \<open>What an ended session looks like between \<open>endSession\<close> and the next \<open>start\<close>.\<close>

definition ended_inv :: "state \<Rightarrow> bool" where
  "ended_inv s \<longleftrightarrow> (if sessionEnded s then \<not> autoMode s \<and> queuedNextKeys s = [] else True)"

section \<open>Concrete connections\<close>

text \<open>The beginning of a session: both provider sockets open and report \<open>ready\<close>, the
  client sends \<open>start\<close>, and the task of the first request runs, which sends
  \<open>response.create\<close> to the interviewer.\<close>

definition session_opening :: "event list" where
  "session_opening =
     [Ai_socket Ai_a Open, Ai_socket Ai_b Open, Provider Ai_a Ready, Provider Ai_b Ready,
      Client Start, Timer 0]"

text \<open>An utterance with one keyword of each topic (experience, reason, Japanese, night
  shift, stamina, visa), the first closing marker, the shift keyword "working hours", an
  utterance without any keyword, and the shift keyword "night shift".\<close>

definition all_topics :: jsstring where
  "all_topics =
     [32076, 39443] @ [29702, 30001] @ [26085, 26412, 35486] @ [22812, 21220] @
     [20307, 21147] @ [12499, 12470]"

definition closing_marker :: jsstring where
  "closing_marker = [12304, 38754, 25509, 32066, 20102, 12305]"

definition working_hours :: jsstring where
  "working_hours = [21220, 21209, 26178, 38291]"

definition plain_text :: jsstring where
  "plain_text = ascii ''hai''"

definition night_shift :: jsstring where
  "night_shift = [22812, 21220]"


text \<open>A conversation of 39 turns of the interviewer without a marker.\<close>

definition long_conversation :: "event list" where
  "long_conversation =
     session_opening @ replicate 39 (Provider Ai_a (Transcript_finished plain_text))"

text \<open>The first turn of the interviewer when its audio and its transcript are done and
  the client has not yet acknowledged the playback.\<close>

definition unplayed_turn :: "event list" where
  "unplayed_turn =
     session_opening @
     [Provider Ai_a Audio_finished, Provider Ai_a (Transcript_finished plain_text)]"

text \<open>The first turn of the interviewer is under way when the human finishes speaking:
  \<open>user_done\<close> gives the interviewer its second turn. Then an audio-done and a
  transcript-done event of the interviewer arrive.\<close>

definition superseded_turn :: "event list" where
  "superseded_turn =
     session_opening @
     [Client (User_done 2000), Provider Ai_a Audio_finished,
      Provider Ai_a (Transcript_finished plain_text)]"

text \<open>A \<open>start\<close> that arrives before the providers are ready, followed by the \<open>ready\<close>
  of the interviewer.\<close>

definition early_start :: "event list" where
  "early_start =
     [Ai_socket Ai_a Open, Ai_socket Ai_b Open, Client Start, Provider Ai_a Ready]"

text \<open>A human utterance with a word for the candidate (experience) and a word for the
  interviewer (shift).\<close>

definition both_hints :: jsstring where
  "both_hints = [32076, 39443] @ [12471, 12501, 12488]"

section \<open>Facts about strings and coverage\<close>

lemma starts_with_prefix: "starts_with t w \<longleftrightarrow> prefix w t"
  by (induction t w rule: starts_with.induct) auto

lemma js_includes_sublist: "js_includes t w \<longleftrightarrow> sublist w t"
proof (induction t)
  case Nil
  then show ?case by auto
next
  case (Cons c cs)
  then show ?case
    by (cases w) (auto simp: starts_with_prefix sublist_Cons_right)
qed

lemma no_coverage_word_in_empty: "\<not> includes_any (coverage_words k) []"
  by (cases k) (simp_all add: includes_any_def)

lemma detect_apply:
  "detect k normalized cov k' \<longleftrightarrow>
     cov k' \<or> (k' = k \<and> includes_any (coverage_words k) normalized)"
  by (auto simp: detect_def)

lemma updateCoverage_apply:
  "updateCoverage text cov k \<longleftrightarrow> cov k \<or> includes_any (coverage_words k) (strip_ws text)"
proof (cases "strip_ws text = []")
  case True
  then show ?thesis
    by (simp add: updateCoverage_def no_coverage_word_in_empty)
next
  case False
  then show ?thesis
    by (cases k) (auto simp: updateCoverage_def Let_def detect_apply simp del: coverage_words.simps)
qed

lemma coverageLabels_nonempty: "coverageLabels k \<noteq> []"
  by (cases k) simp_all

lemma join_nonempty: "xs \<noteq> [] \<Longrightarrow> hd xs \<noteq> [] \<Longrightarrow> join sep xs \<noteq> []"
  by (induction sep xs rule: join.induct) auto

lemma listMissingCoverage_empty:
  "listMissingCoverage cov = [] \<longleftrightarrow> missing_keys cov = []"
proof (cases "missing_keys cov")
  case Nil
  then show ?thesis by (simp add: listMissingCoverage_def)
next
  case (Cons k ks)
  then have "join (ascii '', '') (map coverageLabels (missing_keys cov)) \<noteq> []"
    by (intro join_nonempty) (simp_all add: coverageLabels_nonempty)
  with Cons show ?thesis by (simp add: listMissingCoverage_def)
qed

lemma missing_keys_exact:
  "set (missing_keys cov) = {k. \<not> cov k}" "distinct (missing_keys cov)"
proof -
  have "k \<in> set coverage_keys" for k
    by (cases k) (simp_all add: coverage_keys_def)
  then show "set (missing_keys cov) = {k. \<not> cov k}"
    by (auto simp: missing_keys_def)
  show "distinct (missing_keys cov)"
    by (simp add: missing_keys_def coverage_keys_def)
qed

lemma hasAllCoverage_missing: "hasAllCoverage cov \<longleftrightarrow> missing_keys cov = []"
  by (auto simp: hasAllCoverage_def missing_keys_def coverage_keys_def list_all_iff filter_empty_conv)

section \<open>What each helper and each handler leaves unchanged\<close>

text \<open>
  Each helper and each handler assigns to a few variables of the connection only. For
  every function, the variables it never assigns keep their values; these facts let a
  field be read through a handler without unfolding it.
\<close>

lemma logEvent_frame [simp]:
  "sessionReady (logEvent key ev s) = sessionReady s"
  "pendingStart (logEvent key ev s) = pendingStart s"
  "autoMode (logEvent key ev s) = autoMode s"
  "userSpeaking (logEvent key ev s) = userSpeaking s"
  "queuedNextKeys (logEvent key ev s) = queuedNextKeys s"
  "totalTurns (logEvent key ev s) = totalTurns s"
  "sessionEnded (logEvent key ev s) = sessionEnded s"
  "sessionEndReason (logEvent key ev s) = sessionEndReason s"
  "transcriptBuffers (logEvent key ev s) = transcriptBuffers s"
  "audioStarted (logEvent key ev s) = audioStarted s"
  "audioDone (logEvent key ev s) = audioDone s"
  "transcriptDone (logEvent key ev s) = transcriptDone s"
  "transcriptSent (logEvent key ev s) = transcriptSent s"
  "playbackDone (logEvent key ev s) = playbackDone s"
  "currentTurn (logEvent key ev s) = currentTurn s"
  "transcriptDeltaQueue (logEvent key ev s) = transcriptDeltaQueue s"
  "transcriptFinalText (logEvent key ev s) = transcriptFinalText s"
  "lastUserTranscript (logEvent key ev s) = lastUserTranscript s"
  "lastUserTranscriptAt (logEvent key ev s) = lastUserTranscriptAt s"
  "coverage (logEvent key ev s) = coverage s"
  "aiSockets (logEvent key ev s) = aiSockets s"
  "strayPlaybackDone (logEvent key ev s) = strayPlaybackDone s"
  "clientSocket (logEvent key ev s) = clientSocket s"
  "toClient (logEvent key ev s) = toClient s"
  "toProvider (logEvent key ev s) = toProvider s"
  "timers (logEvent key ev s) = timers s"
  by (simp_all add: logEvent_def)

lemma sendToClient_frame [simp]:
  "sessionReady (sendToClient payload s) = sessionReady s"
  "pendingStart (sendToClient payload s) = pendingStart s"
  "autoMode (sendToClient payload s) = autoMode s"
  "userSpeaking (sendToClient payload s) = userSpeaking s"
  "queuedNextKeys (sendToClient payload s) = queuedNextKeys s"
  "totalTurns (sendToClient payload s) = totalTurns s"
  "sessionEnded (sendToClient payload s) = sessionEnded s"
  "sessionEndReason (sendToClient payload s) = sessionEndReason s"
  "transcriptBuffers (sendToClient payload s) = transcriptBuffers s"
  "audioStarted (sendToClient payload s) = audioStarted s"
  "audioDone (sendToClient payload s) = audioDone s"
  "transcriptDone (sendToClient payload s) = transcriptDone s"
  "transcriptSent (sendToClient payload s) = transcriptSent s"
  "playbackDone (sendToClient payload s) = playbackDone s"
  "currentTurn (sendToClient payload s) = currentTurn s"
  "transcriptDeltaQueue (sendToClient payload s) = transcriptDeltaQueue s"
  "transcriptFinalText (sendToClient payload s) = transcriptFinalText s"
  "lastUserTranscript (sendToClient payload s) = lastUserTranscript s"
  "lastUserTranscriptAt (sendToClient payload s) = lastUserTranscriptAt s"
  "coverage (sendToClient payload s) = coverage s"
  "aiSockets (sendToClient payload s) = aiSockets s"
  "strayPlaybackDone (sendToClient payload s) = strayPlaybackDone s"
  "clientSocket (sendToClient payload s) = clientSocket s"
  "toProvider (sendToClient payload s) = toProvider s"
  "timers (sendToClient payload s) = timers s"
  "turnLog (sendToClient payload s) = turnLog s"
  by (simp_all add: sendToClient_def)

lemma socket_send_frame [simp]:
  "sessionReady (socket_send key msg s) = sessionReady s"
  "pendingStart (socket_send key msg s) = pendingStart s"
  "autoMode (socket_send key msg s) = autoMode s"
  "userSpeaking (socket_send key msg s) = userSpeaking s"
  "queuedNextKeys (socket_send key msg s) = queuedNextKeys s"
  "totalTurns (socket_send key msg s) = totalTurns s"
  "sessionEnded (socket_send key msg s) = sessionEnded s"
  "sessionEndReason (socket_send key msg s) = sessionEndReason s"
  "transcriptBuffers (socket_send key msg s) = transcriptBuffers s"
  "audioStarted (socket_send key msg s) = audioStarted s"
  "audioDone (socket_send key msg s) = audioDone s"
  "transcriptDone (socket_send key msg s) = transcriptDone s"
  "transcriptSent (socket_send key msg s) = transcriptSent s"
  "playbackDone (socket_send key msg s) = playbackDone s"
  "currentTurn (socket_send key msg s) = currentTurn s"
  "transcriptDeltaQueue (socket_send key msg s) = transcriptDeltaQueue s"
  "transcriptFinalText (socket_send key msg s) = transcriptFinalText s"
  "lastUserTranscript (socket_send key msg s) = lastUserTranscript s"
  "lastUserTranscriptAt (socket_send key msg s) = lastUserTranscriptAt s"
  "coverage (socket_send key msg s) = coverage s"
  "aiSockets (socket_send key msg s) = aiSockets s"
  "strayPlaybackDone (socket_send key msg s) = strayPlaybackDone s"
  "clientSocket (socket_send key msg s) = clientSocket s"
  "toClient (socket_send key msg s) = toClient s"
  "timers (socket_send key msg s) = timers s"
  "turnLog (socket_send key msg s) = turnLog s"
  by (simp_all add: socket_send_def)

lemma send_if_open_frame [simp]:
  "sessionReady (send_if_open key msg s) = sessionReady s"
  "pendingStart (send_if_open key msg s) = pendingStart s"
  "autoMode (send_if_open key msg s) = autoMode s"
  "userSpeaking (send_if_open key msg s) = userSpeaking s"
  "queuedNextKeys (send_if_open key msg s) = queuedNextKeys s"
  "totalTurns (send_if_open key msg s) = totalTurns s"
  "sessionEnded (send_if_open key msg s) = sessionEnded s"
  "sessionEndReason (send_if_open key msg s) = sessionEndReason s"
  "transcriptBuffers (send_if_open key msg s) = transcriptBuffers s"
  "audioStarted (send_if_open key msg s) = audioStarted s"
  "audioDone (send_if_open key msg s) = audioDone s"
  "transcriptDone (send_if_open key msg s) = transcriptDone s"
  "transcriptSent (send_if_open key msg s) = transcriptSent s"
  "playbackDone (send_if_open key msg s) = playbackDone s"
  "currentTurn (send_if_open key msg s) = currentTurn s"
  "transcriptDeltaQueue (send_if_open key msg s) = transcriptDeltaQueue s"
  "transcriptFinalText (send_if_open key msg s) = transcriptFinalText s"
  "lastUserTranscript (send_if_open key msg s) = lastUserTranscript s"
  "lastUserTranscriptAt (send_if_open key msg s) = lastUserTranscriptAt s"
  "coverage (send_if_open key msg s) = coverage s"
  "aiSockets (send_if_open key msg s) = aiSockets s"
  "strayPlaybackDone (send_if_open key msg s) = strayPlaybackDone s"
  "clientSocket (send_if_open key msg s) = clientSocket s"
  "toClient (send_if_open key msg s) = toClient s"
  "timers (send_if_open key msg s) = timers s"
  "turnLog (send_if_open key msg s) = turnLog s"
  by (simp_all add: send_if_open_def)

lemma broadcast_frame [simp]:
  "sessionReady (broadcast msg s) = sessionReady s"
  "pendingStart (broadcast msg s) = pendingStart s"
  "autoMode (broadcast msg s) = autoMode s"
  "userSpeaking (broadcast msg s) = userSpeaking s"
  "queuedNextKeys (broadcast msg s) = queuedNextKeys s"
  "totalTurns (broadcast msg s) = totalTurns s"
  "sessionEnded (broadcast msg s) = sessionEnded s"
  "sessionEndReason (broadcast msg s) = sessionEndReason s"
  "transcriptBuffers (broadcast msg s) = transcriptBuffers s"
  "audioStarted (broadcast msg s) = audioStarted s"
  "audioDone (broadcast msg s) = audioDone s"
  "transcriptDone (broadcast msg s) = transcriptDone s"
  "transcriptSent (broadcast msg s) = transcriptSent s"
  "playbackDone (broadcast msg s) = playbackDone s"
  "currentTurn (broadcast msg s) = currentTurn s"
  "transcriptDeltaQueue (broadcast msg s) = transcriptDeltaQueue s"
  "transcriptFinalText (broadcast msg s) = transcriptFinalText s"
  "lastUserTranscript (broadcast msg s) = lastUserTranscript s"
  "lastUserTranscriptAt (broadcast msg s) = lastUserTranscriptAt s"
  "coverage (broadcast msg s) = coverage s"
  "aiSockets (broadcast msg s) = aiSockets s"
  "strayPlaybackDone (broadcast msg s) = strayPlaybackDone s"
  "clientSocket (broadcast msg s) = clientSocket s"
  "toClient (broadcast msg s) = toClient s"
  "timers (broadcast msg s) = timers s"
  "turnLog (broadcast msg s) = turnLog s"
  by (simp_all add: broadcast_def)

lemma endSession_frame [simp]:
  "sessionReady (endSession reason s) = sessionReady s"
  "pendingStart (endSession reason s) = pendingStart s"
  "userSpeaking (endSession reason s) = userSpeaking s"
  "totalTurns (endSession reason s) = totalTurns s"
  "transcriptBuffers (endSession reason s) = transcriptBuffers s"
  "audioStarted (endSession reason s) = audioStarted s"
  "audioDone (endSession reason s) = audioDone s"
  "transcriptDone (endSession reason s) = transcriptDone s"
  "transcriptSent (endSession reason s) = transcriptSent s"
  "playbackDone (endSession reason s) = playbackDone s"
  "currentTurn (endSession reason s) = currentTurn s"
  "transcriptDeltaQueue (endSession reason s) = transcriptDeltaQueue s"
  "transcriptFinalText (endSession reason s) = transcriptFinalText s"
  "lastUserTranscript (endSession reason s) = lastUserTranscript s"
  "lastUserTranscriptAt (endSession reason s) = lastUserTranscriptAt s"
  "coverage (endSession reason s) = coverage s"
  "aiSockets (endSession reason s) = aiSockets s"
  "strayPlaybackDone (endSession reason s) = strayPlaybackDone s"
  "clientSocket (endSession reason s) = clientSocket s"
  "toProvider (endSession reason s) = toProvider s"
  "timers (endSession reason s) = timers s"
  "turnLog (endSession reason s) = turnLog s"
  by (simp_all add: endSession_def)

lemma requestAiResponse_frame [simp]:
  "sessionReady (requestAiResponse key delayMs s) = sessionReady s"
  "pendingStart (requestAiResponse key delayMs s) = pendingStart s"
  "autoMode (requestAiResponse key delayMs s) = autoMode s"
  "userSpeaking (requestAiResponse key delayMs s) = userSpeaking s"
  "queuedNextKeys (requestAiResponse key delayMs s) = queuedNextKeys s"
  "totalTurns (requestAiResponse key delayMs s) = totalTurns s"
  "sessionEnded (requestAiResponse key delayMs s) = sessionEnded s"
  "sessionEndReason (requestAiResponse key delayMs s) = sessionEndReason s"
  "lastUserTranscript (requestAiResponse key delayMs s) = lastUserTranscript s"
  "lastUserTranscriptAt (requestAiResponse key delayMs s) = lastUserTranscriptAt s"
  "coverage (requestAiResponse key delayMs s) = coverage s"
  "aiSockets (requestAiResponse key delayMs s) = aiSockets s"
  "strayPlaybackDone (requestAiResponse key delayMs s) = strayPlaybackDone s"
  "clientSocket (requestAiResponse key delayMs s) = clientSocket s"
  "toClient (requestAiResponse key delayMs s) = toClient s"
  "toProvider (requestAiResponse key delayMs s) = toProvider s"
  by (simp_all add: requestAiResponse_def Let_def)

lemma timer_body_frame [simp]:
  "sessionReady (timer_body key s) = sessionReady s"
  "pendingStart (timer_body key s) = pendingStart s"
  "autoMode (timer_body key s) = autoMode s"
  "userSpeaking (timer_body key s) = userSpeaking s"
  "queuedNextKeys (timer_body key s) = queuedNextKeys s"
  "totalTurns (timer_body key s) = totalTurns s"
  "sessionEnded (timer_body key s) = sessionEnded s"
  "sessionEndReason (timer_body key s) = sessionEndReason s"
  "transcriptBuffers (timer_body key s) = transcriptBuffers s"
  "audioStarted (timer_body key s) = audioStarted s"
  "audioDone (timer_body key s) = audioDone s"
  "transcriptDone (timer_body key s) = transcriptDone s"
  "transcriptSent (timer_body key s) = transcriptSent s"
  "playbackDone (timer_body key s) = playbackDone s"
  "currentTurn (timer_body key s) = currentTurn s"
  "transcriptDeltaQueue (timer_body key s) = transcriptDeltaQueue s"
  "transcriptFinalText (timer_body key s) = transcriptFinalText s"
  "lastUserTranscript (timer_body key s) = lastUserTranscript s"
  "lastUserTranscriptAt (timer_body key s) = lastUserTranscriptAt s"
  "coverage (timer_body key s) = coverage s"
  "aiSockets (timer_body key s) = aiSockets s"
  "strayPlaybackDone (timer_body key s) = strayPlaybackDone s"
  "clientSocket (timer_body key s) = clientSocket s"
  "toClient (timer_body key s) = toClient s"
  "timers (timer_body key s) = timers s"
  "turnLog (timer_body key s) = turnLog s"
  by (simp_all add: timer_body_def)

lemma checkTurnCompletion_frame [simp]:
  "sessionReady (checkTurnCompletion key s) = sessionReady s"
  "pendingStart (checkTurnCompletion key s) = pendingStart s"
  "autoMode (checkTurnCompletion key s) = autoMode s"
  "userSpeaking (checkTurnCompletion key s) = userSpeaking s"
  "totalTurns (checkTurnCompletion key s) = totalTurns s"
  "sessionEnded (checkTurnCompletion key s) = sessionEnded s"
  "sessionEndReason (checkTurnCompletion key s) = sessionEndReason s"
  "lastUserTranscript (checkTurnCompletion key s) = lastUserTranscript s"
  "lastUserTranscriptAt (checkTurnCompletion key s) = lastUserTranscriptAt s"
  "coverage (checkTurnCompletion key s) = coverage s"
  "aiSockets (checkTurnCompletion key s) = aiSockets s"
  "strayPlaybackDone (checkTurnCompletion key s) = strayPlaybackDone s"
  "clientSocket (checkTurnCompletion key s) = clientSocket s"
  "toClient (checkTurnCompletion key s) = toClient s"
  "toProvider (checkTurnCompletion key s) = toProvider s"
  by (simp_all add: checkTurnCompletion_def split: list.splits)

lemma send_transcript_done_frame [simp]:
  "sessionReady (send_transcript_done key s) = sessionReady s"
  "pendingStart (send_transcript_done key s) = pendingStart s"
  "autoMode (send_transcript_done key s) = autoMode s"
  "userSpeaking (send_transcript_done key s) = userSpeaking s"
  "queuedNextKeys (send_transcript_done key s) = queuedNextKeys s"
  "totalTurns (send_transcript_done key s) = totalTurns s"
  "sessionEnded (send_transcript_done key s) = sessionEnded s"
  "sessionEndReason (send_transcript_done key s) = sessionEndReason s"
  "transcriptBuffers (send_transcript_done key s) = transcriptBuffers s"
  "audioStarted (send_transcript_done key s) = audioStarted s"
  "audioDone (send_transcript_done key s) = audioDone s"
  "transcriptDone (send_transcript_done key s) = transcriptDone s"
  "playbackDone (send_transcript_done key s) = playbackDone s"
  "currentTurn (send_transcript_done key s) = currentTurn s"
  "lastUserTranscript (send_transcript_done key s) = lastUserTranscript s"
  "lastUserTranscriptAt (send_transcript_done key s) = lastUserTranscriptAt s"
  "coverage (send_transcript_done key s) = coverage s"
  "aiSockets (send_transcript_done key s) = aiSockets s"
  "strayPlaybackDone (send_transcript_done key s) = strayPlaybackDone s"
  "clientSocket (send_transcript_done key s) = clientSocket s"
  "toProvider (send_transcript_done key s) = toProvider s"
  "timers (send_transcript_done key s) = timers s"
  "turnLog (send_transcript_done key s) = turnLog s"
  by (simp_all add: send_transcript_done_def Let_def)

lemma end_evaluation_frame [simp]:
  "sessionReady (end_evaluation key finalText s) = sessionReady s"
  "pendingStart (end_evaluation key finalText s) = pendingStart s"
  "userSpeaking (end_evaluation key finalText s) = userSpeaking s"
  "totalTurns (end_evaluation key finalText s) = totalTurns s"
  "transcriptBuffers (end_evaluation key finalText s) = transcriptBuffers s"
  "audioStarted (end_evaluation key finalText s) = audioStarted s"
  "audioDone (end_evaluation key finalText s) = audioDone s"
  "transcriptDone (end_evaluation key finalText s) = transcriptDone s"
  "transcriptSent (end_evaluation key finalText s) = transcriptSent s"
  "playbackDone (end_evaluation key finalText s) = playbackDone s"
  "currentTurn (end_evaluation key finalText s) = currentTurn s"
  "transcriptDeltaQueue (end_evaluation key finalText s) = transcriptDeltaQueue s"
  "transcriptFinalText (end_evaluation key finalText s) = transcriptFinalText s"
  "lastUserTranscript (end_evaluation key finalText s) = lastUserTranscript s"
  "lastUserTranscriptAt (end_evaluation key finalText s) = lastUserTranscriptAt s"
  "coverage (end_evaluation key finalText s) = coverage s"
  "aiSockets (end_evaluation key finalText s) = aiSockets s"
  "strayPlaybackDone (end_evaluation key finalText s) = strayPlaybackDone s"
  "clientSocket (end_evaluation key finalText s) = clientSocket s"
  "timers (end_evaluation key finalText s) = timers s"
  "turnLog (end_evaluation key finalText s) = turnLog s"
  by (simp_all add: end_evaluation_def Let_def)

lemma inject_context_frame [simp]:
  "sessionReady (inject_context key finalText s) = sessionReady s"
  "pendingStart (inject_context key finalText s) = pendingStart s"
  "autoMode (inject_context key finalText s) = autoMode s"
  "userSpeaking (inject_context key finalText s) = userSpeaking s"
  "queuedNextKeys (inject_context key finalText s) = queuedNextKeys s"
  "totalTurns (inject_context key finalText s) = totalTurns s"
  "sessionEnded (inject_context key finalText s) = sessionEnded s"
  "sessionEndReason (inject_context key finalText s) = sessionEndReason s"
  "transcriptBuffers (inject_context key finalText s) = transcriptBuffers s"
  "audioStarted (inject_context key finalText s) = audioStarted s"
  "audioDone (inject_context key finalText s) = audioDone s"
  "transcriptDone (inject_context key finalText s) = transcriptDone s"
  "transcriptSent (inject_context key finalText s) = transcriptSent s"
  "playbackDone (inject_context key finalText s) = playbackDone s"
  "currentTurn (inject_context key finalText s) = currentTurn s"
  "transcriptDeltaQueue (inject_context key finalText s) = transcriptDeltaQueue s"
  "transcriptFinalText (inject_context key finalText s) = transcriptFinalText s"
  "lastUserTranscript (inject_context key finalText s) = lastUserTranscript s"
  "lastUserTranscriptAt (inject_context key finalText s) = lastUserTranscriptAt s"
  "coverage (inject_context key finalText s) = coverage s"
  "aiSockets (inject_context key finalText s) = aiSockets s"
  "strayPlaybackDone (inject_context key finalText s) = strayPlaybackDone s"
  "clientSocket (inject_context key finalText s) = clientSocket s"
  "toClient (inject_context key finalText s) = toClient s"
  "timers (inject_context key finalText s) = timers s"
  "turnLog (inject_context key finalText s) = turnLog s"
  by (simp_all add: inject_context_def Let_def)

lemma onReady_frame [simp]:
  "autoMode (onReady key s) = autoMode s"
  "userSpeaking (onReady key s) = userSpeaking s"
  "queuedNextKeys (onReady key s) = queuedNextKeys s"
  "totalTurns (onReady key s) = totalTurns s"
  "sessionEnded (onReady key s) = sessionEnded s"
  "sessionEndReason (onReady key s) = sessionEndReason s"
  "lastUserTranscript (onReady key s) = lastUserTranscript s"
  "lastUserTranscriptAt (onReady key s) = lastUserTranscriptAt s"
  "coverage (onReady key s) = coverage s"
  "aiSockets (onReady key s) = aiSockets s"
  "strayPlaybackDone (onReady key s) = strayPlaybackDone s"
  "clientSocket (onReady key s) = clientSocket s"
  "toProvider (onReady key s) = toProvider s"
  by (simp_all add: onReady_def Let_def)

lemma onAudioDelta_frame [simp]:
  "sessionReady (onAudioDelta key audioBase64 s) = sessionReady s"
  "pendingStart (onAudioDelta key audioBase64 s) = pendingStart s"
  "autoMode (onAudioDelta key audioBase64 s) = autoMode s"
  "userSpeaking (onAudioDelta key audioBase64 s) = userSpeaking s"
  "queuedNextKeys (onAudioDelta key audioBase64 s) = queuedNextKeys s"
  "totalTurns (onAudioDelta key audioBase64 s) = totalTurns s"
  "sessionEnded (onAudioDelta key audioBase64 s) = sessionEnded s"
  "sessionEndReason (onAudioDelta key audioBase64 s) = sessionEndReason s"
  "transcriptBuffers (onAudioDelta key audioBase64 s) = transcriptBuffers s"
  "audioDone (onAudioDelta key audioBase64 s) = audioDone s"
  "transcriptDone (onAudioDelta key audioBase64 s) = transcriptDone s"
  "transcriptSent (onAudioDelta key audioBase64 s) = transcriptSent s"
  "playbackDone (onAudioDelta key audioBase64 s) = playbackDone s"
  "currentTurn (onAudioDelta key audioBase64 s) = currentTurn s"
  "transcriptFinalText (onAudioDelta key audioBase64 s) = transcriptFinalText s"
  "lastUserTranscript (onAudioDelta key audioBase64 s) = lastUserTranscript s"
  "lastUserTranscriptAt (onAudioDelta key audioBase64 s) = lastUserTranscriptAt s"
  "coverage (onAudioDelta key audioBase64 s) = coverage s"
  "aiSockets (onAudioDelta key audioBase64 s) = aiSockets s"
  "strayPlaybackDone (onAudioDelta key audioBase64 s) = strayPlaybackDone s"
  "clientSocket (onAudioDelta key audioBase64 s) = clientSocket s"
  "toProvider (onAudioDelta key audioBase64 s) = toProvider s"
  "timers (onAudioDelta key audioBase64 s) = timers s"
  by (simp_all add: onAudioDelta_def Let_def split: list.splits)

lemma onAudioDone_frame [simp]:
  "sessionReady (onAudioDone key s) = sessionReady s"
  "pendingStart (onAudioDone key s) = pendingStart s"
  "autoMode (onAudioDone key s) = autoMode s"
  "userSpeaking (onAudioDone key s) = userSpeaking s"
  "totalTurns (onAudioDone key s) = totalTurns s"
  "sessionEnded (onAudioDone key s) = sessionEnded s"
  "sessionEndReason (onAudioDone key s) = sessionEndReason s"
  "lastUserTranscript (onAudioDone key s) = lastUserTranscript s"
  "lastUserTranscriptAt (onAudioDone key s) = lastUserTranscriptAt s"
  "coverage (onAudioDone key s) = coverage s"
  "aiSockets (onAudioDone key s) = aiSockets s"
  "strayPlaybackDone (onAudioDone key s) = strayPlaybackDone s"
  "clientSocket (onAudioDone key s) = clientSocket s"
  "toProvider (onAudioDone key s) = toProvider s"
  by (simp_all add: onAudioDone_def Let_def)

lemma onTranscriptDelta_frame [simp]:
  "sessionReady (onTranscriptDelta key delta s) = sessionReady s"
  "pendingStart (onTranscriptDelta key delta s) = pendingStart s"
  "autoMode (onTranscriptDelta key delta s) = autoMode s"
  "userSpeaking (onTranscriptDelta key delta s) = userSpeaking s"
  "queuedNextKeys (onTranscriptDelta key delta s) = queuedNextKeys s"
  "totalTurns (onTranscriptDelta key delta s) = totalTurns s"
  "sessionEnded (onTranscriptDelta key delta s) = sessionEnded s"
  "sessionEndReason (onTranscriptDelta key delta s) = sessionEndReason s"
  "audioStarted (onTranscriptDelta key delta s) = audioStarted s"
  "audioDone (onTranscriptDelta key delta s) = audioDone s"
  "transcriptDone (onTranscriptDelta key delta s) = transcriptDone s"
  "transcriptSent (onTranscriptDelta key delta s) = transcriptSent s"
  "playbackDone (onTranscriptDelta key delta s) = playbackDone s"
  "currentTurn (onTranscriptDelta key delta s) = currentTurn s"
  "transcriptFinalText (onTranscriptDelta key delta s) = transcriptFinalText s"
  "lastUserTranscript (onTranscriptDelta key delta s) = lastUserTranscript s"
  "lastUserTranscriptAt (onTranscriptDelta key delta s) = lastUserTranscriptAt s"
  "coverage (onTranscriptDelta key delta s) = coverage s"
  "aiSockets (onTranscriptDelta key delta s) = aiSockets s"
  "strayPlaybackDone (onTranscriptDelta key delta s) = strayPlaybackDone s"
  "clientSocket (onTranscriptDelta key delta s) = clientSocket s"
  "toClient (onTranscriptDelta key delta s) = toClient s"
  "toProvider (onTranscriptDelta key delta s) = toProvider s"
  "timers (onTranscriptDelta key delta s) = timers s"
  by (simp_all add: onTranscriptDelta_def Let_def)

lemma onTranscriptDone_frame [simp]:
  "sessionReady (onTranscriptDone key transcript s) = sessionReady s"
  "pendingStart (onTranscriptDone key transcript s) = pendingStart s"
  "userSpeaking (onTranscriptDone key transcript s) = userSpeaking s"
  "lastUserTranscript (onTranscriptDone key transcript s) = lastUserTranscript s"
  "lastUserTranscriptAt (onTranscriptDone key transcript s) = lastUserTranscriptAt s"
  "aiSockets (onTranscriptDone key transcript s) = aiSockets s"
  "strayPlaybackDone (onTranscriptDone key transcript s) = strayPlaybackDone s"
  "clientSocket (onTranscriptDone key transcript s) = clientSocket s"
  by (simp_all add: onTranscriptDone_def Let_def)

lemma onInputTranscriptDone_frame [simp]:
  "sessionReady (onInputTranscriptDone key transcript now s) = sessionReady s"
  "pendingStart (onInputTranscriptDone key transcript now s) = pendingStart s"
  "autoMode (onInputTranscriptDone key transcript now s) = autoMode s"
  "userSpeaking (onInputTranscriptDone key transcript now s) = userSpeaking s"
  "queuedNextKeys (onInputTranscriptDone key transcript now s) = queuedNextKeys s"
  "totalTurns (onInputTranscriptDone key transcript now s) = totalTurns s"
  "sessionEnded (onInputTranscriptDone key transcript now s) = sessionEnded s"
  "sessionEndReason (onInputTranscriptDone key transcript now s) = sessionEndReason s"
  "transcriptBuffers (onInputTranscriptDone key transcript now s) = transcriptBuffers s"
  "audioStarted (onInputTranscriptDone key transcript now s) = audioStarted s"
  "audioDone (onInputTranscriptDone key transcript now s) = audioDone s"
  "transcriptDone (onInputTranscriptDone key transcript now s) = transcriptDone s"
  "transcriptSent (onInputTranscriptDone key transcript now s) = transcriptSent s"
  "playbackDone (onInputTranscriptDone key transcript now s) = playbackDone s"
  "currentTurn (onInputTranscriptDone key transcript now s) = currentTurn s"
  "transcriptDeltaQueue (onInputTranscriptDone key transcript now s) = transcriptDeltaQueue s"
  "transcriptFinalText (onInputTranscriptDone key transcript now s) = transcriptFinalText s"
  "coverage (onInputTranscriptDone key transcript now s) = coverage s"
  "aiSockets (onInputTranscriptDone key transcript now s) = aiSockets s"
  "strayPlaybackDone (onInputTranscriptDone key transcript now s) = strayPlaybackDone s"
  "clientSocket (onInputTranscriptDone key transcript now s) = clientSocket s"
  "toProvider (onInputTranscriptDone key transcript now s) = toProvider s"
  "timers (onInputTranscriptDone key transcript now s) = timers s"
  "turnLog (onInputTranscriptDone key transcript now s) = turnLog s"
  by (simp_all add: onInputTranscriptDone_def Let_def)

lemma onError_frame [simp]:
  "sessionReady (onError message s) = sessionReady s"
  "pendingStart (onError message s) = pendingStart s"
  "autoMode (onError message s) = autoMode s"
  "userSpeaking (onError message s) = userSpeaking s"
  "queuedNextKeys (onError message s) = queuedNextKeys s"
  "totalTurns (onError message s) = totalTurns s"
  "sessionEnded (onError message s) = sessionEnded s"
  "sessionEndReason (onError message s) = sessionEndReason s"
  "transcriptBuffers (onError message s) = transcriptBuffers s"
  "audioStarted (onError message s) = audioStarted s"
  "audioDone (onError message s) = audioDone s"
  "transcriptDone (onError message s) = transcriptDone s"
  "transcriptSent (onError message s) = transcriptSent s"
  "playbackDone (onError message s) = playbackDone s"
  "currentTurn (onError message s) = currentTurn s"
  "transcriptDeltaQueue (onError message s) = transcriptDeltaQueue s"
  "transcriptFinalText (onError message s) = transcriptFinalText s"
  "lastUserTranscript (onError message s) = lastUserTranscript s"
  "lastUserTranscriptAt (onError message s) = lastUserTranscriptAt s"
  "coverage (onError message s) = coverage s"
  "aiSockets (onError message s) = aiSockets s"
  "strayPlaybackDone (onError message s) = strayPlaybackDone s"
  "clientSocket (onError message s) = clientSocket s"
  "toProvider (onError message s) = toProvider s"
  "timers (onError message s) = timers s"
  "turnLog (onError message s) = turnLog s"
  by (simp_all add: onError_def)

lemma onStart_frame [simp]:
  "sessionReady (onStart s) = sessionReady s"
  "userSpeaking (onStart s) = userSpeaking s"
  "lastUserTranscript (onStart s) = lastUserTranscript s"
  "lastUserTranscriptAt (onStart s) = lastUserTranscriptAt s"
  "aiSockets (onStart s) = aiSockets s"
  "strayPlaybackDone (onStart s) = strayPlaybackDone s"
  "clientSocket (onStart s) = clientSocket s"
  "toProvider (onStart s) = toProvider s"
  by (simp_all add: onStart_def Let_def)

lemma onUserDone_frame [simp]:
  "sessionReady (onUserDone now s) = sessionReady s"
  "pendingStart (onUserDone now s) = pendingStart s"
  "autoMode (onUserDone now s) = autoMode s"
  "totalTurns (onUserDone now s) = totalTurns s"
  "sessionEnded (onUserDone now s) = sessionEnded s"
  "sessionEndReason (onUserDone now s) = sessionEndReason s"
  "lastUserTranscript (onUserDone now s) = lastUserTranscript s"
  "lastUserTranscriptAt (onUserDone now s) = lastUserTranscriptAt s"
  "coverage (onUserDone now s) = coverage s"
  "aiSockets (onUserDone now s) = aiSockets s"
  "strayPlaybackDone (onUserDone now s) = strayPlaybackDone s"
  "clientSocket (onUserDone now s) = clientSocket s"
  "toClient (onUserDone now s) = toClient s"
  "toProvider (onUserDone now s) = toProvider s"
  by (simp_all add: onUserDone_def Let_def split: list.splits)

lemma onAudioPlaybackDone_frame [simp]:
  "sessionReady (onAudioPlaybackDone target turnId s) = sessionReady s"
  "pendingStart (onAudioPlaybackDone target turnId s) = pendingStart s"
  "autoMode (onAudioPlaybackDone target turnId s) = autoMode s"
  "userSpeaking (onAudioPlaybackDone target turnId s) = userSpeaking s"
  "totalTurns (onAudioPlaybackDone target turnId s) = totalTurns s"
  "sessionEnded (onAudioPlaybackDone target turnId s) = sessionEnded s"
  "sessionEndReason (onAudioPlaybackDone target turnId s) = sessionEndReason s"
  "lastUserTranscript (onAudioPlaybackDone target turnId s) = lastUserTranscript s"
  "lastUserTranscriptAt (onAudioPlaybackDone target turnId s) = lastUserTranscriptAt s"
  "coverage (onAudioPlaybackDone target turnId s) = coverage s"
  "aiSockets (onAudioPlaybackDone target turnId s) = aiSockets s"
  "strayPlaybackDone (onAudioPlaybackDone target turnId s) = strayPlaybackDone s"
  "clientSocket (onAudioPlaybackDone target turnId s) = clientSocket s"
  "toClient (onAudioPlaybackDone target turnId s) = toClient s"
  "toProvider (onAudioPlaybackDone target turnId s) = toProvider s"
  by (simp_all add: onAudioPlaybackDone_def)

lemma request_next_frame [simp]:
  "sessionReady (request_next s) = sessionReady s"
  "pendingStart (request_next s) = pendingStart s"
  "autoMode (request_next s) = autoMode s"
  "userSpeaking (request_next s) = userSpeaking s"
  "totalTurns (request_next s) = totalTurns s"
  "sessionEnded (request_next s) = sessionEnded s"
  "sessionEndReason (request_next s) = sessionEndReason s"
  "lastUserTranscript (request_next s) = lastUserTranscript s"
  "lastUserTranscriptAt (request_next s) = lastUserTranscriptAt s"
  "coverage (request_next s) = coverage s"
  "aiSockets (request_next s) = aiSockets s"
  "strayPlaybackDone (request_next s) = strayPlaybackDone s"
  "clientSocket (request_next s) = clientSocket s"
  "toClient (request_next s) = toClient s"
  "toProvider (request_next s) = toProvider s"
  by (simp_all add: request_next_def split: list.splits)

lemma checkTurnCompletion_untyped_frame [simp]:
  "sessionReady (checkTurnCompletion_untyped target s) = sessionReady s"
  "pendingStart (checkTurnCompletion_untyped target s) = pendingStart s"
  "autoMode (checkTurnCompletion_untyped target s) = autoMode s"
  "userSpeaking (checkTurnCompletion_untyped target s) = userSpeaking s"
  "totalTurns (checkTurnCompletion_untyped target s) = totalTurns s"
  "sessionEnded (checkTurnCompletion_untyped target s) = sessionEnded s"
  "sessionEndReason (checkTurnCompletion_untyped target s) = sessionEndReason s"
  "lastUserTranscript (checkTurnCompletion_untyped target s) = lastUserTranscript s"
  "lastUserTranscriptAt (checkTurnCompletion_untyped target s) = lastUserTranscriptAt s"
  "coverage (checkTurnCompletion_untyped target s) = coverage s"
  "aiSockets (checkTurnCompletion_untyped target s) = aiSockets s"
  "strayPlaybackDone (checkTurnCompletion_untyped target s) = strayPlaybackDone s"
  "clientSocket (checkTurnCompletion_untyped target s) = clientSocket s"
  "toClient (checkTurnCompletion_untyped target s) = toClient s"
  "toProvider (checkTurnCompletion_untyped target s) = toProvider s"
  by (cases target; simp)+

lemma onUntypedPlaybackDone_frame [simp]:
  "sessionReady (onUntypedPlaybackDone target turnId s) = sessionReady s"
  "pendingStart (onUntypedPlaybackDone target turnId s) = pendingStart s"
  "autoMode (onUntypedPlaybackDone target turnId s) = autoMode s"
  "userSpeaking (onUntypedPlaybackDone target turnId s) = userSpeaking s"
  "totalTurns (onUntypedPlaybackDone target turnId s) = totalTurns s"
  "sessionEnded (onUntypedPlaybackDone target turnId s) = sessionEnded s"
  "sessionEndReason (onUntypedPlaybackDone target turnId s) = sessionEndReason s"
  "lastUserTranscript (onUntypedPlaybackDone target turnId s) = lastUserTranscript s"
  "lastUserTranscriptAt (onUntypedPlaybackDone target turnId s) = lastUserTranscriptAt s"
  "coverage (onUntypedPlaybackDone target turnId s) = coverage s"
  "aiSockets (onUntypedPlaybackDone target turnId s) = aiSockets s"
  "clientSocket (onUntypedPlaybackDone target turnId s) = clientSocket s"
  "toClient (onUntypedPlaybackDone target turnId s) = toClient s"
  "toProvider (onUntypedPlaybackDone target turnId s) = toProvider s"
  by (cases target; simp)+

lemma run_timer_frame [simp]:
  "sessionReady (run_timer i s) = sessionReady s"
  "pendingStart (run_timer i s) = pendingStart s"
  "autoMode (run_timer i s) = autoMode s"
  "userSpeaking (run_timer i s) = userSpeaking s"
  "queuedNextKeys (run_timer i s) = queuedNextKeys s"
  "totalTurns (run_timer i s) = totalTurns s"
  "sessionEnded (run_timer i s) = sessionEnded s"
  "sessionEndReason (run_timer i s) = sessionEndReason s"
  "transcriptBuffers (run_timer i s) = transcriptBuffers s"
  "audioStarted (run_timer i s) = audioStarted s"
  "audioDone (run_timer i s) = audioDone s"
  "transcriptDone (run_timer i s) = transcriptDone s"
  "transcriptSent (run_timer i s) = transcriptSent s"
  "playbackDone (run_timer i s) = playbackDone s"
  "currentTurn (run_timer i s) = currentTurn s"
  "transcriptDeltaQueue (run_timer i s) = transcriptDeltaQueue s"
  "transcriptFinalText (run_timer i s) = transcriptFinalText s"
  "lastUserTranscript (run_timer i s) = lastUserTranscript s"
  "lastUserTranscriptAt (run_timer i s) = lastUserTranscriptAt s"
  "coverage (run_timer i s) = coverage s"
  "aiSockets (run_timer i s) = aiSockets s"
  "strayPlaybackDone (run_timer i s) = strayPlaybackDone s"
  "clientSocket (run_timer i s) = clientSocket s"
  "toClient (run_timer i s) = toClient s"
  "turnLog (run_timer i s) = turnLog s"
  by (simp_all add: run_timer_def)

section \<open>The end of a session in \<open>onTranscriptDone\<close>\<close>

lemma endSession_effect:
  "sessionEnded (endSession reason s)"
  "sessionEndReason (endSession reason s) = (if sessionEnded s then sessionEndReason s else Some reason)"
  "queuedNextKeys (endSession reason s) = (if sessionEnded s then queuedNextKeys s else [])"
  "autoMode (endSession reason s) = (if sessionEnded s then autoMode s else False)"
  "toClient (endSession reason s) =
     (if sessionEnded s \<or> clientSocket s \<noteq> Open then toClient s
      else toClient s @ [Session_ended reason])"
  by (simp_all add: endSession_def sendToClient_def)

lemma end_evaluation_ended:
  "sessionEnded (end_evaluation key finalText s) \<longleftrightarrow>
     sessionEnded s \<or>
     (if has_end_marker finalText then MIN_TURNS \<le> totalTurns s \<and> hasAllCoverage (coverage s)
      else MAX_TURNS \<le> totalTurns s)"
  by (auto simp: end_evaluation_def endSession_effect Let_def)

lemma end_evaluation_reason:
  "sessionEndReason (end_evaluation key finalText s) =
     (if sessionEnded s then sessionEndReason s
      else if has_end_marker finalText then
        (if MIN_TURNS \<le> totalTurns s \<and> hasAllCoverage (coverage s) then Some Marker
         else sessionEndReason s)
      else if MAX_TURNS \<le> totalTurns s then Some Max_turns
      else sessionEndReason s)"
  by (auto simp: end_evaluation_def endSession_effect Let_def)

lemma onTranscriptDone_policy:
  "totalTurns (onTranscriptDone key transcript s) = totalTurns s + 1"
  "coverage (onTranscriptDone key transcript s) =
     (if key = Ai_a then updateCoverage (final_text key transcript s) (coverage s) else coverage s)"
  by (simp_all add: onTranscriptDone_def Let_def)

lemma onTranscriptDone_ended:
  "sessionEnded (onTranscriptDone key transcript s) \<longleftrightarrow>
     sessionEnded s \<or>
     (if has_end_marker (final_text key transcript s) then
        MIN_TURNS \<le> totalTurns s + 1 \<and>
        hasAllCoverage (coverage (onTranscriptDone key transcript s))
      else MAX_TURNS \<le> totalTurns s + 1)"
  by (simp add: onTranscriptDone_def Let_def end_evaluation_ended)

lemma onTranscriptDone_reason:
  "sessionEndReason (onTranscriptDone key transcript s) =
     (if sessionEnded s then sessionEndReason s
      else if has_end_marker (final_text key transcript s) then
        (if MIN_TURNS \<le> totalTurns s + 1 \<and>
            hasAllCoverage (coverage (onTranscriptDone key transcript s))
         then Some Marker else sessionEndReason s)
      else if MAX_TURNS \<le> totalTurns s + 1 then Some Max_turns
      else sessionEndReason s)"
  by (simp add: onTranscriptDone_def Let_def end_evaluation_reason)

lemma inject_context_toProvider:
  "toProvider (inject_context key finalText s) key = toProvider s key"
  by (cases key) (simp_all add: inject_context_def socket_send_def Let_def)

lemma end_evaluation_toProvider:
  "toProvider (end_evaluation key finalText s) Ai_a =
     (if has_end_marker finalText
         \<and> \<not> (MIN_TURNS \<le> totalTurns s \<and> hasAllCoverage (coverage s))
         \<and> key = Ai_a \<and> aiSockets s Ai_a = Open \<and> missing_keys (coverage s) \<noteq> []
      then toProvider s Ai_a @ [Conversation_item_create (continue_text (listMissingCoverage (coverage s)))]
      else toProvider s Ai_a)"
  by (auto simp: end_evaluation_def Let_def socket_send_def listMissingCoverage_empty)

lemma onTranscriptDone_toProvider_self:
  "toProvider (onTranscriptDone Ai_a transcript s) Ai_a =
     (if has_end_marker (final_text Ai_a transcript s)
         \<and> \<not> (MIN_TURNS \<le> totalTurns s + 1
                \<and> hasAllCoverage (updateCoverage (final_text Ai_a transcript s) (coverage s)))
         \<and> aiSockets s Ai_a = Open
         \<and> missing_keys (updateCoverage (final_text Ai_a transcript s) (coverage s)) \<noteq> []
      then toProvider s Ai_a @
             [Conversation_item_create
                (continue_text
                   (listMissingCoverage (updateCoverage (final_text Ai_a transcript s) (coverage s))))]
      else toProvider s Ai_a)"
  by (auto simp: onTranscriptDone_def Let_def inject_context_toProvider end_evaluation_toProvider)

section \<open>Requests and turn identifiers\<close>

lemma requestAiResponse_currentTurn:
  "currentTurn (requestAiResponse k d s) key =
     (if aiSockets s k = Open \<and> k = key then currentTurn s key + 1 else currentTurn s key)"
  by (auto simp: requestAiResponse_def Let_def)

lemma requestAiResponse_timers:
  "timers (requestAiResponse k d s) =
     (if aiSockets s k = Open then timers s @ [(k, d)] else timers s)"
  by (simp add: requestAiResponse_def Let_def)

lemma requestAiResponse_turnLog:
  "turnLog (requestAiResponse k d s) =
     (if aiSockets s k = Open then turnLog s @ [(k, currentTurn s k + 1, Log_response_create)]
      else turnLog s)"
  by (simp add: requestAiResponse_def Let_def logEvent_def)

lemma checkTurnCompletion_eq:
  "checkTurnCompletion key s =
     (if advancing key s then
        requestAiResponse (next_key key s) 450 (s\<lparr>queuedNextKeys := tl (queuedNextKeys s)\<rparr>)
      else s)"
proof (cases "queuedNextKeys s")
  case Nil
  then have same: "s\<lparr>queuedNextKeys := []\<rparr> = s"
    by simp
  from Nil show ?thesis
    by (auto simp: checkTurnCompletion_def advancing_def turn_complete_def next_key_def same)
next
  case (Cons k rest)
  then show ?thesis
    by (auto simp: checkTurnCompletion_def advancing_def turn_complete_def next_key_def)
qed

lemma checkTurnCompletion_idle: "\<not> advancing key s \<Longrightarrow> checkTurnCompletion key s = s"
  by (simp add: checkTurnCompletion_eq)

lemma checkTurnCompletion_currentTurn:
  "currentTurn (checkTurnCompletion key s) k =
     (if advancing key s \<and> aiSockets s (next_key key s) = Open \<and> next_key key s = k
      then currentTurn s k + 1 else currentTurn s k)"
  by (auto simp: checkTurnCompletion_eq requestAiResponse_currentTurn)

lemma checkTurnCompletion_turnLog:
  "turnLog (checkTurnCompletion key s) =
     (if advancing key s \<and> aiSockets s (next_key key s) = Open
      then turnLog s @ [(next_key key s, currentTurn s (next_key key s) + 1, Log_response_create)]
      else turnLog s)"
  by (simp add: checkTurnCompletion_eq requestAiResponse_turnLog)

lemma checkTurnCompletion_timers:
  "timers (checkTurnCompletion key s) =
     (if advancing key s \<and> aiSockets s (next_key key s) = Open
      then timers s @ [(next_key key s, 450)] else timers s)"
  by (simp add: checkTurnCompletion_eq requestAiResponse_timers)

lemma checkTurnCompletion_queue:
  "queuedNextKeys (checkTurnCompletion key s) =
     (if advancing key s then tl (queuedNextKeys s) else queuedNextKeys s)"
  by (simp add: checkTurnCompletion_eq)

lemma request_next_eq:
  "request_next s =
     (if autoMode s \<and> \<not> userSpeaking s \<and> \<not> sessionEnded s then
        requestAiResponse (case queuedNextKeys s of [] \<Rightarrow> Ai_a | k # rest \<Rightarrow> k) 450
          (s\<lparr>queuedNextKeys := tl (queuedNextKeys s)\<rparr>)
      else s)"
proof (cases "queuedNextKeys s")
  case Nil
  then have same: "s\<lparr>queuedNextKeys := []\<rparr> = s"
    by simp
  from Nil show ?thesis
    by (auto simp: request_next_def same)
next
  case (Cons k rest)
  then show ?thesis
    by (auto simp: request_next_def)
qed

lemma request_next_idle:
  "\<not> (autoMode s \<and> \<not> userSpeaking s \<and> \<not> sessionEnded s) \<Longrightarrow> request_next s = s"
  by (auto simp: request_next_eq)

lemmas request_effects =
  requestAiResponse_currentTurn requestAiResponse_turnLog
  checkTurnCompletion_currentTurn checkTurnCompletion_turnLog

text \<open>One step of the connection gives each role at most one new turn, and the log has
  the identifier of the new turn.\<close>

lemma turn_step_refl: "turn_step s s"
  by (simp add: turn_step_def)

lemma turn_step_same:
  "currentTurn s' = currentTurn s \<Longrightarrow> turnLog s' = turnLog s \<Longrightarrow> turn_step s s'"
  by (simp add: turn_step_def issued_def)

lemma turn_step_request: "turn_step s (requestAiResponse k d s)"
  by (auto simp: turn_step_def issued_def request_effects)

lemma turn_step_onReady: "turn_step s (onReady key s)"
  by (auto simp: turn_step_def issued_def onReady_def Let_def request_effects)

lemma turn_step_onAudioDelta: "turn_step s (onAudioDelta key a s)"
  by (auto simp: turn_step_def issued_def onAudioDelta_def Let_def logEvent_def split: list.splits)

lemma turn_step_onAudioDone: "turn_step s (onAudioDone key s)"
  by (auto simp: turn_step_def issued_def onAudioDone_def Let_def logEvent_def request_effects)

lemma turn_step_onTranscriptDelta: "turn_step s (onTranscriptDelta key d s)"
  by (auto simp: turn_step_def issued_def onTranscriptDelta_def Let_def logEvent_def)

lemma turn_step_onTranscriptDone: "turn_step s (onTranscriptDone key t s)"
  by (auto simp: turn_step_def issued_def onTranscriptDone_def Let_def logEvent_def request_effects)

lemma turn_step_onStart: "turn_step s (onStart s)"
  by (auto simp: turn_step_def issued_def onStart_def Let_def request_effects)

lemma turn_step_onUserDone: "turn_step s (onUserDone now s)"
  by (auto simp: turn_step_def issued_def onUserDone_def Let_def request_effects split: list.splits)

lemma turn_step_onAudioPlaybackDone: "turn_step s (onAudioPlaybackDone target turnId s)"
  by (auto simp: turn_step_def issued_def onAudioPlaybackDone_def logEvent_def request_effects)

lemma turn_step_request_next: "turn_step s (request_next s)"
  by (auto simp: turn_step_def issued_def request_next_eq request_effects)

lemma turn_step_onUntypedPlaybackDone: "turn_step s (onUntypedPlaybackDone target turnId s)"
proof (cases target)
  case (Wrapped key)
  then show ?thesis
    by (auto simp: turn_step_def issued_def logEvent_def request_next_eq request_effects)
next
  case Inherited
  then show ?thesis
    by (auto simp: turn_step_def issued_def request_next_eq request_effects)
next
  case Unknown
  then show ?thesis
    by (auto simp: turn_step_def issued_def)
qed

lemma turn_step_onClientMessage: "turn_step s (onClientMessage m s)"
proof (cases "(m, s)" rule: onClientMessage.cases)
  case (4 d s')
  then show ?thesis by (auto intro: turn_step_same)
next
  case (5 s')
  then show ?thesis by (auto intro: turn_step_same)
next
  case (6 s')
  then show ?thesis by (auto intro: turn_step_same)
qed (simp_all add: turn_step_onStart turn_step_onUserDone turn_step_onAudioPlaybackDone
       turn_step_onUntypedPlaybackDone turn_step_request turn_step_refl)

lemma turn_step_onProviderEvent: "turn_step s (onProviderEvent key ev s)"
proof (cases ev)
  case (Input_transcript_done t now)
  then show ?thesis by (auto intro: turn_step_same)
next
  case (Provider_error m)
  then show ?thesis by (auto intro: turn_step_same)
qed (simp_all add: turn_step_onReady turn_step_onAudioDelta turn_step_onAudioDone
       turn_step_onTranscriptDelta turn_step_onTranscriptDone turn_step_refl)

lemma turn_step_handle: "turn_step s (handle e s)"
proof (cases e)
  case (Timer i)
  then show ?thesis by (auto intro: turn_step_same)
qed (simp_all add: turn_step_onClientMessage turn_step_onProviderEvent turn_step_same)

section \<open>When no request is made\<close>

lemma requested_empty: "requested s s' = [] \<longleftrightarrow> currentTurn s' = currentTurn s"
proof
  assume "requested s s' = []"
  then have "currentTurn s' key = currentTurn s key" for key
    by (cases key) (auto simp: requested_def split: if_splits)
  then show "currentTurn s' = currentTurn s"
    by (rule ext)
qed (simp add: requested_def)

lemma autoMode_end_evaluation: "autoMode (end_evaluation key finalText s) \<Longrightarrow> autoMode s"
  by (auto simp: end_evaluation_def endSession_def Let_def split: if_splits)

lemma sessionEnded_end_evaluation: "sessionEnded s \<Longrightarrow> sessionEnded (end_evaluation key finalText s)"
  by (auto simp: end_evaluation_def endSession_def Let_def)

lemma end_evaluation_ended_auto:
  "sessionEnded (end_evaluation key finalText s) \<Longrightarrow> \<not> sessionEnded s \<Longrightarrow>
     \<not> autoMode (end_evaluation key finalText s) \<and> queuedNextKeys (end_evaluation key finalText s) = []"
  by (auto simp: end_evaluation_def endSession_def Let_def split: if_splits)

lemma end_evaluation_queue_ended:
  "sessionEnded s \<Longrightarrow> queuedNextKeys (end_evaluation key finalText s) = queuedNextKeys s"
  "sessionEnded s \<Longrightarrow> autoMode (end_evaluation key finalText s) = autoMode s"
  "sessionEnded s \<Longrightarrow> sessionEndReason (end_evaluation key finalText s) = sessionEndReason s"
  by (auto simp: end_evaluation_def endSession_def Let_def)

text \<open>The state that \<open>onAudioDone\<close> gives to \<open>checkTurnCompletion\<close>.\<close>

lemma onAudioDone_gate:
  assumes "\<not> (transcriptDone s key \<and> playbackDone s key \<and> autoMode s \<and> \<not> userSpeaking s
              \<and> \<not> sessionEnded s)"
  shows "currentTurn (onAudioDone key s) = currentTurn s"
    and "timers (onAudioDone key s) = timers s"
    and "queuedNextKeys (onAudioDone key s) = queuedNextKeys s"
    and "audioDone (onAudioDone key s) = (audioDone s)(key := True)"
    and "transcriptDone (onAudioDone key s) = transcriptDone s"
    and "playbackDone (onAudioDone key s) = playbackDone s"
  using assms
  by (auto simp: onAudioDone_def Let_def checkTurnCompletion_idle advancing_def turn_complete_def)

lemma onAudioPlaybackDone_gate:
  assumes "\<not> (audioDone s key \<and> transcriptDone s key \<and> autoMode s \<and> \<not> userSpeaking s
              \<and> \<not> sessionEnded s)"
  shows "currentTurn (onAudioPlaybackDone key turnId s) = currentTurn s"
    and "timers (onAudioPlaybackDone key turnId s) = timers s"
    and "queuedNextKeys (onAudioPlaybackDone key turnId s) = queuedNextKeys s"
  using assms
  by (auto simp: onAudioPlaybackDone_def checkTurnCompletion_idle advancing_def turn_complete_def)

lemma onTranscriptDone_gate:
  assumes "\<not> (audioDone s key \<and> playbackDone s key \<and> autoMode s \<and> \<not> userSpeaking s
              \<and> \<not> sessionEnded s)"
  shows "currentTurn (onTranscriptDone key transcript s) = currentTurn s"
    and "timers (onTranscriptDone key transcript s) = timers s"
    and "audioDone (onTranscriptDone key transcript s) = audioDone s"
    and "playbackDone (onTranscriptDone key transcript s) = playbackDone s"
    and "transcriptDone (onTranscriptDone key transcript s) = (transcriptDone s)(key := True)"
proof -
  define s4 where "s4 =
    (if key = Ai_a then
       (logEvent key (Log_transcript_done (length (final_text key transcript s)))
          (s\<lparr>transcriptBuffers := (transcriptBuffers s)(key := []),
              transcriptFinalText := (transcriptFinalText s)(key := Some (final_text key transcript s)),
              transcriptDone := (transcriptDone s)(key := True)\<rparr>))
        \<lparr>totalTurns := totalTurns s + 1,
          coverage := updateCoverage (final_text key transcript s) (coverage s)\<rparr>
     else
       (logEvent key (Log_transcript_done (length (final_text key transcript s)))
          (s\<lparr>transcriptBuffers := (transcriptBuffers s)(key := []),
              transcriptFinalText := (transcriptFinalText s)(key := Some (final_text key transcript s)),
              transcriptDone := (transcriptDone s)(key := True)\<rparr>))
        \<lparr>totalTurns := totalTurns s + 1\<rparr>)"
  define s5 where "s5 = end_evaluation key (final_text key transcript s) s4"
  define s6 where "s6 =
    (if audioDone s5 key \<and> truthy (transcriptFinalText s5 key) \<and> \<not> transcriptSent s5 key
     then send_transcript_done key s5 else s5)"
  have unfolded: "onTranscriptDone key transcript s =
      inject_context key (final_text key transcript s) (checkTurnCompletion key s6)"
    by (simp add: onTranscriptDone_def Let_def s6_def s5_def s4_def)
  have s4: "audioDone s4 = audioDone s" "playbackDone s4 = playbackDone s" "autoMode s4 = autoMode s"
    "userSpeaking s4 = userSpeaking s" "sessionEnded s4 = sessionEnded s"
    "currentTurn s4 = currentTurn s" "timers s4 = timers s"
    "transcriptDone s4 = (transcriptDone s)(key := True)"
    by (simp_all add: s4_def)
  have s6: "audioDone s6 = audioDone s" "playbackDone s6 = playbackDone s"
    "userSpeaking s6 = userSpeaking s" "autoMode s6 = autoMode s5" "sessionEnded s6 = sessionEnded s5"
    "currentTurn s6 = currentTurn s" "timers s6 = timers s"
    "transcriptDone s6 = (transcriptDone s)(key := True)"
    by (simp_all add: s6_def s5_def s4)
  have "\<not> advancing key s6"
    using assms autoMode_end_evaluation [of key "final_text key transcript s" s4]
      sessionEnded_end_evaluation [of s4 key "final_text key transcript s"]
    by (auto simp: advancing_def turn_complete_def s6 s5_def [symmetric] s4)
  then have "checkTurnCompletion key s6 = s6"
    by (rule checkTurnCompletion_idle)
  then show "currentTurn (onTranscriptDone key transcript s) = currentTurn s"
    and "timers (onTranscriptDone key transcript s) = timers s"
    and "audioDone (onTranscriptDone key transcript s) = audioDone s"
    and "playbackDone (onTranscriptDone key transcript s) = playbackDone s"
    and "transcriptDone (onTranscriptDone key transcript s) = (transcriptDone s)(key := True)"
    by (simp_all add: unfolded s6)
qed

lemma run_timer_timers:
  "timers (run_timer i s) = timers s \<or>
   timers (run_timer i s) = take i (timers s) @ drop (Suc i) (timers s)"
  by (simp add: run_timer_def)

lemma onAudioPlaybackDone_stale:
  "turnId \<noteq> None \<Longrightarrow> turnId \<noteq> Some (int (currentTurn s key)) \<Longrightarrow>
     onAudioPlaybackDone key turnId s = s"
  by (simp add: onAudioPlaybackDone_def)

lemma onUntypedPlaybackDone_gate:
  assumes "target = Inherited \<longrightarrow>
             turnId \<noteq> None \<or> \<not> (autoMode s \<and> \<not> userSpeaking s \<and> \<not> sessionEnded s)"
    and "\<forall>key. target = Wrapped key \<longrightarrow>
           \<not> (audioDone s key \<and> transcriptDone s key
              \<and> (turnId = None \<or> turnId = Some (int (currentTurn s key)))
              \<and> autoMode s \<and> \<not> userSpeaking s \<and> \<not> sessionEnded s)"
  shows "currentTurn (onUntypedPlaybackDone target turnId s) = currentTurn s"
    and "timers (onUntypedPlaybackDone target turnId s) = timers s"
    and "queuedNextKeys (onUntypedPlaybackDone target turnId s) = queuedNextKeys s"
  using assms
  by (cases target; auto simp: request_next_idle)+

lemma onReady_waiting:
  assumes "\<not> (pendingStart s \<and> ((sessionReady s)(key := True)) Ai_a
              \<and> ((sessionReady s)(key := True)) Ai_b)"
  shows "currentTurn (onReady key s) = currentTurn s" and "timers (onReady key s) = timers s"
  using assms by (auto simp: onReady_def Let_def)

lemma gate_no_request:
  assumes "\<not> explicit_request e s" and "\<not> inherited_ack e" and "\<not> others_done e s"
  shows "currentTurn (handle e s) = currentTurn s \<and>
         (timers (handle e s) = timers s \<or>
          (\<exists>i. e = Timer i \<and> timers (handle e s) = take i (timers s) @ drop (Suc i) (timers s)))"
proof (cases e)
  case (Client m)
  show ?thesis
  proof (cases "(m, s)" rule: onClientMessage.cases)
    case (8 key turnId s')
    show ?thesis
    proof (cases "turnId = None \<or> turnId = Some (int (currentTurn s key))")
      case True
      with Client 8 assms show ?thesis
        by (auto simp: onAudioPlaybackDone_gate)
    next
      case False
      with Client 8 show ?thesis
        by (simp add: onAudioPlaybackDone_stale)
    qed
  next
    case (11 target turnId s')
    with Client assms have "currentTurn (onUntypedPlaybackDone target turnId s) = currentTurn s"
      and "timers (onUntypedPlaybackDone target turnId s) = timers s"
      by (cases target; cases turnId; simp add: onUntypedPlaybackDone_gate)+
    with Client 11 show ?thesis
      by simp
  qed (use Client assms in auto)
next
  case (Provider key ev)
  with assms show ?thesis
    by (cases ev) (auto simp: onAudioDone_gate onTranscriptDone_gate onReady_waiting)
next
  case (Timer i)
  then show ?thesis
    using run_timer_timers [of i s] by simp
qed simp_all

section \<open>The flags of a turn\<close>

text \<open>Every request clears the three flags of its role, and a flag is set only by the
  handler of its own event.\<close>

lemma requestAiResponse_flags:
  "audioDone (requestAiResponse k d s) key = (audioDone s key \<and> \<not> (aiSockets s k = Open \<and> k = key))"
  "transcriptDone (requestAiResponse k d s) key
     = (transcriptDone s key \<and> \<not> (aiSockets s k = Open \<and> k = key))"
  "playbackDone (requestAiResponse k d s) key
     = (playbackDone s key \<and> \<not> (aiSockets s k = Open \<and> k = key))"
  by (auto simp: requestAiResponse_def Let_def)

lemma checkTurnCompletion_flags:
  "audioDone (checkTurnCompletion k s) key
     = (audioDone s key \<and> \<not> (advancing k s \<and> aiSockets s (next_key k s) = Open \<and> next_key k s = key))"
  "transcriptDone (checkTurnCompletion k s) key
     = (transcriptDone s key
        \<and> \<not> (advancing k s \<and> aiSockets s (next_key k s) = Open \<and> next_key k s = key))"
  "playbackDone (checkTurnCompletion k s) key
     = (playbackDone s key
        \<and> \<not> (advancing k s \<and> aiSockets s (next_key k s) = Open \<and> next_key k s = key))"
  by (auto simp: checkTurnCompletion_eq requestAiResponse_flags)

lemmas flag_effects =
  requestAiResponse_flags checkTurnCompletion_flags
  requestAiResponse_currentTurn checkTurnCompletion_currentTurn

lemma turn_flags_same:
  "currentTurn s' = currentTurn s \<Longrightarrow> audioDone s' = audioDone s \<Longrightarrow>
     transcriptDone s' = transcriptDone s \<Longrightarrow> playbackDone s' = playbackDone s \<Longrightarrow>
     turn_flags audio transcript playback key s s'"
  by (simp add: turn_flags_def)

lemma turn_flags_request: "turn_flags False False False key s (requestAiResponse k d s)"
  by (auto simp: turn_flags_def flag_effects)

lemma turn_flags_request_next: "turn_flags False False False key s (request_next s)"
  by (auto simp: turn_flags_def request_next_eq flag_effects)

lemma turn_flags_onReady: "turn_flags False False False key s (onReady k s)"
  by (auto simp: turn_flags_def onReady_def Let_def flag_effects)

lemma turn_flags_onStart: "turn_flags False False False key s (onStart s)"
  by (auto simp: turn_flags_def onStart_def Let_def flag_effects)

lemma turn_flags_onUserDone: "turn_flags False False False key s (onUserDone now s)"
  by (auto simp: turn_flags_def onUserDone_def Let_def flag_effects split: list.splits)

lemma turn_flags_onAudioDone: "turn_flags (k = key) False False key s (onAudioDone k s)"
  by (auto simp: turn_flags_def onAudioDone_def Let_def flag_effects)

lemma turn_flags_checkTurnCompletion:
  assumes "currentTurn s1 = currentTurn s"
    and "audioDone s1 key \<and> \<not> audioDone s key \<longrightarrow> audio"
    and "transcriptDone s1 key \<and> \<not> transcriptDone s key \<longrightarrow> transcript"
    and "playbackDone s1 key \<and> \<not> playbackDone s key \<longrightarrow> playback"
  shows "turn_flags audio transcript playback key s (checkTurnCompletion k s1)"
  using assms by (auto simp: turn_flags_def flag_effects)

lemma turn_flags_cong:
  assumes "turn_flags audio transcript playback key s s'"
    and "currentTurn s'' = currentTurn s'" and "audioDone s'' = audioDone s'"
    and "transcriptDone s'' = transcriptDone s'" and "playbackDone s'' = playbackDone s'"
  shows "turn_flags audio transcript playback key s s''"
  using assms by (simp add: turn_flags_def)

lemma turn_flags_onTranscriptDone:
  "turn_flags False (k = key) False key s (onTranscriptDone k transcript s)"
proof -
  define s4 where "s4 =
    (if k = Ai_a then
       (logEvent k (Log_transcript_done (length (final_text k transcript s)))
          (s\<lparr>transcriptBuffers := (transcriptBuffers s)(k := []),
              transcriptFinalText := (transcriptFinalText s)(k := Some (final_text k transcript s)),
              transcriptDone := (transcriptDone s)(k := True)\<rparr>))
        \<lparr>totalTurns := totalTurns s + 1,
          coverage := updateCoverage (final_text k transcript s) (coverage s)\<rparr>
     else
       (logEvent k (Log_transcript_done (length (final_text k transcript s)))
          (s\<lparr>transcriptBuffers := (transcriptBuffers s)(k := []),
              transcriptFinalText := (transcriptFinalText s)(k := Some (final_text k transcript s)),
              transcriptDone := (transcriptDone s)(k := True)\<rparr>))
        \<lparr>totalTurns := totalTurns s + 1\<rparr>)"
  define s5 where "s5 = end_evaluation k (final_text k transcript s) s4"
  define s6 where "s6 =
    (if audioDone s5 k \<and> truthy (transcriptFinalText s5 k) \<and> \<not> transcriptSent s5 k
     then send_transcript_done k s5 else s5)"
  have unfolded: "onTranscriptDone k transcript s =
      inject_context k (final_text k transcript s) (checkTurnCompletion k s6)"
    by (simp add: onTranscriptDone_def Let_def s6_def s5_def s4_def)
  have s4: "audioDone s4 = audioDone s" "playbackDone s4 = playbackDone s"
    "currentTurn s4 = currentTurn s" "transcriptDone s4 = (transcriptDone s)(k := True)"
    by (simp_all add: s4_def)
  have s6: "audioDone s6 = audioDone s" "playbackDone s6 = playbackDone s"
    "currentTurn s6 = currentTurn s" "transcriptDone s6 = (transcriptDone s)(k := True)"
    by (simp_all add: s6_def s5_def s4)
  have "turn_flags False (k = key) False key s (checkTurnCompletion k s6)"
    by (rule turn_flags_checkTurnCompletion) (auto simp: s6)
  then show ?thesis
    unfolding unfolded by (rule turn_flags_cong) simp_all
qed

lemma turn_flags_onAudioPlaybackDone:
  "turn_flags False False
     (k = key \<and> (turnId = None \<or> turnId = Some (int (currentTurn s key)))) key s
     (onAudioPlaybackDone k turnId s)"
  by (auto simp: turn_flags_def onAudioPlaybackDone_def flag_effects)

lemma turn_flags_onUntypedPlaybackDone:
  "turn_flags False False
     (target = Wrapped key \<and> (turnId = None \<or> turnId = Some (int (currentTurn s key)))) key s
     (onUntypedPlaybackDone target turnId s)"
  by (cases target) (auto simp: turn_flags_def request_next_eq flag_effects)

lemma turn_flags_weaken:
  "turn_flags audio transcript playback key s s' \<Longrightarrow> (audio \<Longrightarrow> audio') \<Longrightarrow>
     (transcript \<Longrightarrow> transcript') \<Longrightarrow> (playback \<Longrightarrow> playback') \<Longrightarrow>
     turn_flags audio' transcript' playback' key s s'"
  by (auto simp: turn_flags_def)

lemma turn_flags_handle:
  "turn_flags (e = Provider key Audio_finished)
     (\<exists>transcript. e = Provider key (Transcript_finished transcript))
     (\<exists>turnId. (turnId = None \<or> turnId = Some (int (currentTurn s key))) \<and>
        (e = Client (Audio_playback_done (Some key) turnId) \<or>
         e = Client (Audio_playback_done_untyped (Wrapped key) turnId)))
     key s (handle e s)"
proof (cases e)
  case (Client m)
  show ?thesis
  proof (cases "(m, s)" rule: onClientMessage.cases)
    case (1 s')
    with Client show ?thesis
      by (auto intro: turn_flags_weaken [OF turn_flags_onStart])
  next
    case (2 target s')
    with Client show ?thesis
      by (auto intro: turn_flags_weaken [OF turn_flags_request])
  next
    case (7 now s')
    with Client show ?thesis
      by (auto intro: turn_flags_weaken [OF turn_flags_onUserDone])
  next
    case (8 target turnId s')
    with Client show ?thesis
      by (auto intro: turn_flags_weaken [OF turn_flags_onAudioPlaybackDone])
  next
    case (11 target turnId s')
    with Client show ?thesis
      by (auto intro: turn_flags_weaken [OF turn_flags_onUntypedPlaybackDone])
  qed (use Client in \<open>auto intro: turn_flags_same\<close>)
next
  case (Provider k ev)
  show ?thesis
  proof (cases ev)
    case Ready
    with Provider show ?thesis
      by (auto intro: turn_flags_weaken [OF turn_flags_onReady])
  next
    case Audio_finished
    with Provider show ?thesis
      by (auto intro: turn_flags_weaken [OF turn_flags_onAudioDone])
  next
    case (Transcript_finished transcript)
    with Provider show ?thesis
      by (auto intro: turn_flags_weaken [OF turn_flags_onTranscriptDone])
  qed (use Provider in \<open>auto intro: turn_flags_same\<close>)
next
  case (Timer i)
  then show ?thesis
    by (auto intro: turn_flags_same)
qed (auto intro: turn_flags_same)

section \<open>Runs\<close>

lemma handle_run_opening_fields:
  "aiSockets (run session_opening initial_state) Ai_a = Open"
  "aiSockets (run session_opening initial_state) Ai_b = Open"
  "clientSocket (run session_opening initial_state) = Open"
  "sessionEnded (run session_opening initial_state) = False"
  "totalTurns (run session_opening initial_state) = 0"
  "coverage (run session_opening initial_state) k = False"
  "autoMode (run session_opening initial_state) = True"
  "userSpeaking (run session_opening initial_state) = False"
  "sessionReady (run session_opening initial_state) Ai_a = True"
  "sessionReady (run session_opening initial_state) Ai_b = True"
  "lastUserTranscript (run session_opening initial_state) = []"
  "lastUserTranscriptAt (run session_opening initial_state) = 0"
  "queuedNextKeys (run session_opening initial_state) = []"
  "sessionEndReason (run session_opening initial_state) = None"
  by (simp_all add: session_opening_def onStart_def onReady_def Let_def initial_state_def)

lemma opening_requests:
  "currentTurn (run session_opening initial_state) Ai_a = 1"
  "currentTurn (run session_opening initial_state) Ai_b = 0"
  "toProvider (run session_opening initial_state) Ai_a = [Response_create]"
  "timers (run session_opening initial_state) = []"
  by (simp_all add: session_opening_def onStart_def onReady_def Let_def initial_state_def
        requestAiResponse_currentTurn requestAiResponse_timers run_timer_def timer_body_def
        socket_send_def sendToClient_def)

lemma run_append: "run (es @ es') s = run es' (run es s)"
  by (induction es arbitrary: s) simp_all

lemma run_snoc: "run (es @ [e]) s = handle e (run es s)"
  by (simp add: run_append)

lemma issued_step:
  assumes "turn_step s s'" and "issued key s = [1..<Suc (currentTurn s key)]"
  shows "issued key s' = [1..<Suc (currentTurn s' key)]"
  using assms by (auto simp: turn_step_def dest!: spec [of _ key])

lemma issued_run:
  "issued key s = [1..<Suc (currentTurn s key)] \<Longrightarrow>
     issued key (run es s) = [1..<Suc (currentTurn (run es s) key)]"
  by (induction es arbitrary: s) (simp_all add: issued_step [OF turn_step_handle])

lemma currentTurn_handle_mono: "currentTurn s key \<le> currentTurn (handle e s) key"
  using turn_step_handle [of s e] by (auto simp: turn_step_def dest!: spec [of _ key])

lemma currentTurn_run_mono: "currentTurn s key \<le> currentTurn (run es s) key"
proof (induction es arbitrary: s)
  case Nil
  show ?case by simp
next
  case (Cons e es)
  have "currentTurn s key \<le> currentTurn (handle e s) key"
    by (rule currentTurn_handle_mono)
  also have "\<dots> \<le> currentTurn (run es (handle e s)) key"
    by (rule Cons.IH)
  finally show ?case by simp
qed

section \<open>Further facts about coverage, routing and runs\<close>

lemma includes_any_iff:
  "includes_any ws t \<longleftrightarrow> (\<exists>w\<in>set ws. \<exists>pre post. t = pre @ w @ post)"
  by (auto simp: includes_any_def list_ex_iff js_includes_sublist sublist_def)

lemma coverage_handle_mono:
  assumes "e \<noteq> Client Start" and "coverage s k"
  shows "coverage (handle e s) k"
proof (cases e)
  case (Client m)
  with assms show ?thesis
    by (cases "(m, s)" rule: onClientMessage.cases) simp_all
next
  case (Provider key ev)
  with assms show ?thesis
    by (cases ev) (simp_all add: onTranscriptDone_policy updateCoverage_apply)
qed (use assms in simp_all)

lemma no_hint_in_empty:
  "\<not> includes_any candidateHints []" "\<not> includes_any interviewerHints []"
  by (simp_all add: includes_any_def candidateHints_def interviewerHints_def)

lemma pickNextSpeaker_both:
  "includes_any candidateHints (strip_ws u) \<Longrightarrow> includes_any interviewerHints (strip_ws u)
     \<Longrightarrow> pickNextSpeaker u = Some Both"
  by (auto simp: pickNextSpeaker_def Let_def no_hint_in_empty)

lemma pickNextSpeaker_none:
  "\<not> includes_any candidateHints (strip_ws u) \<Longrightarrow> \<not> includes_any interviewerHints (strip_ws u)
     \<Longrightarrow> pickNextSpeaker u = None"
  by (simp add: pickNextSpeaker_def Let_def)

lemma plain_text_facts:
  "\<not> has_end_marker plain_text" "final_text key plain_text s = plain_text"
  "strip_ws plain_text = plain_text" "\<not> includes_any (coverage_words k) plain_text"
proof -
  show "\<not> has_end_marker plain_text" "final_text key plain_text s = plain_text"
    "strip_ws plain_text = plain_text"
    by (simp_all add: plain_text_def ascii_def has_end_marker_def includes_any_def endMarkers_def
          final_text_def strip_ws_def is_space_def)
  show "\<not> includes_any (coverage_words k) plain_text"
    by (cases k) (simp_all add: plain_text_def ascii_def includes_any_def)
qed

lemma plain_transcript_step:
  assumes "\<not> sessionEnded s" and "totalTurns s + 1 < MAX_TURNS"
  shows "totalTurns (handle (Provider key (Transcript_finished plain_text)) s) = totalTurns s + 1"
    and "coverage (handle (Provider key (Transcript_finished plain_text)) s) = coverage s"
    and "\<not> sessionEnded (handle (Provider key (Transcript_finished plain_text)) s)"
    and "sessionEndReason (handle (Provider key (Transcript_finished plain_text)) s) = sessionEndReason s"
    and "aiSockets (handle (Provider key (Transcript_finished plain_text)) s) = aiSockets s"
    and "autoMode (handle (Provider key (Transcript_finished plain_text)) s) = autoMode s"
  using assms
  by (auto simp: onTranscriptDone_policy onTranscriptDone_ended onTranscriptDone_reason
        plain_text_facts updateCoverage_apply fun_eq_iff onTranscriptDone_def Let_def
        end_evaluation_def simp del: coverage_words.simps)

lemma plain_transcripts_run:
  assumes "\<not> sessionEnded s" and "totalTurns s + n < MAX_TURNS"
  shows "totalTurns (run (replicate n (Provider key (Transcript_finished plain_text))) s) = totalTurns s + n
    \<and> coverage (run (replicate n (Provider key (Transcript_finished plain_text))) s) = coverage s
    \<and> \<not> sessionEnded (run (replicate n (Provider key (Transcript_finished plain_text))) s)
    \<and> sessionEndReason (run (replicate n (Provider key (Transcript_finished plain_text))) s) = sessionEndReason s
    \<and> aiSockets (run (replicate n (Provider key (Transcript_finished plain_text))) s) = aiSockets s
    \<and> autoMode (run (replicate n (Provider key (Transcript_finished plain_text))) s) = autoMode s"
  using assms
proof (induction n arbitrary: s)
  case 0
  then show ?case by simp
next
  case (Suc n)
  from Suc.prems have one: "totalTurns s + 1 < MAX_TURNS"
    by simp
  note step = plain_transcript_step [OF Suc.prems(1) one, of key]
  from Suc.prems step have "totalTurns (handle (Provider key (Transcript_finished plain_text)) s) + n < MAX_TURNS"
    by simp
  from Suc.IH [OF step(3) this] step show ?case
    by simp
qed





section \<open>An ended session\<close>

lemma ended_inv_same:
  "sessionEnded s' = sessionEnded s \<Longrightarrow> autoMode s' = autoMode s \<Longrightarrow>
     queuedNextKeys s' = queuedNextKeys s \<Longrightarrow> ended_inv s' = ended_inv s"
  by (simp add: ended_inv_def)

lemma ended_inv_running: "\<not> sessionEnded s \<Longrightarrow> ended_inv s"
  by (simp add: ended_inv_def)

lemma ended_inv_end_evaluation:
  assumes "ended_inv s"
  shows "ended_inv (end_evaluation key finalText s)"
proof (cases "sessionEnded s")
  case True
  with assms show ?thesis
    by (simp add: ended_inv_def end_evaluation_queue_ended sessionEnded_end_evaluation)
next
  case False
  with end_evaluation_ended_auto [of key finalText s] show ?thesis
    by (simp add: ended_inv_def)
qed

lemma ended_inv_checkTurnCompletion:
  assumes "ended_inv s"
  shows "ended_inv (checkTurnCompletion key s)"
proof (cases "sessionEnded s")
  case True
  then have "checkTurnCompletion key s = s"
    by (simp add: checkTurnCompletion_idle advancing_def)
  with assms show ?thesis by simp
next
  case False
  then show ?thesis
    by (intro ended_inv_running) simp
qed

lemma ended_inv_onTranscriptDone:
  assumes "ended_inv s"
  shows "ended_inv (onTranscriptDone key transcript s)"
proof -
  define s4 where "s4 =
    (if key = Ai_a then
       (logEvent key (Log_transcript_done (length (final_text key transcript s)))
          (s\<lparr>transcriptBuffers := (transcriptBuffers s)(key := []),
              transcriptFinalText := (transcriptFinalText s)(key := Some (final_text key transcript s)),
              transcriptDone := (transcriptDone s)(key := True)\<rparr>))
        \<lparr>totalTurns := totalTurns s + 1,
          coverage := updateCoverage (final_text key transcript s) (coverage s)\<rparr>
     else
       (logEvent key (Log_transcript_done (length (final_text key transcript s)))
          (s\<lparr>transcriptBuffers := (transcriptBuffers s)(key := []),
              transcriptFinalText := (transcriptFinalText s)(key := Some (final_text key transcript s)),
              transcriptDone := (transcriptDone s)(key := True)\<rparr>))
        \<lparr>totalTurns := totalTurns s + 1\<rparr>)"
  define s5 where "s5 = end_evaluation key (final_text key transcript s) s4"
  define s6 where "s6 =
    (if audioDone s5 key \<and> truthy (transcriptFinalText s5 key) \<and> \<not> transcriptSent s5 key
     then send_transcript_done key s5 else s5)"
  have unfolded: "onTranscriptDone key transcript s =
      inject_context key (final_text key transcript s) (checkTurnCompletion key s6)"
    by (simp add: onTranscriptDone_def Let_def s6_def s5_def s4_def)
  have "ended_inv s4 = ended_inv s"
    by (rule ended_inv_same) (simp_all add: s4_def)
  with assms have "ended_inv s5"
    by (simp add: s5_def ended_inv_end_evaluation)
  moreover have "ended_inv s6 = ended_inv s5"
    by (rule ended_inv_same) (simp_all add: s6_def)
  ultimately have "ended_inv (checkTurnCompletion key s6)"
    by (simp add: ended_inv_checkTurnCompletion)
  moreover have "ended_inv (inject_context key (final_text key transcript s) (checkTurnCompletion key s6))
      = ended_inv (checkTurnCompletion key s6)"
    by (rule ended_inv_same) simp_all
  ultimately show ?thesis
    by (simp add: unfolded)
qed

lemma ended_inv_onAudioDone: "ended_inv s \<Longrightarrow> ended_inv (onAudioDone key s)"
proof -
  assume inv: "ended_inv s"
  define s4 where "s4 =
    (if truthy (transcriptFinalText (sendToClient (Audio_done key (currentTurn s key)) (logEvent key Log_audio_done s)) key)
        \<and> \<not> transcriptSent s key
     then send_transcript_done key
            ((sendToClient (Audio_done key (currentTurn s key)) (logEvent key Log_audio_done s))
               \<lparr>audioDone := (audioDone s)(key := True)\<rparr>)
     else (sendToClient (Audio_done key (currentTurn s key)) (logEvent key Log_audio_done s))
               \<lparr>audioDone := (audioDone s)(key := True)\<rparr>)"
  have unfolded: "onAudioDone key s = checkTurnCompletion key s4"
    by (simp add: onAudioDone_def Let_def s4_def)
  have "ended_inv s4 = ended_inv s"
    by (rule ended_inv_same) (simp_all add: s4_def)
  with inv show ?thesis
    by (simp add: unfolded ended_inv_checkTurnCompletion)
qed

lemma ended_inv_onAudioPlaybackDone: "ended_inv s \<Longrightarrow> ended_inv (onAudioPlaybackDone key turnId s)"
proof -
  assume inv: "ended_inv s"
  have "ended_inv (logEvent key Log_audio_playback_done (s\<lparr>playbackDone := (playbackDone s)(key := True)\<rparr>))
      = ended_inv s"
    by (rule ended_inv_same) simp_all
  with inv show ?thesis
    by (simp add: onAudioPlaybackDone_def ended_inv_checkTurnCompletion)
qed

lemma ended_inv_request_next:
  assumes "ended_inv s"
  shows "ended_inv (request_next s)"
proof (cases "sessionEnded s")
  case True
  then have "request_next s = s"
    by (simp add: request_next_idle)
  with assms show ?thesis by simp
next
  case False
  then show ?thesis
    by (intro ended_inv_running) simp
qed

lemma ended_inv_onUntypedPlaybackDone:
  assumes "ended_inv s"
  shows "ended_inv (onUntypedPlaybackDone target turnId s)"
proof (cases "sessionEnded s")
  case True
  then have "queuedNextKeys (onUntypedPlaybackDone target turnId s) = queuedNextKeys s"
    by (intro onUntypedPlaybackDone_gate) simp_all
  with assms show ?thesis
    by (simp add: ended_inv_def)
next
  case False
  then show ?thesis
    by (intro ended_inv_running) simp
qed

lemma ended_inv_onUserDone:
  assumes "ended_inv s"
  shows "ended_inv (onUserDone now s)"
proof (cases "sessionEnded s")
  case True
  then have "onUserDone now s = s\<lparr>userSpeaking := False\<rparr>"
    by (simp add: onUserDone_def)
  with assms show ?thesis
    by (simp add: ended_inv_def)
next
  case False
  then show ?thesis
    by (intro ended_inv_running) simp
qed

lemma ended_inv_onStart: "ended_inv (onStart s)"
  by (rule ended_inv_running) (simp add: onStart_def Let_def)

lemma ended_inv_handle:
  assumes "ended_inv s"
  shows "ended_inv (handle e s)"
proof (cases e)
  case (Client m)
  show ?thesis
  proof (cases "(m, s)" rule: onClientMessage.cases)
    case (1 s')
    with Client show ?thesis by (simp add: ended_inv_onStart)
  next
    case (7 now s')
    with Client assms show ?thesis by (simp add: ended_inv_onUserDone)
  next
    case (8 target turnId s')
    with Client assms show ?thesis by (simp add: ended_inv_onAudioPlaybackDone)
  next
    case (11 target turnId s')
    with Client assms show ?thesis by (simp add: ended_inv_onUntypedPlaybackDone)
  qed (use Client assms in \<open>simp_all add: ended_inv_def\<close>)
next
  case (Provider key ev)
  show ?thesis
  proof (cases ev)
    case Audio_finished
    with Provider assms show ?thesis by (simp add: ended_inv_onAudioDone)
  next
    case (Transcript_finished t)
    with Provider assms show ?thesis by (simp add: ended_inv_onTranscriptDone)
  qed (use Provider assms in \<open>simp_all add: ended_inv_def\<close>)
qed (use assms in \<open>simp_all add: ended_inv_def\<close>)

lemma ended_inv_run: "ended_inv s \<Longrightarrow> ended_inv (run es s)"
  by (induction es arbitrary: s) (simp_all add: ended_inv_handle)

lemma ended_inv_reachable: "ended_inv (run es initial_state)"
  by (rule ended_inv_run) (simp add: ended_inv_def initial_state_def)

lemma onReady_manual:
  assumes "\<not> autoMode s"
  shows "currentTurn (onReady key s) = currentTurn s" and "timers (onReady key s) = timers s"
  using assms by (simp_all add: onReady_def Let_def)

lemma ended_quiet:
  assumes "sessionEnded s" and "\<not> autoMode s"
    and "e \<noteq> Client Start" and "\<forall>target. e \<noteq> Client (Request_ai target)"
  shows "sessionEnded (handle e s) \<and> currentTurn (handle e s) = currentTurn s
         \<and> (timers (handle e s) = timers s \<or>
             (\<exists>i. e = Timer i \<and> timers (handle e s) = take i (timers s) @ drop (Suc i) (timers s)))"
proof (cases e)
  case (Client m)
  with assms show ?thesis
    by (cases "(m, s)" rule: onClientMessage.cases)
       (simp_all add: onAudioPlaybackDone_gate onUntypedPlaybackDone_gate onUserDone_def)
next
  case (Provider key ev)
  with assms show ?thesis
    by (cases ev)
       (simp_all add: onAudioDone_gate onTranscriptDone_gate onTranscriptDone_ended onReady_manual)
next
  case (Timer i)
  with assms show ?thesis
    using run_timer_timers [of i s] by simp
qed (use assms in simp_all)

lemma plain_transcripts_quiet:
  assumes "\<not> playbackDone s key"
  shows "timers (run (replicate n (Provider key (Transcript_finished plain_text))) s) = timers s
    \<and> currentTurn (run (replicate n (Provider key (Transcript_finished plain_text))) s) = currentTurn s
    \<and> playbackDone (run (replicate n (Provider key (Transcript_finished plain_text))) s) = playbackDone s
    \<and> lastUserTranscript (run (replicate n (Provider key (Transcript_finished plain_text))) s)
        = lastUserTranscript s
    \<and> userSpeaking (run (replicate n (Provider key (Transcript_finished plain_text))) s) = userSpeaking s"
  using assms
proof (induction n arbitrary: s)
  case 0
  then show ?case by simp
next
  case (Suc n)
  from Suc.prems
  have gate: "\<not> (audioDone s key \<and> playbackDone s key \<and> autoMode s \<and> \<not> userSpeaking s \<and> \<not> sessionEnded s)"
    by simp
  note step = onTranscriptDone_gate [OF gate, of plain_text]
  from Suc.prems step(4) have "\<not> playbackDone (handle (Provider key (Transcript_finished plain_text)) s) key"
    by simp
  from Suc.IH [OF this] step show ?case
    by simp
qed

lemma opening_flags: "\<not> playbackDone (run session_opening initial_state) key"
  by (cases key)
     (simp_all add: session_opening_def onStart_def onReady_def Let_def initial_state_def
        requestAiResponse_def)

lemma long_conversation_fields:
  "totalTurns (run long_conversation initial_state) = 39"
  "\<not> sessionEnded (run long_conversation initial_state)"
  "aiSockets (run long_conversation initial_state) Ai_a = Open"
  "autoMode (run long_conversation initial_state)"
  "timers (run long_conversation initial_state) = []"
  "lastUserTranscript (run long_conversation initial_state) = []"
  "\<not> playbackDone (run long_conversation initial_state) Ai_a"
  "\<not> coverage (run long_conversation initial_state) k"
proof -
  have start: "\<not> sessionEnded (run session_opening initial_state)"
    "totalTurns (run session_opening initial_state) + 39 < MAX_TURNS"
    by (simp_all add: handle_run_opening_fields MAX_TURNS_def)
  from plain_transcripts_run [where key = Ai_a, OF start]
       plain_transcripts_quiet [where key = Ai_a and n = 39, OF opening_flags]
       opening_flags [of Ai_a]
  show "totalTurns (run long_conversation initial_state) = 39"
    "\<not> sessionEnded (run long_conversation initial_state)"
    "aiSockets (run long_conversation initial_state) Ai_a = Open"
    "autoMode (run long_conversation initial_state)"
    "timers (run long_conversation initial_state) = []"
    "lastUserTranscript (run long_conversation initial_state) = []"
    "\<not> playbackDone (run long_conversation initial_state) Ai_a"
    "\<not> coverage (run long_conversation initial_state) k"
    by (simp_all add: long_conversation_def run_append handle_run_opening_fields opening_requests)
qed

lemma run_timer_first:
  assumes "timers s = (key, d) # rest" and "aiSockets s key = Open"
  shows "toProvider (run_timer 0 s) key = toProvider s key @ [Response_create]"
  using assms by (simp add: run_timer_def timer_body_def socket_send_def)

text \<open>The state in which the bound on the turns has just ended the session.\<close>

lemma forty_turns:
  "sessionEnded (run (long_conversation @ [Provider Ai_a (Transcript_finished plain_text)]) initial_state)"
  "sessionEndReason (run (long_conversation @ [Provider Ai_a (Transcript_finished plain_text)]) initial_state)
     = Some Max_turns"
  "aiSockets (run (long_conversation @ [Provider Ai_a (Transcript_finished plain_text)]) initial_state) Ai_a
     = Open"
  "timers (run (long_conversation @ [Provider Ai_a (Transcript_finished plain_text)]) initial_state) = []"
  by (simp_all add: run_snoc onTranscriptDone_ended onTranscriptDone_reason onTranscriptDone_gate
        plain_text_facts long_conversation_fields MAX_TURNS_def)

section \<open>A turn that waits for its playback\<close>

lemma opening_turn_flags:
  "\<not> audioDone (run session_opening initial_state) key"
  "\<not> transcriptDone (run session_opening initial_state) key"
  by (cases key;
      simp add: session_opening_def onStart_def onReady_def Let_def initial_state_def
        requestAiResponse_def)+

lemma unplayed_turn_fields:
  "audioDone (run unplayed_turn initial_state) Ai_a"
  "transcriptDone (run unplayed_turn initial_state) Ai_a"
  "\<not> playbackDone (run unplayed_turn initial_state) Ai_a"
  "timers (run unplayed_turn initial_state) = []"
  "autoMode (run unplayed_turn initial_state)"
  "\<not> sessionEnded (run unplayed_turn initial_state)"
  "aiSockets (run unplayed_turn initial_state) key = Open"
  "sessionReady (run unplayed_turn initial_state) key"
  "lastUserTranscript (run unplayed_turn initial_state) = []"
proof -
  define s0 where "s0 = run session_opening initial_state"
  define s1 where "s1 = handle (Provider Ai_a Audio_finished) s0"
  define s2 where "s2 = handle (Provider Ai_a (Transcript_finished plain_text)) s1"
  have s0: "\<not> audioDone s0 Ai_a" "\<not> transcriptDone s0 Ai_a" "\<not> playbackDone s0 Ai_a"
    "autoMode s0" "\<not> sessionEnded s0" "aiSockets s0 key = Open" "timers s0 = []"
    "lastUserTranscript s0 = []" "totalTurns s0 = 0" "sessionReady s0 key"
    by (cases key;
        simp add: s0_def opening_turn_flags opening_flags handle_run_opening_fields
          opening_requests)+
  have gate1: "\<not> (transcriptDone s0 Ai_a \<and> playbackDone s0 Ai_a \<and> autoMode s0 \<and> \<not> userSpeaking s0
              \<and> \<not> sessionEnded s0)"
    by (simp add: s0)
  have s1: "audioDone s1 Ai_a" "\<not> playbackDone s1 Ai_a" "timers s1 = []"
    "autoMode s1" "\<not> sessionEnded s1" "aiSockets s1 key = Open" "lastUserTranscript s1 = []"
    "totalTurns s1 = 0" "sessionReady s1 key"
    by (simp_all add: s1_def onAudioDone_gate [OF gate1] s0)
  have gate2: "\<not> (audioDone s1 Ai_a \<and> playbackDone s1 Ai_a \<and> autoMode s1 \<and> \<not> userSpeaking s1
              \<and> \<not> sessionEnded s1)"
    by (simp add: s1)
  have s2: "audioDone s2 Ai_a" "transcriptDone s2 Ai_a" "\<not> playbackDone s2 Ai_a" "timers s2 = []"
    "autoMode s2" "\<not> sessionEnded s2" "aiSockets s2 key = Open" "sessionReady s2 key"
    "lastUserTranscript s2 = []"
    using plain_transcript_step [of s1 Ai_a]
    by (simp_all add: s2_def onTranscriptDone_gate [OF gate2] s1 MAX_TURNS_def)
  have "run unplayed_turn initial_state = s2"
    by (simp only: unplayed_turn_def run_append run.simps s2_def s1_def s0_def)
  with s2 show "audioDone (run unplayed_turn initial_state) Ai_a"
    "transcriptDone (run unplayed_turn initial_state) Ai_a"
    "\<not> playbackDone (run unplayed_turn initial_state) Ai_a"
    "timers (run unplayed_turn initial_state) = []"
    "autoMode (run unplayed_turn initial_state)"
    "\<not> sessionEnded (run unplayed_turn initial_state)"
    "aiSockets (run unplayed_turn initial_state) key = Open"
    "sessionReady (run unplayed_turn initial_state) key"
    "lastUserTranscript (run unplayed_turn initial_state) = []"
    by simp_all
qed

lemma early_start_fields:
  "\<not> turn_complete key (run early_start initial_state)"
  "currentTurn (run early_start initial_state) key = 0"
  "currentTurn (run (early_start @ [Provider Ai_b Ready]) initial_state) Ai_a = 1"
  "currentTurn (run (early_start @ [Provider Ai_b Ready]) initial_state) Ai_b = 0"
  by (simp_all add: early_start_def onStart_def onReady_def Let_def initial_state_def
        turn_complete_def requestAiResponse_currentTurn sendToClient_def)

section \<open>A request on a socket that is not open\<close>

text \<open>
  Claim C10. A generation request for a role whose provider socket is not open does
  nothing at all: \<open>requestAiResponse\<close> returns the state it was given, so the turn counter
  of the role, its per-turn flags and buffers, the pending tasks and the messages sent to
  the provider are all unchanged. The same holds for the client message \<open>request_ai\<close>,
  which only calls \<open>requestAiResponse\<close>.
\<close>

theorem request_on_closed_socket_is_noop:
  "aiSockets s key \<noteq> Open \<Longrightarrow>
     requestAiResponse key delayMs s = s \<and>
     handle (Client (Request_ai (Some key))) s = s"
  by (simp add: requestAiResponse_def)

theorem request_on_closed_socket_is_noop_witness:
  "aiSockets initial_state Ai_b \<noteq> Open \<and>
   requestAiResponse Ai_b 450 initial_state = initial_state \<and>
   handle (Client (Request_ai (Some Ai_b))) initial_state = initial_state"
proof -
  have closed: "aiSockets initial_state Ai_b \<noteq> Open"
    by (simp add: initial_state_def)
  from request_on_closed_socket_is_noop [OF closed, of 450] closed show ?thesis
    by simp
qed

section \<open>A stale playback acknowledgment\<close>

text \<open>
  Claim C2. A message \<open>audio_playback_done\<close> whose \<open>turnId\<close> differs from the current
  turn of its target role is discarded: the handler returns before it touches anything,
  so the whole state of the connection is the one before the message. In particular
  \<open>playbackDone\<close> is not set and \<open>checkTurnCompletion\<close> does not run. The claim is about a
  message that carries a \<open>turnId\<close>: any number that is not the current turn is rejected,
  an older turn as well as one that was never issued. (A message without the field
  \<open>turnId\<close> has no turn to compare; the handler takes it for the current turn.)
\<close>

theorem stale_playback_ack_discarded:
  "turnId \<noteq> int (currentTurn s target) \<Longrightarrow>
     handle (Client (Audio_playback_done (Some target) (Some turnId))) s = s"
  by (simp add: onAudioPlaybackDone_def)

theorem stale_playback_ack_discarded_witness:
  "(0::int) \<noteq> int (currentTurn (requestAiResponse Ai_a 0 (handle (Ai_socket Ai_a Open) initial_state)) Ai_a) \<and>
   handle (Client (Audio_playback_done (Some Ai_a) (Some 0)))
       (requestAiResponse Ai_a 0 (handle (Ai_socket Ai_a Open) initial_state))
     = requestAiResponse Ai_a 0 (handle (Ai_socket Ai_a Open) initial_state)"
proof -
  have stale: "(0::int) \<noteq> int (currentTurn (requestAiResponse Ai_a 0 (handle (Ai_socket Ai_a Open) initial_state)) Ai_a)"
    by (simp add: requestAiResponse_def logEvent_def initial_state_def)
  from stale_playback_ack_discarded [OF stale] stale show ?thesis
    by blast
qed

section \<open>The bound on the number of turns\<close>

text \<open>
  Claim C5. When a finalized transcript of either role has no closing marker and brings
  \<open>totalTurns\<close> to \<open>MAX_TURNS\<close> or more, the session is ended after the event, whatever
  the coverage is: the theorem has no hypothesis on \<open>coverage\<close>. The transition of a
  running session gives the reason \<open>max_turns\<close>; a session that had ended before keeps
  the reason it ended with (\<open>endSession\<close> returns at once on an ended session).
\<close>

theorem max_turns_ends_session:
  assumes "\<not> has_end_marker (final_text key transcript s)"
    and "MAX_TURNS \<le> totalTurns s + 1"
  shows "sessionEnded (handle (Provider key (Transcript_finished transcript)) s) \<and>
         sessionEndReason (handle (Provider key (Transcript_finished transcript)) s)
           = (if sessionEnded s then sessionEndReason s else Some Max_turns) \<and>
         totalTurns (handle (Provider key (Transcript_finished transcript)) s) = totalTurns s + 1"
  using assms
  by (simp add: onTranscriptDone_ended onTranscriptDone_reason onTranscriptDone_policy)

theorem max_turns_ends_session_witness:
  "\<not> has_end_marker (final_text Ai_b plain_text (run long_conversation initial_state)) \<and>
   MAX_TURNS \<le> totalTurns (run long_conversation initial_state) + 1 \<and>
   \<not> hasAllCoverage (coverage (run long_conversation initial_state)) \<and>
   \<not> sessionEnded (run long_conversation initial_state) \<and>
   sessionEnded
     (handle (Provider Ai_b (Transcript_finished plain_text)) (run long_conversation initial_state)) \<and>
   sessionEndReason
     (handle (Provider Ai_b (Transcript_finished plain_text)) (run long_conversation initial_state))
     = Some Max_turns"
proof -
  have no_marker: "\<not> has_end_marker (final_text Ai_b plain_text (run long_conversation initial_state))"
    by (simp add: plain_text_facts)
  have enough: "MAX_TURNS \<le> totalTurns (run long_conversation initial_state) + 1"
    by (simp add: long_conversation_fields MAX_TURNS_def)
  have before: "\<not> hasAllCoverage (coverage (run long_conversation initial_state))"
    "\<not> sessionEnded (run long_conversation initial_state)"
    by (simp_all add: long_conversation_fields hasAllCoverage_def coverage_keys_def)
  from max_turns_ends_session [OF no_marker enough] no_marker enough before show ?thesis
    by simp
qed

section \<open>Turn identifiers\<close>

text \<open>
  Claim C8. The turn counter of every role starts at 0. After any sequence of events on
  a new connection, the identifiers that \<open>requestAiResponse\<close> has given to a role are
  exactly 1, 2, ..., up to the current value of its counter, in this order: they strictly
  increase and none is used twice. No sequence of events makes a counter smaller (not
  even a new \<open>start\<close>), one event gives a role at most one new turn, and a request that
  passes the guard of \<open>requestAiResponse\<close> adds exactly 1 (one that does not pass it is
  no request at all and leaves the counter alone).
\<close>

theorem turn_ids_strictly_increasing:
  "currentTurn initial_state key = 0 \<and>
   issued key (run es initial_state) = [1..<Suc (currentTurn (run es initial_state) key)] \<and>
   sorted_wrt (<) (issued key (run es initial_state)) \<and>
   distinct (issued key (run es initial_state)) \<and>
   currentTurn s key \<le> currentTurn (run es' s) key \<and>
   turn_step s (handle e s) \<and>
   currentTurn (requestAiResponse key delayMs s) key
     = (if aiSockets s key = Open then currentTurn s key + 1 else currentTurn s key)"
proof -
  have start: "currentTurn initial_state key = 0" "issued key initial_state = []"
    by (simp_all add: initial_state_def issued_def)
  then have ids: "issued key (run es initial_state) = [1..<Suc (currentTurn (run es initial_state) key)]"
    by (intro issued_run) simp
  have "sorted_wrt (<) [1..<Suc (currentTurn (run es initial_state) key)]"
    "distinct [1..<Suc (currentTurn (run es initial_state) key)]"
    by (simp_all only: sorted_wrt_upt distinct_upt)
  with ids start show ?thesis
    by (simp only: currentTurn_run_mono turn_step_handle requestAiResponse_currentTurn simp_thms)
qed

theorem turn_ids_strictly_increasing_witness:
  "currentTurn initial_state Ai_a = 0 \<and>
   currentTurn (run session_opening initial_state) Ai_a = 1 \<and>
   issued Ai_a (run session_opening initial_state) = [1] \<and>
   aiSockets (run session_opening initial_state) Ai_a = Open \<and>
   currentTurn (requestAiResponse Ai_a 450 (run session_opening initial_state)) Ai_a = 2"
  using turn_ids_strictly_increasing [of Ai_a session_opening "run session_opening initial_state" "[]" "Timer 0" 450]
  by (simp add: opening_requests handle_run_opening_fields)

section \<open>Events that the protocol of a turn does not foresee\<close>

text \<open>
  The message handler does not check the target of \<open>audio_playback_done\<close>. After the
  opening of a session no flag of any role holds. An acknowledgment without \<open>turnId\<close>
  whose target names an inherited member passes the test of \<open>checkTurnCompletion\<close> all
  the same, and the interviewer is asked for a new turn.
\<close>

lemma inherited_target_requests:
  "\<not> turn_complete Ai_a (run session_opening initial_state) \<and>
   \<not> turn_complete Ai_b (run session_opening initial_state) \<and>
   requested (run session_opening initial_state)
       (handle (Client (Audio_playback_done_untyped Inherited None))
          (run session_opening initial_state)) = [Ai_a] \<and>
   timers (handle (Client (Audio_playback_done_untyped Inherited None))
             (run session_opening initial_state)) = [(Ai_a, 450)]"
  by (simp add: turn_complete_def opening_turn_flags requested_def request_next_eq
        requestAiResponse_currentTurn requestAiResponse_timers handle_run_opening_fields
        opening_requests)

lemma superseded_turn_fields:
  "currentTurn (run superseded_turn initial_state) Ai_a = 2"
  "currentTurn (run superseded_turn initial_state) Ai_b = 0"
  "timers (run superseded_turn initial_state) = [(Ai_a, 350)]"
  "toProvider (run superseded_turn initial_state) Ai_a = [Response_create]"
  "audioDone (run superseded_turn initial_state) Ai_a"
  "transcriptDone (run superseded_turn initial_state) Ai_a"
  "\<not> playbackDone (run superseded_turn initial_state) Ai_a"
  "autoMode (run superseded_turn initial_state)"
  "\<not> userSpeaking (run superseded_turn initial_state)"
  "\<not> sessionEnded (run superseded_turn initial_state)"
  "queuedNextKeys (run superseded_turn initial_state) = []"
  "aiSockets (run superseded_turn initial_state) key = Open"
proof -
  define s0 where "s0 = run session_opening initial_state"
  define s1 where "s1 = handle (Client (User_done 2000)) s0"
  define s2 where "s2 = handle (Provider Ai_a Audio_finished) s1"
  define s3 where "s3 = handle (Provider Ai_a (Transcript_finished plain_text)) s2"
  have s0: "autoMode s0" "\<not> sessionEnded s0" "aiSockets s0 key = Open" "aiSockets s0 Ai_a = Open"
    "timers s0 = []" "lastUserTranscript s0 = []" "totalTurns s0 = 0"
    "currentTurn s0 Ai_a = 1" "currentTurn s0 Ai_b = 0" "toProvider s0 Ai_a = [Response_create]"
    by (cases key; simp add: s0_def handle_run_opening_fields opening_requests)+
  have "s1 = requestAiResponse Ai_a 350 (s0\<lparr>userSpeaking := False, queuedNextKeys := []\<rparr>)"
    by (simp add: s1_def onUserDone_def Let_def next_keys_def s0)
  then have s1: "currentTurn s1 Ai_a = 2" "currentTurn s1 Ai_b = 0" "timers s1 = [(Ai_a, 350)]"
    "toProvider s1 Ai_a = [Response_create]" "\<not> audioDone s1 Ai_a" "\<not> transcriptDone s1 Ai_a"
    "\<not> playbackDone s1 Ai_a" "autoMode s1" "\<not> userSpeaking s1" "\<not> sessionEnded s1"
    "queuedNextKeys s1 = []" "aiSockets s1 key = Open" "totalTurns s1 = 0"
    by (simp_all add: requestAiResponse_currentTurn requestAiResponse_timers
          requestAiResponse_flags s0)
  have gate1: "\<not> (transcriptDone s1 Ai_a \<and> playbackDone s1 Ai_a \<and> autoMode s1 \<and> \<not> userSpeaking s1
              \<and> \<not> sessionEnded s1)"
    by (simp add: s1)
  have s2: "currentTurn s2 Ai_a = 2" "currentTurn s2 Ai_b = 0" "timers s2 = [(Ai_a, 350)]"
    "toProvider s2 Ai_a = [Response_create]" "audioDone s2 Ai_a" "\<not> transcriptDone s2 Ai_a"
    "\<not> playbackDone s2 Ai_a" "autoMode s2" "\<not> userSpeaking s2" "\<not> sessionEnded s2"
    "queuedNextKeys s2 = []" "aiSockets s2 key = Open" "totalTurns s2 = 0"
    by (simp_all add: s2_def onAudioDone_gate [OF gate1] s1)
  have gate2: "\<not> (audioDone s2 Ai_a \<and> playbackDone s2 Ai_a \<and> autoMode s2 \<and> \<not> userSpeaking s2
              \<and> \<not> sessionEnded s2)"
    by (simp add: s2)
  have queue: "queuedNextKeys (onTranscriptDone Ai_a plain_text s2) = []"
    by (simp add: onTranscriptDone_def Let_def end_evaluation_def plain_text_facts
          checkTurnCompletion_queue advancing_def turn_complete_def s2 MAX_TURNS_def)
  have s3: "currentTurn s3 Ai_a = 2" "currentTurn s3 Ai_b = 0" "timers s3 = [(Ai_a, 350)]"
    "toProvider s3 Ai_a = [Response_create]" "audioDone s3 Ai_a" "transcriptDone s3 Ai_a"
    "\<not> playbackDone s3 Ai_a" "autoMode s3" "\<not> userSpeaking s3" "\<not> sessionEnded s3"
    "queuedNextKeys s3 = []" "aiSockets s3 key = Open"
    using plain_transcript_step [of s2 Ai_a]
    by (simp_all add: s3_def onTranscriptDone_gate [OF gate2] onTranscriptDone_toProvider_self
          plain_text_facts queue s2 MAX_TURNS_def)
  have "run superseded_turn initial_state = s3"
    by (simp only: superseded_turn_def run_append run.simps s3_def s2_def s1_def s0_def)
  with s3 show "currentTurn (run superseded_turn initial_state) Ai_a = 2"
  "currentTurn (run superseded_turn initial_state) Ai_b = 0"
  "timers (run superseded_turn initial_state) = [(Ai_a, 350)]"
  "toProvider (run superseded_turn initial_state) Ai_a = [Response_create]"
  "audioDone (run superseded_turn initial_state) Ai_a"
  "transcriptDone (run superseded_turn initial_state) Ai_a"
  "\<not> playbackDone (run superseded_turn initial_state) Ai_a"
  "autoMode (run superseded_turn initial_state)"
  "\<not> userSpeaking (run superseded_turn initial_state)"
  "\<not> sessionEnded (run superseded_turn initial_state)"
  "queuedNextKeys (run superseded_turn initial_state) = []"
  "aiSockets (run superseded_turn initial_state) key = Open"
    by simp_all
qed

text \<open>
  The provider events carry no turn number. When \<open>user_done\<close> has given the interviewer
  its second turn, the task that sends \<open>response.create\<close> for it is still pending, and the
  provider has received one \<open>response.create\<close> only. The audio-done and transcript-done
  events that arrive now set the flags of the second turn, and the acknowledgment that
  carries the number 2 asks the candidate for a response.
\<close>

lemma superseded_turn_completes:
  "currentTurn (run superseded_turn initial_state) Ai_a = 2 \<and>
   timers (run superseded_turn initial_state) = [(Ai_a, 350)] \<and>
   toProvider (run superseded_turn initial_state) Ai_a = [Response_create] \<and>
   audioDone (run superseded_turn initial_state) Ai_a \<and>
   transcriptDone (run superseded_turn initial_state) Ai_a \<and>
   requested (run superseded_turn initial_state)
     (handle (Client (Audio_playback_done (Some Ai_a) (Some 2))) (run superseded_turn initial_state))
     = [Ai_b] \<and>
   timers (handle (Client (Audio_playback_done (Some Ai_a) (Some 2))) (run superseded_turn initial_state))
     = [(Ai_a, 350), (Ai_b, 450)]"
  by (simp add: superseded_turn_fields requested_def onAudioPlaybackDone_def logEvent_def
        checkTurnCompletion_currentTurn checkTurnCompletion_timers advancing_def turn_complete_def
        next_key_def)

section \<open>The completion of a turn\<close>

text \<open>
  A generation request is a call of \<open>requestAiResponse\<close> that passes its guard: it gives
  the role a new turn and schedules the task that sends \<open>response.create\<close>.

  Claim C1, as stated, fails in its second half: not every event waits for the three
  flags. The first turn of the interviewer has its audio and its transcript, and the
  client has not acknowledged the playback. Each of \<open>user_done\<close>, \<open>request_ai\<close> and
  \<open>start\<close> then gives the interviewer a new turn, although \<open>playbackDone\<close> is false.
  Likewise, when \<open>start\<close> came before the providers were ready, the \<open>ready\<close> of the
  second provider asks the interviewer while no flag of any role holds.
\<close>

theorem requests_before_playback_ack:
  "audioDone (run unplayed_turn initial_state) Ai_a \<and>
   transcriptDone (run unplayed_turn initial_state) Ai_a \<and>
   \<not> playbackDone (run unplayed_turn initial_state) Ai_a \<and>
   requested (run unplayed_turn initial_state)
       (run (unplayed_turn @ [Client (User_done 2000)]) initial_state) = [Ai_a] \<and>
   timers (run (unplayed_turn @ [Client (User_done 2000)]) initial_state) = [(Ai_a, 350)] \<and>
   requested (run unplayed_turn initial_state)
       (run (unplayed_turn @ [Client (Request_ai (Some Ai_a))]) initial_state) = [Ai_a] \<and>
   requested (run unplayed_turn initial_state)
       (run (unplayed_turn @ [Client Start]) initial_state) = [Ai_a] \<and>
   \<not> turn_complete Ai_a (run early_start initial_state) \<and>
   \<not> turn_complete Ai_b (run early_start initial_state) \<and>
   requested (run early_start initial_state)
       (run (early_start @ [Provider Ai_b Ready]) initial_state) = [Ai_a]"
proof -
  note s2 = unplayed_turn_fields
  have "handle (Client (User_done 2000)) (run unplayed_turn initial_state)
      = requestAiResponse Ai_a 350
          ((run unplayed_turn initial_state)\<lparr>userSpeaking := False, queuedNextKeys := []\<rparr>)"
    by (simp add: onUserDone_def Let_def next_keys_def s2)
  then have interrupted:
    "requested (run unplayed_turn initial_state)
       (handle (Client (User_done 2000)) (run unplayed_turn initial_state)) = [Ai_a]"
    "timers (handle (Client (User_done 2000)) (run unplayed_turn initial_state)) = [(Ai_a, 350)]"
    by (simp_all add: requested_def requestAiResponse_currentTurn requestAiResponse_timers s2)
  have manual:
    "requested (run unplayed_turn initial_state)
       (handle (Client (Request_ai (Some Ai_a))) (run unplayed_turn initial_state)) = [Ai_a]"
    by (simp add: requested_def requestAiResponse_currentTurn s2)
  have restart:
    "requested (run unplayed_turn initial_state)
       (handle (Client Start) (run unplayed_turn initial_state)) = [Ai_a]"
    by (simp add: requested_def onStart_def Let_def requestAiResponse_currentTurn s2)
  have deferred:
    "requested (run early_start initial_state)
       (run (early_start @ [Provider Ai_b Ready]) initial_state) = [Ai_a]"
    by (simp add: requested_def early_start_fields)
  from s2(1-3) interrupted manual restart early_start_fields(1) deferred show ?thesis
    unfolding run_snoc by (intro conjI)
qed

text \<open>
  Claim C1, amended. \<open>checkTurnCompletion\<close> does nothing for a role unless \<open>audioDone\<close>,
  \<open>transcriptDone\<close> and \<open>playbackDone\<close> all hold for it, so a turn is complete, and the
  coordinator advances from it, only when the three flags of its role hold. The flags
  are those of the current turn of the role in this sense: an event that gives the role
  a new turn leaves its three flags false, and afterwards \<open>audioDone\<close> is set only by an
  audio-done event of the role, \<open>transcriptDone\<close> only by a transcript-done event of the
  role, and \<open>playbackDone\<close> only by a playback acknowledgment for the role that carries
  the number of its current turn, or no \<open>turnId\<close>.

  When an event arrives and, with the flag that the event itself sets, one of the three
  flags of its role is still false, no role is asked for a response and no task is
  scheduled (the pending tasks stay as they are, but for the task that the event runs).
  This holds for every event of the connection but the four that ask for a response by
  themselves and are not the completion of a turn: \<open>start\<close>, the \<open>ready\<close> that resumes a
  deferred start, \<open>user_done\<close> and \<open>request_ai\<close>.

  Two things are outside this statement. It says nothing of a playback acknowledgment
  without \<open>turnId\<close> whose target names an inherited member instead of a role (lemma
  \<open>inherited_target_requests\<close>). And it does not say to which response of the provider an
  audio-done or transcript-done event belongs, since these events carry no turn number
  (lemma \<open>superseded_turn_completes\<close>).
\<close>

theorem turn_completion_gate:
  "(\<not> turn_complete key s \<longrightarrow>
      checkTurnCompletion key s = s \<and> checkTurnCompletion_untyped (Wrapped key) s = s) \<and>
   (\<not> explicit_request e s \<and> \<not> inherited_ack e \<and> \<not> others_done e s \<longrightarrow>
      requested s (handle e s) = [] \<and>
      (timers (handle e s) = timers s \<or>
       (\<exists>i. e = Timer i \<and> timers (handle e s) = take i (timers s) @ drop (Suc i) (timers s)))) \<and>
   (key \<in> set (requested s (handle e s)) \<longrightarrow>
      \<not> audioDone (handle e s) key \<and> \<not> transcriptDone (handle e s) key \<and>
      \<not> playbackDone (handle e s) key) \<and>
   (audioDone (handle e s) key \<and> \<not> audioDone s key \<longrightarrow> e = Provider key Audio_finished) \<and>
   (transcriptDone (handle e s) key \<and> \<not> transcriptDone s key \<longrightarrow>
      (\<exists>transcript. e = Provider key (Transcript_finished transcript))) \<and>
   (playbackDone (handle e s) key \<and> \<not> playbackDone s key \<longrightarrow>
      (\<exists>turnId. (turnId = None \<or> turnId = Some (int (currentTurn s key))) \<and>
         (e = Client (Audio_playback_done (Some key) turnId) \<or>
          e = Client (Audio_playback_done_untyped (Wrapped key) turnId))))"
proof -
  have gate: "\<not> turn_complete key s \<longrightarrow>
      checkTurnCompletion key s = s \<and> checkTurnCompletion_untyped (Wrapped key) s = s"
    by (auto simp: checkTurnCompletion_idle advancing_def turn_complete_def)
  have quiet: "\<not> explicit_request e s \<and> \<not> inherited_ack e \<and> \<not> others_done e s \<longrightarrow>
      requested s (handle e s) = [] \<and>
      (timers (handle e s) = timers s \<or>
       (\<exists>i. e = Timer i \<and> timers (handle e s) = take i (timers s) @ drop (Suc i) (timers s)))"
    using gate_no_request [of e s] by (simp add: requested_empty)
  have member: "key \<in> set (requested s (handle e s))
      \<longleftrightarrow> currentTurn (handle e s) key \<noteq> currentTurn s key"
    by (cases key) (auto simp: requested_def)
  from turn_flags_handle [of e key s] gate quiet show ?thesis
    unfolding turn_flags_def member by blast
qed

theorem turn_completion_gate_witness:
  "\<not> turn_complete Ai_a (run unplayed_turn initial_state) \<and>
   checkTurnCompletion Ai_a (run unplayed_turn initial_state) = run unplayed_turn initial_state \<and>
   \<not> explicit_request (Provider Ai_a Audio_finished) (run unplayed_turn initial_state) \<and>
   \<not> inherited_ack (Provider Ai_a Audio_finished) \<and>
   \<not> others_done (Provider Ai_a Audio_finished) (run unplayed_turn initial_state) \<and>
   requested (run unplayed_turn initial_state)
       (handle (Provider Ai_a Audio_finished) (run unplayed_turn initial_state))
     = [] \<and>
   Ai_a \<in> set (requested (run unplayed_turn initial_state)
                  (handle (Client (User_done 2000)) (run unplayed_turn initial_state))) \<and>
   audioDone (run unplayed_turn initial_state) Ai_a \<and>
   \<not> audioDone (handle (Client (User_done 2000)) (run unplayed_turn initial_state)) Ai_a \<and>
   \<not> transcriptDone (handle (Client (User_done 2000)) (run unplayed_turn initial_state)) Ai_a \<and>
   \<not> playbackDone (handle (Client (User_done 2000)) (run unplayed_turn initial_state)) Ai_a \<and>
   \<not> explicit_request (Provider Ai_a Ready) initial_state \<and>
   requested initial_state (handle (Provider Ai_a Ready) initial_state) = []"
proof -
  have waiting: "\<not> explicit_request (Provider Ai_a Ready) initial_state"
    "\<not> inherited_ack (Provider Ai_a Ready)"
    "\<not> others_done (Provider Ai_a Ready) initial_state"
    by (simp_all add: initial_state_def)
  from turn_completion_gate [of Ai_a initial_state "Provider Ai_a Ready"] waiting
  have ready: "requested initial_state (handle (Provider Ai_a Ready) initial_state) = []"
    by blast
  have flags: "\<not> turn_complete Ai_a (run unplayed_turn initial_state)"
    by (simp add: turn_complete_def unplayed_turn_fields)
  have event: "\<not> explicit_request (Provider Ai_a Audio_finished) (run unplayed_turn initial_state)"
    "\<not> inherited_ack (Provider Ai_a Audio_finished)"
    "\<not> others_done (Provider Ai_a Audio_finished) (run unplayed_turn initial_state)"
    by (simp_all add: unplayed_turn_fields)
  have "handle (Client (User_done 2000)) (run unplayed_turn initial_state)
      = requestAiResponse Ai_a 350
          ((run unplayed_turn initial_state)\<lparr>userSpeaking := False, queuedNextKeys := []\<rparr>)"
    by (simp add: onUserDone_def Let_def next_keys_def unplayed_turn_fields)
  then have asked:
    "Ai_a \<in> set (requested (run unplayed_turn initial_state)
                  (handle (Client (User_done 2000)) (run unplayed_turn initial_state)))"
    by (simp add: requested_def requestAiResponse_currentTurn unplayed_turn_fields)
  from turn_completion_gate [of Ai_a "run unplayed_turn initial_state" "Provider Ai_a Audio_finished"]
       flags event
  have first: "checkTurnCompletion Ai_a (run unplayed_turn initial_state) = run unplayed_turn initial_state"
    "requested (run unplayed_turn initial_state)
       (handle (Provider Ai_a Audio_finished) (run unplayed_turn initial_state)) = []"
    by blast+
  from turn_completion_gate [of Ai_a "run unplayed_turn initial_state" "Client (User_done 2000)"]
       asked
  have cleared:
    "\<not> audioDone (handle (Client (User_done 2000)) (run unplayed_turn initial_state)) Ai_a"
    "\<not> transcriptDone (handle (Client (User_done 2000)) (run unplayed_turn initial_state)) Ai_a"
    "\<not> playbackDone (handle (Client (User_done 2000)) (run unplayed_turn initial_state)) Ai_a"
    by blast+
  from flags event first asked unplayed_turn_fields(1) cleared waiting(1) ready show ?thesis
    by (intro conjI)
qed

section \<open>A closing marker that is ignored\<close>

text \<open>
  Claim C3, as stated, fails: when the guard fails only because there are too few turns
  and every topic is covered, nothing is sent to the interviewer. Here the first
  utterance of the interviewer names all six topics and closes: the session goes on, and
  the only message on the socket of the interviewer is the \<open>response.create\<close> of the
  opening.
\<close>

theorem ignored_marker_without_missing_topic_sends_nothing:
  "has_end_marker (all_topics @ closing_marker) \<and>
   totalTurns (run (session_opening @ [Provider Ai_a (Transcript_finished (all_topics @ closing_marker))])
      initial_state) < MIN_TURNS \<and>
   hasAllCoverage (coverage
     (run (session_opening @ [Provider Ai_a (Transcript_finished (all_topics @ closing_marker))])
        initial_state)) \<and>
   \<not> sessionEnded
     (run (session_opening @ [Provider Ai_a (Transcript_finished (all_topics @ closing_marker))])
        initial_state) \<and>
   aiSockets
     (run (session_opening @ [Provider Ai_a (Transcript_finished (all_topics @ closing_marker))])
        initial_state) Ai_a = Open \<and>
   toProvider
     (run (session_opening @ [Provider Ai_a (Transcript_finished (all_topics @ closing_marker))])
        initial_state) Ai_a = [Response_create]"
proof -
  have text_facts:
    "has_end_marker (all_topics @ closing_marker)"
    "strip_ws (all_topics @ closing_marker) = all_topics @ closing_marker"
    by (simp_all add: has_end_marker_def includes_any_def endMarkers_def all_topics_def
          closing_marker_def strip_ws_def is_space_def)
  have covered: "includes_any (coverage_words k) (all_topics @ closing_marker)" for k
    by (cases k) (simp_all add: includes_any_def all_topics_def closing_marker_def)
  then have all_covered: "hasAllCoverage (updateCoverage (all_topics @ closing_marker) cov)" for cov
    by (simp add: hasAllCoverage_def coverage_keys_def updateCoverage_apply text_facts
          del: coverage_words.simps)
  have final: "final_text Ai_a (all_topics @ closing_marker) s = all_topics @ closing_marker" for s
    by (simp add: final_text_def all_topics_def)
  show ?thesis
    by (simp add: run_snoc onTranscriptDone_policy onTranscriptDone_ended
          onTranscriptDone_toProvider_self final text_facts all_covered
          hasAllCoverage_missing [symmetric] handle_run_opening_fields opening_requests
          MIN_TURNS_def)
qed

text \<open>
  Claim C3, amended. When a finalized transcript of the interviewer has a closing marker
  and the guard fails (fewer than \<open>MIN_TURNS\<close> turns with this one, or a topic not
  covered once this utterance has been scanned), a running session does not end. If the
  socket of the interviewer is open and at least one topic is still missing, exactly one
  message is sent to the interviewer: the text that asks to continue, with the labels of
  the missing topics, each missing topic once and no other. If no topic is missing or the
  socket is not open, nothing is sent to the interviewer.
\<close>

theorem ignored_marker_names_missing_topics:
  assumes marker: "has_end_marker (final_text Ai_a transcript s)"
    and running: "\<not> sessionEnded s"
    and guard: "\<not> (MIN_TURNS \<le> totalTurns s + 1 \<and>
                   hasAllCoverage (updateCoverage (final_text Ai_a transcript s) (coverage s)))"
  shows "\<not> sessionEnded (handle (Provider Ai_a (Transcript_finished transcript)) s) \<and>
         coverage (handle (Provider Ai_a (Transcript_finished transcript)) s)
           = updateCoverage (final_text Ai_a transcript s) (coverage s) \<and>
         toProvider (handle (Provider Ai_a (Transcript_finished transcript)) s) Ai_a
           = toProvider s Ai_a @
             (if aiSockets s Ai_a = Open
                 \<and> missing_keys (coverage (handle (Provider Ai_a (Transcript_finished transcript)) s)) \<noteq> []
              then [Conversation_item_create
                      (continue_text
                         (join (ascii '', '')
                            (map coverageLabels
                               (missing_keys (coverage (handle (Provider Ai_a (Transcript_finished transcript)) s))))))]
              else []) \<and>
         set (missing_keys (coverage (handle (Provider Ai_a (Transcript_finished transcript)) s)))
           = {k. \<not> coverage (handle (Provider Ai_a (Transcript_finished transcript)) s) k} \<and>
         distinct (missing_keys (coverage (handle (Provider Ai_a (Transcript_finished transcript)) s)))"
  using assms
  by (auto simp: onTranscriptDone_ended onTranscriptDone_policy onTranscriptDone_toProvider_self
        missing_keys_exact listMissingCoverage_def)

theorem ignored_marker_names_missing_topics_witness:
  "has_end_marker (final_text Ai_a closing_marker (run session_opening initial_state)) \<and>
   \<not> sessionEnded (run session_opening initial_state) \<and>
   \<not> (MIN_TURNS \<le> totalTurns (run session_opening initial_state) + 1 \<and>
      hasAllCoverage
        (updateCoverage (final_text Ai_a closing_marker (run session_opening initial_state))
           (coverage (run session_opening initial_state)))) \<and>
   \<not> sessionEnded
       (handle (Provider Ai_a (Transcript_finished closing_marker)) (run session_opening initial_state)) \<and>
   missing_keys
       (coverage
          (handle (Provider Ai_a (Transcript_finished closing_marker))
             (run session_opening initial_state)))
     = [Experience, Motivation, Language, Shift, Stamina, Visa] \<and>
   toProvider
       (handle (Provider Ai_a (Transcript_finished closing_marker)) (run session_opening initial_state))
       Ai_a
     = [Response_create,
        Conversation_item_create
          (continue_text
             (join (ascii '', '')
                (map coverageLabels [Experience, Motivation, Language, Shift, Stamina, Visa])))]"
proof -
  have marker: "has_end_marker (final_text Ai_a closing_marker (run session_opening initial_state))"
    by (simp add: final_text_def has_end_marker_def includes_any_def endMarkers_def
          closing_marker_def)
  have running: "\<not> sessionEnded (run session_opening initial_state)"
    by (simp add: handle_run_opening_fields)
  have guard: "\<not> (MIN_TURNS \<le> totalTurns (run session_opening initial_state) + 1 \<and>
      hasAllCoverage
        (updateCoverage (final_text Ai_a closing_marker (run session_opening initial_state))
           (coverage (run session_opening initial_state))))"
    by (simp add: handle_run_opening_fields MIN_TURNS_def)
  have no_topic: "\<not> includes_any (coverage_words k) closing_marker" for k
    by (cases k) (simp_all add: includes_any_def closing_marker_def)
  have final: "final_text Ai_a closing_marker (run session_opening initial_state) = closing_marker"
    "strip_ws closing_marker = closing_marker"
    by (simp_all add: final_text_def closing_marker_def strip_ws_def is_space_def)
  have missing: "missing_keys
       (coverage
          (handle (Provider Ai_a (Transcript_finished closing_marker))
             (run session_opening initial_state)))
     = [Experience, Motivation, Language, Shift, Stamina, Visa]"
    by (simp add: onTranscriptDone_policy missing_keys_def coverage_keys_def updateCoverage_apply
          handle_run_opening_fields final no_topic del: coverage_words.simps)
  note amended = ignored_marker_names_missing_topics [OF marker running guard]
  from amended have goes_on: "\<not> sessionEnded
       (handle (Provider Ai_a (Transcript_finished closing_marker)) (run session_opening initial_state))"
    by (rule conjunct1)
  from amended have "toProvider
       (handle (Provider Ai_a (Transcript_finished closing_marker)) (run session_opening initial_state))
       Ai_a
     = toProvider (run session_opening initial_state) Ai_a @
       (if aiSockets (run session_opening initial_state) Ai_a = Open
           \<and> missing_keys
               (coverage
                  (handle (Provider Ai_a (Transcript_finished closing_marker))
                     (run session_opening initial_state))) \<noteq> []
        then [Conversation_item_create
                (continue_text
                   (join (ascii '', '')
                      (map coverageLabels
                         (missing_keys
                            (coverage
                               (handle (Provider Ai_a (Transcript_finished closing_marker))
                                  (run session_opening initial_state)))))))]
        else [])"
    by blast
  then have sent: "toProvider
       (handle (Provider Ai_a (Transcript_finished closing_marker)) (run session_opening initial_state))
       Ai_a
     = [Response_create,
        Conversation_item_create
          (continue_text
             (join (ascii '', '')
                (map coverageLabels [Experience, Motivation, Language, Shift, Stamina, Visa])))]"
    unfolding missing by (simp only: handle_run_opening_fields opening_requests) simp
  from marker running guard goes_on missing sent show ?thesis
    by (intro conjI)
qed

section \<open>Routing after a human utterance\<close>

text \<open>
  Claim C4, as stated, fails on the order. The human says a word for the candidate and a
  word for the interviewer, and \<open>user_done\<close> arrives half a second later: the decision is
  \<open>both\<close>, the role that is asked at once is \<open>ai_a\<close>, the interviewer, and \<open>ai_b\<close>, the
  candidate, waits in the queue.
\<close>

theorem both_hints_ask_interviewer_first:
  "pickNextSpeaker both_hints = Some Both \<and>
   lastUserTranscript
       (run (session_opening @ [Provider Ai_a (Input_transcript_done both_hints 1000)]) initial_state)
     = both_hints \<and>
   requested
       (run (session_opening @ [Provider Ai_a (Input_transcript_done both_hints 1000)]) initial_state)
       (run (session_opening @ [Provider Ai_a (Input_transcript_done both_hints 1000),
                                Client (User_done 1500)]) initial_state)
     = [Ai_a] \<and>
   timers
       (run (session_opening @ [Provider Ai_a (Input_transcript_done both_hints 1000),
                                Client (User_done 1500)]) initial_state)
     = [(Ai_a, 350)] \<and>
   queuedNextKeys
       (run (session_opening @ [Provider Ai_a (Input_transcript_done both_hints 1000),
                                Client (User_done 1500)]) initial_state)
     = [Ai_b] \<and>
   profile_name Ai_a = ascii ''Interviewer''"
proof -
  have hints: "includes_any candidateHints (strip_ws both_hints)"
    "includes_any interviewerHints (strip_ws both_hints)"
    "js_trim both_hints = both_hints" "both_hints \<noteq> []"
    by (simp_all add: includes_any_def candidateHints_def interviewerHints_def both_hints_def
          strip_ws_def js_trim_def is_space_def)
  then have both: "pickNextSpeaker both_hints = Some Both"
    by (simp add: pickNextSpeaker_both)
  define s1 where
    "s1 = run (session_opening @ [Provider Ai_a (Input_transcript_done both_hints 1000)]) initial_state"
  have s1: "lastUserTranscript s1 = both_hints" "lastUserTranscriptAt s1 = 1000"
    "autoMode s1" "\<not> sessionEnded s1" "aiSockets s1 Ai_a = Open" "timers s1 = []"
    by (simp_all add: s1_def run_snoc onInputTranscriptDone_def Let_def hints
          handle_run_opening_fields opening_requests)
  have keys: "next_keys 1500 (s1\<lparr>userSpeaking := False\<rparr>) = [Ai_a, Ai_b]"
    by (simp add: next_keys_def s1 hints both)
  have step: "handle (Client (User_done 1500)) s1
      = requestAiResponse Ai_a 350 (s1\<lparr>userSpeaking := False, queuedNextKeys := [Ai_b]\<rparr>)"
    by (simp add: onUserDone_def Let_def keys s1)
  have "requested s1 (handle (Client (User_done 1500)) s1) = [Ai_a]"
    "timers (handle (Client (User_done 1500)) s1) = [(Ai_a, 350)]"
    "queuedNextKeys (handle (Client (User_done 1500)) s1) = [Ai_b]"
    unfolding step
    by (simp_all add: requested_def requestAiResponse_currentTurn requestAiResponse_timers s1)
  with both s1(1) show ?thesis
    by (simp add: s1_def run_snoc [of "_ @ [_]", simplified])
qed

text \<open>
  Claim C4, amended. In a running automatic session, when the last human transcript is
  fresh (not empty, finalized less than 5000 ms before \<open>user_done\<close>) and matches both
  keyword sets, the decision is \<open>both\<close> and the order is interviewer first, then
  candidate: \<open>user_done\<close> asks the interviewer (after 350 ms) and leaves the candidate
  alone in the queue, so that the next completed turn asks the candidate. A transcript
  that matches neither set gives the decision \<open>null\<close>; with that decision, or with a
  transcript that is empty or not fresh, \<open>user_done\<close> asks the interviewer and leaves
  the queue empty. Asking the interviewer gives it a new turn and schedules the send
  when its socket is open.
\<close>

theorem user_done_routing:
  assumes "autoMode s" and "\<not> sessionEnded s"
  shows
    "(lastUserTranscript s \<noteq> [] \<and> now - lastUserTranscriptAt s < 5000
        \<and> includes_any candidateHints (strip_ws (lastUserTranscript s))
        \<and> includes_any interviewerHints (strip_ws (lastUserTranscript s)) \<longrightarrow>
        pickNextSpeaker (lastUserTranscript s) = Some Both
        \<and> handle (Client (User_done now)) s
            = requestAiResponse Ai_a 350 (s\<lparr>userSpeaking := False, queuedNextKeys := [Ai_b]\<rparr>)
        \<and> queuedNextKeys (handle (Client (User_done now)) s) = [Ai_b]
        \<and> next_key key (handle (Client (User_done now)) s) = Ai_b) \<and>
     (\<not> includes_any candidateHints (strip_ws (lastUserTranscript s))
        \<and> \<not> includes_any interviewerHints (strip_ws (lastUserTranscript s)) \<longrightarrow>
        pickNextSpeaker (lastUserTranscript s) = None) \<and>
     (lastUserTranscript s = [] \<or> 5000 \<le> now - lastUserTranscriptAt s
        \<or> (\<not> includes_any candidateHints (strip_ws (lastUserTranscript s))
            \<and> \<not> includes_any interviewerHints (strip_ws (lastUserTranscript s))) \<longrightarrow>
        handle (Client (User_done now)) s
          = requestAiResponse Ai_a 350 (s\<lparr>userSpeaking := False, queuedNextKeys := []\<rparr>)) \<and>
     (aiSockets s Ai_a = Open \<longrightarrow>
        currentTurn (requestAiResponse Ai_a 350 (s\<lparr>userSpeaking := False, queuedNextKeys := q\<rparr>)) Ai_a
          = currentTurn s Ai_a + 1
        \<and> timers (requestAiResponse Ai_a 350 (s\<lparr>userSpeaking := False, queuedNextKeys := q\<rparr>))
          = timers s @ [(Ai_a, 350)])"
proof -
  have both: "handle (Client (User_done now)) s
        = requestAiResponse Ai_a 350 (s\<lparr>userSpeaking := False, queuedNextKeys := [Ai_b]\<rparr>)"
    if "lastUserTranscript s \<noteq> []" "now - lastUserTranscriptAt s < 5000"
      "includes_any candidateHints (strip_ws (lastUserTranscript s))"
      "includes_any interviewerHints (strip_ws (lastUserTranscript s))"
    using that assms by (simp add: onUserDone_def Let_def next_keys_def pickNextSpeaker_both)
  have single: "handle (Client (User_done now)) s
        = requestAiResponse Ai_a 350 (s\<lparr>userSpeaking := False, queuedNextKeys := []\<rparr>)"
    if "lastUserTranscript s = [] \<or> 5000 \<le> now - lastUserTranscriptAt s
        \<or> (\<not> includes_any candidateHints (strip_ws (lastUserTranscript s))
            \<and> \<not> includes_any interviewerHints (strip_ws (lastUserTranscript s)))"
    using that assms by (auto simp: onUserDone_def Let_def next_keys_def pickNextSpeaker_none)
  show ?thesis
    using both single
    by (auto simp: pickNextSpeaker_both pickNextSpeaker_none next_key_def
          requestAiResponse_currentTurn requestAiResponse_timers)
qed

theorem user_done_routing_witness:
  "autoMode (run (session_opening @ [Provider Ai_a (Input_transcript_done both_hints 1000)]) initial_state) \<and>
   \<not> sessionEnded (run (session_opening @ [Provider Ai_a (Input_transcript_done both_hints 1000)]) initial_state) \<and>
   lastUserTranscript (run (session_opening @ [Provider Ai_a (Input_transcript_done both_hints 1000)]) initial_state) \<noteq> [] \<and>
   1500 - lastUserTranscriptAt (run (session_opening @ [Provider Ai_a (Input_transcript_done both_hints 1000)]) initial_state) < 5000 \<and>
   includes_any candidateHints
     (strip_ws (lastUserTranscript (run (session_opening @ [Provider Ai_a (Input_transcript_done both_hints 1000)]) initial_state))) \<and>
   includes_any interviewerHints
     (strip_ws (lastUserTranscript (run (session_opening @ [Provider Ai_a (Input_transcript_done both_hints 1000)]) initial_state))) \<and>
   queuedNextKeys
     (handle (Client (User_done 1500))
        (run (session_opening @ [Provider Ai_a (Input_transcript_done both_hints 1000)]) initial_state))
     = [Ai_b] \<and>
   autoMode (run session_opening initial_state) \<and>
   \<not> sessionEnded (run session_opening initial_state) \<and>
   lastUserTranscript (run session_opening initial_state) = [] \<and>
   aiSockets (run session_opening initial_state) Ai_a = Open \<and>
   handle (Client (User_done 1500)) (run session_opening initial_state)
     = requestAiResponse Ai_a 350
         ((run session_opening initial_state)\<lparr>userSpeaking := False, queuedNextKeys := []\<rparr>)"
proof -
  define s1 where
    "s1 = run (session_opening @ [Provider Ai_a (Input_transcript_done both_hints 1000)]) initial_state"
  have hints: "includes_any candidateHints (strip_ws both_hints)"
    "includes_any interviewerHints (strip_ws both_hints)"
    "js_trim both_hints = both_hints" "both_hints \<noteq> []"
    by (simp_all add: includes_any_def candidateHints_def interviewerHints_def both_hints_def
          strip_ws_def js_trim_def is_space_def)
  have s1: "lastUserTranscript s1 = both_hints" "lastUserTranscriptAt s1 = 1000"
    "autoMode s1" "\<not> sessionEnded s1"
    by (simp_all add: s1_def run_snoc onInputTranscriptDone_def Let_def hints
          handle_run_opening_fields)
  have fresh: "lastUserTranscript s1 \<noteq> []" "1500 - lastUserTranscriptAt s1 < 5000"
    "includes_any candidateHints (strip_ws (lastUserTranscript s1))"
    "includes_any interviewerHints (strip_ws (lastUserTranscript s1))"
    by (simp_all add: s1 hints)
  from user_done_routing [OF s1(3) s1(4), of 1500] fresh
  have queue: "queuedNextKeys (handle (Client (User_done 1500)) s1) = [Ai_b]"
    by blast
  have s0: "autoMode (run session_opening initial_state)"
    "\<not> sessionEnded (run session_opening initial_state)"
    "lastUserTranscript (run session_opening initial_state) = []"
    "aiSockets (run session_opening initial_state) Ai_a = Open"
    by (simp_all add: handle_run_opening_fields)
  from user_done_routing [OF s0(1) s0(2), of 1500] s0(3)
  have single: "handle (Client (User_done 1500)) (run session_opening initial_state)
     = requestAiResponse Ai_a 350
         ((run session_opening initial_state)\<lparr>userSpeaking := False, queuedNextKeys := []\<rparr>)"
    by blast
  from s1(3) s1(4) fresh queue s0 single show ?thesis
    unfolding s1_def by (intro conjI)
qed

section \<open>Which transcripts are evaluated for the end of the session\<close>




section \<open>Coverage of the topics\<close>

text \<open>
  Claim C9, as stated, fails: the other five flags do not always stay false. The shift
  keyword "working hours" begins with the experience keyword "work", so the utterance
  that consists of this one shift keyword sets both \<open>shift\<close> and \<open>experience\<close>.
\<close>

theorem shift_keyword_also_flips_experience:
  "includes_any (coverage_words Shift) (strip_ws working_hours) \<and>
   map (coverage (run session_opening initial_state)) coverage_keys
     = [False, False, False, False, False, False] \<and>
   map (coverage
          (run (session_opening @ [Provider Ai_a (Transcript_finished working_hours)]) initial_state))
       coverage_keys
     = [True, False, False, True, False, False]"
proof -
  have final: "final_text Ai_a working_hours s = working_hours"
    "strip_ws working_hours = working_hours" for s
    by (simp_all add: final_text_def working_hours_def strip_ws_def is_space_def)
  have found: "map (\<lambda>k. includes_any (coverage_words k) working_hours) coverage_keys
      = [True, False, False, True, False, False]"
    by (simp add: coverage_keys_def includes_any_def working_hours_def)
  then show ?thesis
    by (simp add: run_snoc onTranscriptDone_policy updateCoverage_apply final
          handle_run_opening_fields coverage_keys_def del: coverage_words.simps)
qed

text \<open>
  Claim C9, amended. From a coverage that is all false, a finalized utterance of the
  interviewer that contains a shift keyword (once its white space is removed) sets
  \<open>shift\<close>, and sets each of the six flags exactly when the utterance without its white
  space contains a keyword of that topic: the other five stay false when it has none of
  their keywords. A keyword is contained when it occurs as a contiguous run. No event
  but \<open>start\<close> makes a flag that is true false again.
\<close>

theorem shift_utterance_coverage:
  assumes "\<forall>k. \<not> coverage s k"
    and "includes_any (coverage_words Shift) (strip_ws (final_text Ai_a transcript s))"
  shows "coverage (handle (Provider Ai_a (Transcript_finished transcript)) s) Shift \<and>
         (\<forall>k. coverage (handle (Provider Ai_a (Transcript_finished transcript)) s) k
                = includes_any (coverage_words k) (strip_ws (final_text Ai_a transcript s))) \<and>
         (\<forall>ws t. includes_any ws t = (\<exists>w\<in>set ws. \<exists>pre post. t = pre @ w @ post)) \<and>
         (\<forall>e st k. e \<noteq> Client Start \<and> coverage st k \<longrightarrow> coverage (handle e st) k)"
  using assms
  by (auto simp: onTranscriptDone_policy updateCoverage_apply coverage_handle_mono
        includes_any_iff [symmetric] simp del: coverage_words.simps)

theorem shift_utterance_coverage_witness:
  "(\<forall>k. \<not> coverage (run session_opening initial_state) k) \<and>
   includes_any (coverage_words Shift)
     (strip_ws (final_text Ai_a night_shift (run session_opening initial_state))) \<and>
   map (coverage (handle (Provider Ai_a (Transcript_finished night_shift))
                    (run session_opening initial_state)))
       coverage_keys
     = [False, False, False, True, False, False]"
proof -
  have final: "final_text Ai_a night_shift s = night_shift"
    "strip_ws night_shift = night_shift" for s
    by (simp_all add: final_text_def night_shift_def strip_ws_def is_space_def)
  have found: "map (\<lambda>k. includes_any (coverage_words k) night_shift) coverage_keys
      = [False, False, False, True, False, False]"
    by (simp add: coverage_keys_def includes_any_def night_shift_def)
  have start: "\<forall>k. \<not> coverage (run session_opening initial_state) k"
    by (simp add: handle_run_opening_fields)
  have shift: "includes_any (coverage_words Shift)
     (strip_ws (final_text Ai_a night_shift (run session_opening initial_state)))"
    using found by (simp add: final coverage_keys_def del: coverage_words.simps)
  from shift_utterance_coverage [OF start shift]
  have "\<forall>k. coverage (handle (Provider Ai_a (Transcript_finished night_shift))
                    (run session_opening initial_state)) k
              = includes_any (coverage_words k) night_shift"
    by (simp only: final) blast
  then have "coverage (handle (Provider Ai_a (Transcript_finished night_shift))
                    (run session_opening initial_state))
              = (\<lambda>k. includes_any (coverage_words k) night_shift)"
    by (simp only: fun_eq_iff simp_thms)
  with found have "map (coverage (handle (Provider Ai_a (Transcript_finished night_shift))
                    (run session_opening initial_state))) coverage_keys
     = [False, False, False, True, False, False]"
    by (simp only:)
  with start shift show ?thesis
    by (intro conjI)
qed

section \<open>After the end of the session\<close>

text \<open>
  Claim C7, as stated, fails. The session ends at the fortieth turn. First, the manual
  message \<open>request_ai\<close> that arrives afterwards is honoured: the interviewer gets a new
  turn, and the task sends \<open>response.create\<close>. Second, a request made just before the
  end is not withdrawn: \<open>user_done\<close> arrives after 39 turns and schedules the request,
  the fortieth transcript ends the session within the delay, and the task still sends
  \<open>response.create\<close> to the interviewer of the ended session.
\<close>

theorem ended_session_still_requests:
  "sessionEnded (run (long_conversation @ [Provider Ai_a (Transcript_finished plain_text)]) initial_state) \<and>
   sessionEndReason (run (long_conversation @ [Provider Ai_a (Transcript_finished plain_text)]) initial_state)
     = Some Max_turns \<and>
   requested
       (run (long_conversation @ [Provider Ai_a (Transcript_finished plain_text)]) initial_state)
       (run (long_conversation @ [Provider Ai_a (Transcript_finished plain_text),
                                  Client (Request_ai (Some Ai_a))]) initial_state)
     = [Ai_a] \<and>
   timers (run (long_conversation @ [Provider Ai_a (Transcript_finished plain_text),
                                     Client (Request_ai (Some Ai_a))]) initial_state)
     = [(Ai_a, 0)] \<and>
   toProvider (run (long_conversation @ [Provider Ai_a (Transcript_finished plain_text),
                                         Client (Request_ai (Some Ai_a)), Timer 0]) initial_state) Ai_a
     = toProvider (run (long_conversation @ [Provider Ai_a (Transcript_finished plain_text)])
                     initial_state) Ai_a
       @ [Response_create] \<and>
   sessionEnded (run (long_conversation @ [Client (User_done 0),
                                           Provider Ai_a (Transcript_finished plain_text)]) initial_state) \<and>
   toProvider (run (long_conversation @ [Client (User_done 0),
                                         Provider Ai_a (Transcript_finished plain_text), Timer 0])
                 initial_state) Ai_a
     = toProvider (run (long_conversation @ [Client (User_done 0),
                                             Provider Ai_a (Transcript_finished plain_text)])
                     initial_state) Ai_a
       @ [Response_create]"
proof -
  define s40 where
    "s40 = run (long_conversation @ [Provider Ai_a (Transcript_finished plain_text)]) initial_state"
  define asked where "asked = handle (Client (Request_ai (Some Ai_a))) s40"
  have s40: "sessionEnded s40" "sessionEndReason s40 = Some Max_turns" "aiSockets s40 Ai_a = Open"
    "timers s40 = []"
    by (simp_all add: s40_def forty_turns)
  have asked: "requested s40 asked = [Ai_a]" "timers asked = [(Ai_a, 0)]"
    "aiSockets asked Ai_a = Open" "toProvider asked = toProvider s40"
    by (simp_all add: asked_def requested_def requestAiResponse_currentTurn
          requestAiResponse_timers s40)
  have sent: "toProvider (handle (Timer 0) asked) Ai_a = toProvider s40 Ai_a @ [Response_create]"
    using run_timer_first [OF asked(2) asked(3)] by (simp add: asked)
  define s39 where "s39 = run long_conversation initial_state"
  define interrupted where "interrupted = handle (Client (User_done 0)) s39"
  define late where "late = handle (Provider Ai_a (Transcript_finished plain_text)) interrupted"
  have s39: "totalTurns s39 = 39" "\<not> sessionEnded s39" "aiSockets s39 Ai_a = Open" "autoMode s39"
    "timers s39 = []" "lastUserTranscript s39 = []"
    by (simp_all add: s39_def long_conversation_fields)
  have interrupted_eq: "interrupted
      = requestAiResponse Ai_a 350 (s39\<lparr>userSpeaking := False, queuedNextKeys := []\<rparr>)"
    by (simp add: interrupted_def onUserDone_def Let_def next_keys_def s39)
  have interrupted: "totalTurns interrupted = 39" "\<not> sessionEnded interrupted"
    "aiSockets interrupted Ai_a = Open" "timers interrupted = [(Ai_a, 350)]"
    "\<not> playbackDone interrupted Ai_a"
    by (simp_all add: interrupted_eq requestAiResponse_timers s39)
       (simp add: requestAiResponse_def Let_def s39)
  have late: "sessionEnded late" "timers late = [(Ai_a, 350)]" "aiSockets late Ai_a = Open"
    by (simp_all add: late_def onTranscriptDone_ended onTranscriptDone_gate plain_text_facts
          interrupted MAX_TURNS_def)
  have late_sent: "toProvider (handle (Timer 0) late) Ai_a = toProvider late Ai_a @ [Response_create]"
    using run_timer_first [OF late(2) late(3)] by simp
  have runs:
    "run (long_conversation @ [Provider Ai_a (Transcript_finished plain_text),
                               Client (Request_ai (Some Ai_a))]) initial_state = asked"
    "run (long_conversation @ [Provider Ai_a (Transcript_finished plain_text),
                               Client (Request_ai (Some Ai_a)), Timer 0]) initial_state
       = handle (Timer 0) asked"
    "run (long_conversation @ [Client (User_done 0),
                               Provider Ai_a (Transcript_finished plain_text)]) initial_state = late"
    "run (long_conversation @ [Client (User_done 0),
                               Provider Ai_a (Transcript_finished plain_text), Timer 0]) initial_state
       = handle (Timer 0) late"
    by (simp_all only: run_append run.simps asked_def s40_def late_def interrupted_def s39_def)
  from s40 asked sent late late_sent show ?thesis
    unfolding runs unfolding s40_def [symmetric] by (intro conjI)
qed

text \<open>
  Claim C7, amended. \<open>endSession\<close> ends the session and, when it was running, empties
  the queue. On a connection that started from the initial state, once the session has
  ended and until the next \<open>start\<close>, every event other than \<open>start\<close> and the manual
  \<open>request_ai\<close> leaves the session ended, makes no generation request (no role gets a
  new turn and no task is scheduled: the pending tasks stay as they are, but for the task
  that the event runs), and finds and leaves the queue empty. This covers the completion of a turn
  and \<open>user_done\<close>. A \<open>request_ai\<close> is still honoured, and a task scheduled before the
  end still runs.
\<close>

theorem ended_session_makes_no_request:
  assumes "sessionEnded (run es initial_state)"
    and "e \<noteq> Client Start" and "\<forall>target. e \<noteq> Client (Request_ai target)"
  shows "sessionEnded (handle e (run es initial_state)) \<and>
         requested (run es initial_state) (handle e (run es initial_state)) = [] \<and>
         (timers (handle e (run es initial_state)) = timers (run es initial_state) \<or>
          (\<exists>i. e = Timer i \<and>
             timers (handle e (run es initial_state))
               = take i (timers (run es initial_state)) @ drop (Suc i) (timers (run es initial_state)))) \<and>
         queuedNextKeys (run es initial_state) = [] \<and>
         queuedNextKeys (handle e (run es initial_state)) = [] \<and>
         sessionEnded (endSession reason s) \<and>
         queuedNextKeys (endSession reason s) = (if sessionEnded s then queuedNextKeys s else [])"
proof -
  have inv: "ended_inv (run es initial_state)" "ended_inv (handle e (run es initial_state))"
    using ended_inv_reachable [of es] ended_inv_reachable [of "es @ [e]"]
    by (simp_all add: run_snoc)
  with assms(1) have manual: "\<not> autoMode (run es initial_state)"
    and empty: "queuedNextKeys (run es initial_state) = []"
    by (simp_all add: ended_inv_def)
  note quiet = ended_quiet [OF assms(1) manual assms(2) assms(3)]
  with inv(2) have "queuedNextKeys (handle e (run es initial_state)) = []"
    by (simp add: ended_inv_def)
  with quiet empty show ?thesis
    by (simp add: requested_empty endSession_effect)
qed

theorem ended_session_makes_no_request_witness:
  "sessionEnded (run (long_conversation @ [Provider Ai_a (Transcript_finished plain_text)]) initial_state) \<and>
   Client (User_done 0) \<noteq> Client Start \<and>
   (\<forall>target. Client (User_done 0) \<noteq> Client (Request_ai target)) \<and>
   sessionEnded
     (handle (Client (User_done 0))
        (run (long_conversation @ [Provider Ai_a (Transcript_finished plain_text)]) initial_state)) \<and>
   requested
     (run (long_conversation @ [Provider Ai_a (Transcript_finished plain_text)]) initial_state)
     (handle (Client (User_done 0))
        (run (long_conversation @ [Provider Ai_a (Transcript_finished plain_text)]) initial_state))
     = [] \<and>
   queuedNextKeys
     (handle (Client (User_done 0))
        (run (long_conversation @ [Provider Ai_a (Transcript_finished plain_text)]) initial_state))
     = []"
proof -
  have ended: "sessionEnded
      (run (long_conversation @ [Provider Ai_a (Transcript_finished plain_text)]) initial_state)"
    by (rule forty_turns)
  have event: "Client (User_done 0) \<noteq> Client Start"
    "\<forall>target. Client (User_done 0) \<noteq> Client (Request_ai target)"
    by simp_all
  from ended_session_makes_no_request [OF ended event] ended event show ?thesis
    by blast
qed

end
